(* ===== verification/Prelude.thy ===== *)
theory Prelude
  imports Main "HOL-Library.AList" "HOL-Library.Sublist"
begin

text \<open>
  Shared vocabulary of the development: the named theorem collections the
  component theories fill, the generic facts on association lists (the
  model of JavaScript's ordered own properties) and on splitting a list at
  a separator element (the model of \<open>String.prototype.split\<close> with a
  one-character separator), which several components use.
\<close>

named_theorems js_run
  "equations that evaluate the effect combinators of the runtime model"
named_theorems js_eval
  "equations that evaluate the JavaScript value operations on concrete data"

type_synonym 'v props = "(string \<times> 'v) list"

subsection \<open>Association lists as ordered property tables\<close>

lemma map_of_update_same [simp]: "map_of (AList.update k v al) k = Some v"
  by (simp add: AList.update_conv')

lemma map_of_update_other [simp]:
  "k' \<noteq> k \<Longrightarrow> map_of (AList.update k v al) k' = map_of al k'"
  by (simp add: AList.update_conv')

lemma update_keys_set [simp]:
  "set (map fst (AList.update k v al)) = insert k (set (map fst al))"
  by (auto simp add: AList.update_keys)

lemma update_existing_keys:
  "k \<in> set (map fst al) \<Longrightarrow> map fst (AList.update k v al) = map fst al"
  by (simp add: AList.update_keys)

lemma update_fresh_append:
  "k \<notin> set (map fst al) \<Longrightarrow> AList.update k v al = al @ [(k, v)]"
  by (induction al) auto

lemma distinct_update_keys [intro]:
  "distinct (map fst al) \<Longrightarrow> distinct (map fst (AList.update k v al))"
  by (rule AList.distinct_update)

lemma map_of_rev_distinct:
  "distinct (map fst xs) \<Longrightarrow> map_of (rev xs) = map_of xs"
proof (induction xs)
  case Nil
  then show ?case by simp
next
  case (Cons p xs)
  then have "fst p \<notin> fst ` set xs" by simp
  then have "map_of xs (fst p) = None" by (simp add: map_of_eq_None_iff)
  with Cons show ?case
    by (cases p) (auto simp: map_add_def fun_eq_iff split: option.splits)
qed

lemma length_update_le: "length (AList.update k v al) \<le> Suc (length al)"
  by (induction al) auto

subsection \<open>Splitting at a separator\<close>

text \<open>
  \<open>split_on c xs\<close> cuts \<open>xs\<close> at every occurrence of \<open>c\<close>; empty pieces are
  kept and the result is never empty, as JavaScript's
  \<open>"a,,b".split(",")\<close> gives \<open>["a", "", "b"]\<close> and \<open>"".split(",")\<close> gives
  \<open>[""]\<close>.
\<close>

fun split_on :: "'a \<Rightarrow> 'a list \<Rightarrow> 'a list list" where
  "split_on c [] = [[]]"
| "split_on c (x # xs) =
     (let ps = split_on c xs in
      if x = c then [] # ps else (x # hd ps) # tl ps)"

lemma split_on_nonempty [simp]: "split_on c xs \<noteq> []"
  by (induction xs) (auto simp: Let_def)

lemma split_on_Cons_hd: "split_on c xs = hd (split_on c xs) # tl (split_on c xs)"
  by simp

text \<open>\<open>join_with c ps\<close> is \<open>ps.join(c)\<close>: the pieces with \<open>c\<close> between them.\<close>

fun join_with :: "'a \<Rightarrow> 'a list list \<Rightarrow> 'a list" where
  "join_with c [] = []"
| "join_with c [p] = p"
| "join_with c (p # q # ps) = p @ c # join_with c (q # ps)"

text \<open>\<open>join_sep sep ps\<close> is \<open>ps.join(sep)\<close> for a separator string.\<close>

fun join_sep :: "'a list \<Rightarrow> 'a list list \<Rightarrow> 'a list" where
  "join_sep sep [] = []"
| "join_sep sep [p] = p"
| "join_sep sep (p # q # ps) = p @ sep @ join_sep sep (q # ps)"

lemma join_with_Cons_hd: "join_with c ((x # p) # ps) = x # join_with c (p # ps)"
  by (cases ps) auto

lemma join_with_split_on [simp]: "join_with c (split_on c xs) = xs"
proof (induction xs)
  case Nil
  then show ?case by simp
next
  case (Cons x xs)
  obtain p ps where ps: "split_on c xs = p # ps"
    by (cases "split_on c xs") auto
  with Cons.IH have "join_with c (p # ps) = xs" by simp
  then show ?case
    by (auto simp: ps Let_def join_with_Cons_hd)
qed

lemma split_on_pieces: "p \<in> set (split_on c xs) \<Longrightarrow> c \<notin> set p"
proof (induction xs arbitrary: p)
  case Nil
  then show ?case by simp
next
  case (Cons x xs)
  obtain q qs where qs: "split_on c xs = q # qs"
    by (cases "split_on c xs") auto
  from Cons.prems show ?case
    using Cons.IH by (auto simp: qs Let_def split: if_splits)
qed

lemma length_split_on: "length (split_on c xs) = Suc (count_list xs c)"
proof (induction xs)
  case Nil
  then show ?case by simp
next
  case (Cons x xs)
  obtain q qs where "split_on c xs = q # qs"
    by (cases "split_on c xs") auto
  with Cons.IH show ?case by (simp add: Let_def)
qed

lemma split_on_no_sep: "c \<notin> set xs \<Longrightarrow> split_on c xs = [xs]"
  by (induction xs) (auto simp: Let_def)

lemma split_on_append_sep:
  "c \<notin> set p \<Longrightarrow> split_on c (p @ c # xs) = p # split_on c xs"
proof (induction p)
  case Nil
  then show ?case by simp
next
  case (Cons y p)
  then show ?case by (auto simp add: Let_def)
qed

lemma split_on_join_with:
  "ps \<noteq> [] \<Longrightarrow> (\<forall>p \<in> set ps. c \<notin> set p) \<Longrightarrow> split_on c (join_with c ps) = ps"
proof (induction ps)
  case Nil
  then show ?case by simp
next
  case (Cons p ps)
  show ?case
  proof (cases ps)
    case Nil
    with Cons.prems show ?thesis by (simp add: split_on_no_sep)
  next
    case (Cons q qs)
    with Cons.prems Cons.IH show ?thesis
      by (simp add: split_on_append_sep)
  qed
qed

end
