(* ===== verification/JsValue.thy ===== *)
theory JsValue
  imports Prelude
begin

text \<open>
  The JavaScript values the two commands handle: \<open>undefined\<close>, \<open>null\<close>,
  booleans, numbers, strings, arrays, plain objects, and the host functions
  of the chat-service client (no functions defined in JavaScript, no
  symbols, no prototypes other than \<open>Object.prototype\<close>). Numbers are exact
  decimals \<open>m * 10 ^ e\<close>, which is what a JSON literal denotes; binary64
  rounding is not modelled. Strings are lists of characters, read as
  UTF-16 code units below 256. The theory holds the value operations the
  source applies: truthiness (\<open>if (flags.image)\<close>, \<open>x || ''\<close>),
  \<open>ToString\<close> (template literals), the enumeration order of own property
  keys, \<open>Object.assign\<close> and \<open>String.prototype.split\<close>.
\<close>

datatype jnum = JDec int int

text \<open>The host functions the programs can reach: the methods of the
  chat-service client. A function value is a \<open>JFun\<close> of one of them.\<close>

datatype host_fn = HostUpdateAppSettings

definition host_name :: "host_fn \<Rightarrow> string" where
  "host_name f = (case f of HostUpdateAppSettings \<Rightarrow> ''updateAppSettings'')"

datatype jsval =
    JUndef
  | JNull
  | JBool bool
  | JNum jnum
  | JStr string
  | JArr "jsval list"
  | JObj "jsval props"
  | JFun host_fn

subsection \<open>Numbers\<close>

text \<open>
  A decimal is normalised when its mantissa has no trailing zero digit; zero
  is \<open>JDec 0 0\<close>. Two normalised decimals are equal exactly when they denote
  the same number.
\<close>

function dec_norm :: "int \<Rightarrow> int \<Rightarrow> jnum" where
  "dec_norm m e =
     (if m = 0 then JDec 0 0
      else if m mod 10 = 0 then dec_norm (m div 10) (e + 1)
      else JDec m e)"
  by pat_completeness auto
termination
  by (relation "measure (\<lambda>(m, e). nat \<bar>m\<bar>)") auto

declare dec_norm.simps [simp del]

fun dec_normal :: "jnum \<Rightarrow> bool" where
  "dec_normal (JDec m e) = (if m = 0 then e = 0 else m mod 10 \<noteq> 0)"

subsection \<open>Digits\<close>

definition digit_char :: "nat \<Rightarrow> char" where
  "digit_char d = char_of (48 + d)"

fun nat_digits :: "nat \<Rightarrow> string" where
  "nat_digits n = (if n < 10 then [digit_char n] else nat_digits (n div 10) @ [digit_char (n mod 10)])"

declare nat_digits.simps [simp del]

lemma nat_digits_0: "nat_digits 0 = ''0''"
  by code_simp

lemma nat_digits_1: "nat_digits 1 = ''1''"
  by code_simp

lemma digit_char_U: "d < 10 \<Longrightarrow> digit_char d \<noteq> CHR ''U''"
proof
  assume "d < 10" "digit_char d = CHR ''U''"
  then have "(of_char (char_of (48 + d) :: char) :: nat) = of_char CHR ''U''"
    by (simp add: digit_char_def)
  with \<open>d < 10\<close> show False by simp
qed

lemma nat_digits_U: "CHR ''U'' \<notin> set (nat_digits n)"
proof (induction n rule: nat_digits.induct)
  case (1 n)
  then show ?case by (subst nat_digits.simps) (simp add: digit_char_U [THEN not_sym])
qed

definition is_digit :: "char \<Rightarrow> bool" where
  "is_digit c \<longleftrightarrow> 48 \<le> (of_char c :: nat) \<and> (of_char c :: nat) \<le> 57"

definition digit_val :: "char \<Rightarrow> nat" where
  "digit_val c = (of_char c :: nat) - 48"

definition digits_value :: "string \<Rightarrow> nat" where
  "digits_value s = foldl (\<lambda>n c. 10 * n + digit_val c) 0 s"

subsection \<open>Number::toString\<close>

text \<open>
  ECMAScript's \<open>Number::toString\<close> for a positive normalised decimal with
  digit string \<open>ds\<close> (\<open>k\<close> digits) and decimal point position \<open>n = k + e\<close>:
  plain digits padded with zeros up to 21 integer digits, a decimal point
  inside the digits, a \<open>0.000\<close> prefix down to six leading zeros, and the
  exponent form otherwise.
\<close>

definition exp_suffix :: "int \<Rightarrow> string" where
  "exp_suffix x = CHR ''e'' # (if 0 \<le> x then CHR ''+'' else CHR ''-'') # nat_digits (nat \<bar>x\<bar>)"

definition pos_dec_string :: "string \<Rightarrow> int \<Rightarrow> string" where
  "pos_dec_string ds n =
     (let k = int (length ds) in
      if k \<le> n \<and> n \<le> 21 then ds @ replicate (nat (n - k)) (CHR ''0'')
      else if 0 < n \<and> n \<le> 21 then take (nat n) ds @ CHR ''.'' # drop (nat n) ds
      else if -6 < n \<and> n \<le> 0 then CHR ''0'' # CHR ''.'' # replicate (nat (- n)) (CHR ''0'') @ ds
      else if k = 1 then ds @ exp_suffix (n - 1)
      else [hd ds] @ CHR ''.'' # tl ds @ exp_suffix (n - 1))"

fun normal_num_string :: "jnum \<Rightarrow> string" where
  "normal_num_string (JDec m e) =
     (if m = 0 then ''0''
      else (if m < 0 then ''-'' else []) @
           pos_dec_string (nat_digits (nat \<bar>m\<bar>)) (int (length (nat_digits (nat \<bar>m\<bar>))) + e))"

definition num_to_string :: "jnum \<Rightarrow> string" where
  "num_to_string x = normal_num_string (case x of JDec m e \<Rightarrow> dec_norm m e)"

lemma num_to_string_U: "CHR ''U'' \<notin> set (num_to_string x)"
proof -
  have ne: "nat_digits k \<noteq> []" for k by (subst nat_digits.simps) simp
  have "CHR ''U'' \<notin> set (pos_dec_string (nat_digits k) q)" for k q
    using nat_digits_U [of k] nat_digits_U [of "nat \<bar>q - 1\<bar>"] ne [of k]
    by (auto simp: pos_dec_string_def exp_suffix_def Let_def dest: in_set_takeD in_set_dropD
             list.set_sel(1) list.set_sel(2))
  then show ?thesis
    by (cases "case x of JDec m e \<Rightarrow> dec_norm m e") (simp add: num_to_string_def)
qed

subsection \<open>Truthiness, ToString, \<open>||\<close>\<close>

fun truthy :: "jsval \<Rightarrow> bool" where
  "truthy JUndef = False"
| "truthy JNull = False"
| "truthy (JBool b) = b"
| "truthy (JNum (JDec m e)) = (m \<noteq> 0)"
| "truthy (JStr s) = (s \<noteq> [])"
| "truthy (JArr xs) = True"
| "truthy (JObj ps) = True"
| "truthy (JFun f) = True"

definition js_or :: "jsval \<Rightarrow> jsval \<Rightarrow> jsval" where
  "js_or a b = (if truthy a then a else b)"

fun js_to_string :: "jsval \<Rightarrow> string" where
  "js_to_string JUndef = ''undefined''"
| "js_to_string JNull = ''null''"
| "js_to_string (JBool b) = (if b then ''true'' else ''false'')"
| "js_to_string (JNum x) = num_to_string x"
| "js_to_string (JStr s) = s"
| "js_to_string (JArr xs) =
     join_with CHR '','' (map (\<lambda>x. if x = JUndef \<or> x = JNull then [] else js_to_string x) xs)"
| "js_to_string (JObj ps) = ''[object Object]''"
| "js_to_string (JFun f) = ''function '' @ host_name f @ ''() { [native code] }''"

text \<open>\<open>obj.k\<close> on an object's own properties: \<open>undefined\<close> when absent.\<close>

definition prop_get :: "jsval props \<Rightarrow> string \<Rightarrow> jsval" where
  "prop_get ps k = (case map_of ps k of None \<Rightarrow> JUndef | Some v \<Rightarrow> v)"

lemma prop_get_update [simp]:
  "prop_get (AList.update k v ps) k' = (if k' = k then v else prop_get ps k')"
  by (simp add: prop_get_def AList.update_conv')

lemma prop_get_Nil [simp]: "prop_get [] k = JUndef"
  by (simp add: prop_get_def)

subsection \<open>Own property keys and their order\<close>

text \<open>
  \<open>OrdinaryOwnPropertyKeys\<close>: the keys that are array indices (canonical
  decimal numerals below \<open>2 ^ 32 - 1\<close>) come first in ascending numeric
  order, then the other string keys in the order they were created.
\<close>

definition is_array_index :: "string \<Rightarrow> bool" where
  "is_array_index k \<longleftrightarrow>
     k \<noteq> [] \<and> list_all is_digit k \<and> nat_digits (digits_value k) = k
     \<and> digits_value k < 4294967295"

definition own_keys :: "jsval props \<Rightarrow> string list" where
  "own_keys ps =
     (let ks = map fst ps in
      sort_key digits_value (filter is_array_index ks) @ filter (\<lambda>k. \<not> is_array_index k) ks)"

text \<open>
  The own enumerable properties \<open>Object.assign\<close> copies from a source:
  none from \<open>undefined\<close>, \<open>null\<close>, booleans and numbers; the indexed
  characters of a string; the indexed elements of an array (its \<open>length\<close>
  is not enumerable); the own properties of an object in key order.
\<close>

fun enum_own :: "jsval \<Rightarrow> jsval props" where
  "enum_own (JStr s) = map (\<lambda>i. (nat_digits i, JStr [s ! i])) [0..<length s]"
| "enum_own (JArr xs) = map (\<lambda>i. (nat_digits i, xs ! i)) [0..<length xs]"
| "enum_own (JObj ps) = map (\<lambda>k. (k, the (map_of ps k))) (own_keys ps)"
| "enum_own v = []"

subsection \<open>Object.assign\<close>

text \<open>
  \<open>Object.assign\<close> writes with \<open>[[Set]]\<close>. On a plain object the key
  \<open>__proto__\<close> reaches the accessor of \<open>Object.prototype\<close>, which changes the
  prototype and creates no own property; every other key overwrites an
  existing own property in place or appends a new one.
\<close>

definition set_prop :: "jsval props \<Rightarrow> string \<Rightarrow> jsval \<Rightarrow> jsval props" where
  "set_prop t k v = (if k = ''__proto__'' then t else AList.update k v t)"

definition assign_one :: "jsval props \<Rightarrow> jsval \<Rightarrow> jsval props" where
  "assign_one t src = foldl (\<lambda>t (k, v). set_prop t k v) t (enum_own src)"

definition object_assign :: "jsval props \<Rightarrow> jsval list \<Rightarrow> jsval props" where
  "object_assign t srcs = foldl assign_one t srcs"

text \<open>
  Read as maps, assigning an object with distinct keys overrides the
  target's entries by the source's, except for \<open>__proto__\<close>.
\<close>

lemma set_own_keys [simp]: "set (own_keys ps) = set (map fst ps)"
  by (auto simp: own_keys_def Let_def)

lemma distinct_own_keys: "distinct (map fst ps) \<Longrightarrow> distinct (own_keys ps)"
  by (auto simp: own_keys_def Let_def)

lemma map_of_enum_obj:
  "map_of (map (\<lambda>k. (k, the (map_of ps k))) ks) = map_of ps"
  if "set ks = set (map fst ps)"
proof
  fix k
  show "map_of (map (\<lambda>k. (k, the (map_of ps k))) ks) k = map_of ps k"
  proof (cases "map_of ps k")
    case None
    then have "k \<notin> set ks" using that by (simp add: map_of_eq_None_iff)
    with None show ?thesis by (simp add: map_of_map_restrict)
  next
    case (Some v)
    then have "k \<in> set ks" using that by (force dest: map_of_SomeD)
    with Some show ?thesis by (simp add: map_of_map_restrict)
  qed
qed

lemma foldl_set_prop:
  "map_of (foldl (\<lambda>t (k, v). set_prop t k v) t kvs) k =
     (if k = ''__proto__'' then map_of t k else (map_of t ++ map_of (rev kvs)) k)"
proof (induction kvs arbitrary: t)
  case Nil
  then show ?case by simp
next
  case (Cons p kvs)
  then show ?case
    by (cases p) (auto simp: set_prop_def map_add_def AList.update_conv' split: option.splits)
qed

lemma map_of_assign_obj:
  assumes "distinct (map fst ps)"
  shows "map_of (assign_one t (JObj ps)) k =
           (if k = ''__proto__'' then map_of t k else (map_of t ++ map_of ps) k)"
proof -
  let ?kvs = "map (\<lambda>k. (k, the (map_of ps k))) (own_keys ps)"
  have "distinct (map fst ?kvs)"
    using assms by (simp add: distinct_own_keys comp_def)
  then have "map_of (rev ?kvs) = map_of ?kvs" by (rule map_of_rev_distinct)
  also have "\<dots> = map_of ps" by (rule map_of_enum_obj) simp
  finally show ?thesis
    by (simp add: assign_one_def foldl_set_prop)
qed

text \<open>Assigning a plain object (distinct keys, none an array index or
  \<open>__proto__\<close>) into an empty target copies it unchanged.\<close>

lemma own_keys_plain:
  "\<not> list_ex is_array_index (map fst ps) \<Longrightarrow> own_keys ps = map fst ps"
  by (simp add: own_keys_def Let_def list_ex_iff filter_id_conv)

lemma map_key_lookup: "distinct (map fst ps) \<Longrightarrow> map ((\<lambda>k. (k, the (map_of ps k))) \<circ> fst) ps = ps"
  by (rule map_idI) (auto simp: map_of_is_SomeI)

lemma foldl_set_prop_fresh:
  "distinct (map fst (t @ kvs)) \<Longrightarrow> ''__proto__'' \<notin> set (map fst kvs) \<Longrightarrow>
   foldl (\<lambda>t (k, v). set_prop t k v) t kvs = t @ kvs"
proof (induction kvs arbitrary: t)
  case (Cons p kvs)
  obtain k v where p: "p = (k, v)" by fastforce
  with Cons.prems have "set_prop t k v = t @ [(k, v)]"
    by (auto simp: set_prop_def update_fresh_append)
  with Cons.IH [of "t @ [(k, v)]"] Cons.prems p show ?case by simp
qed simp

lemma assign_plain_obj:
  assumes "distinct (map fst ps)" and "\<not> list_ex is_array_index (map fst ps)"
    and "''__proto__'' \<notin> set (map fst ps)"
  shows "assign_one [] (JObj ps) = ps"
  using assms foldl_set_prop_fresh [of "[]" ps]
  by (simp add: assign_one_def own_keys_plain map_key_lookup)

text \<open>The own enumerable properties of a value read as a map, later
  entries winning, as successive \<open>[[Set]]\<close>s leave them.\<close>

definition own_map :: "jsval \<Rightarrow> (string \<rightharpoonup> jsval)" where
  "own_map v = map_of (rev (enum_own v))"

lemma own_map_obj: "distinct (map fst ps) \<Longrightarrow> own_map (JObj ps) = map_of ps"
  unfolding own_map_def
  using map_of_rev_distinct [of "map (\<lambda>k. (k, the (map_of ps k))) (own_keys ps)"]
        map_of_enum_obj [of "own_keys ps" ps]
  by (simp add: distinct_own_keys comp_def)

lemma map_of_assign_one:
  "map_of (assign_one t src) k =
     (if k = ''__proto__'' then map_of t k else (map_of t ++ own_map src) k)"
  by (simp add: assign_one_def foldl_set_prop own_map_def)

lemma map_of_object_assign_two:
  "map_of (object_assign [] [a, b]) = (own_map a ++ own_map b) |` (- {''__proto__''})"
proof
  fix k
  show "map_of (object_assign [] [a, b]) k = ((own_map a ++ own_map b) |` (- {''__proto__''})) k"
    by (simp add: object_assign_def map_of_assign_one restrict_map_def map_add_def
             split: option.split)
qed

subsection \<open>Well-formed values\<close>

text \<open>
  A value is well formed when every object in it has distinct keys, as every
  object JavaScript builds has. \<open>Object.assign\<close> keeps it.
\<close>

fun wf_val :: "jsval \<Rightarrow> bool" where
  "wf_val (JArr xs) = list_all wf_val xs"
| "wf_val (JObj ps) = (distinct (map fst ps) \<and> list_all (\<lambda>p. wf_val (snd p)) ps)"
| "wf_val _ = True"

lemma wf_enum_own: "wf_val v \<Longrightarrow> list_all (\<lambda>p. wf_val (snd p)) (enum_own v)"
proof (cases v)
  case (JObj ps)
  moreover assume "wf_val v"
  ultimately show ?thesis
    by (auto simp: list_all_iff dest!: map_of_SomeD
             intro: list_all_iff[THEN iffD1, rule_format] split: option.splits)
qed (auto simp: list_all_iff)


definition props_ok :: "jsval props \<Rightarrow> bool" where
  "props_ok ps \<longleftrightarrow> distinct (map fst ps) \<and> list_all (\<lambda>p. wf_val (snd p)) ps"

lemma props_ok_update:
  "props_ok ps \<Longrightarrow> wf_val v \<Longrightarrow> props_ok (AList.update k v ps)"
proof (induction ps)
  case Nil
  then show ?case by (simp add: props_ok_def)
next
  case (Cons p ps)
  then show ?case
    by (auto simp: props_ok_def AList.update_keys split: if_splits)
qed

lemma props_ok_assign_one:
  "props_ok t \<Longrightarrow> wf_val src \<Longrightarrow> props_ok (assign_one t src)"
proof -
  assume t: "props_ok t" and src: "wf_val src"
  have "props_ok (foldl (\<lambda>t (k, v). set_prop t k v) t kvs)"
    if "props_ok t" "list_all (\<lambda>p. wf_val (snd p)) kvs" for t kvs
    using that
  proof (induction kvs arbitrary: t)
    case Nil
    then show ?case by simp
  next
    case (Cons p kvs)
    then show ?case
      by (cases p) (simp add: set_prop_def props_ok_update)
  qed
  with t wf_enum_own [OF src] show ?thesis by (simp add: assign_one_def)
qed

lemma props_ok_object_assign:
  "props_ok t \<Longrightarrow> list_all wf_val srcs \<Longrightarrow> props_ok (object_assign t srcs)"
  by (induction srcs arbitrary: t) (simp_all add: object_assign_def props_ok_assign_one)

lemma wf_JObj: "wf_val (JObj ps) = props_ok ps"
  by (simp add: props_ok_def)

lemma wf_prop_get: "props_ok fl \<Longrightarrow> wf_val (prop_get fl k)"
  by (auto simp: props_ok_def prop_get_def list_all_iff dest: map_of_SomeD split: option.split)

subsection \<open>String.prototype.split with a one-character separator\<close>

definition js_split :: "string \<Rightarrow> char \<Rightarrow> string list" where
  "js_split s c = split_on c s"

end
