(* ===== verification/Runtime.thy ===== *)
theory Runtime
  imports JsValue
begin

text \<open>
  The effects a command run has, as an exception-state monad over the
  observable world: lines written by \<open>this.log\<close>, errors reported by the
  oclif error handler, remote operations sent to the chat service, and the
  number of \<open>uuid()\<close> calls made so far. The environment (read-only for a
  run) holds what the commands read from outside: the config directory,
  what authentication and the remote service answer, the uuid generator,
  the local files and the global object of Node.

  Thrown values are JavaScript \<open>Error\<close> objects: a kind and the
  \<open>oclif.exit\<close> field oclif reads when the process ends. \<open>this.exit(n)\<close>
  throws oclif's \<open>ExitError\<close> (exit field \<open>n\<close>); \<open>this.error(err, {exit: k})\<close>
  sets the exit field of \<open>err\<close> to \<open>k\<close> and throws it again; an error the
  flag parser throws is a \<open>CLIError\<close> with exit field 2. The last
  section models oclif's \<open>Command._run\<close> around \<open>run\<close>: the help override
  and the redirect of \<open>catch\<close> to help or version output.
\<close>

datatype err_kind =
    ExitError int
  | ReferenceError string
  | TypeError string
  | SyntaxError string
  | AuthError string
  | RemoteError string
  | FileError string
  | FlagError string

record js_error =
  kind :: err_kind
  oclif_exit :: "int option"

definition mk_error :: "err_kind \<Rightarrow> js_error" where
  "mk_error k = \<lparr>kind = k, oclif_exit = None\<rparr>"

datatype remote_call =
    ChannelCreate jsval jsval jsval
  | UpdateAppSettings jsval

datatype log_line = LogText string | LogFormat string jsval | LogHelp | LogVersion

record env =
  config_dir :: string
  auth_outcome :: "string \<Rightarrow> string option"
  remote_outcome :: "remote_call \<Rightarrow> string option"
  uuid_at :: "nat \<Rightarrow> string"
  fs :: "string \<Rightarrow> string option"
  globals :: "string \<Rightarrow> jsval option"

record world =
  stdout :: "log_line list"
  stderr :: "js_error list"
  calls :: "remote_call list"
  uuid_count :: nat

type_synonym 'a js = "env \<Rightarrow> world \<Rightarrow> (js_error + 'a) \<times> world"

subsection \<open>Combinators\<close>

definition js_return :: "'a \<Rightarrow> 'a js" where
  "js_return a = (\<lambda>e w. (Inr a, w))"

definition js_throw :: "js_error \<Rightarrow> 'a js" where
  "js_throw x = (\<lambda>e w. (Inl x, w))"

definition js_bind :: "'a js \<Rightarrow> ('a \<Rightarrow> 'b js) \<Rightarrow> 'b js" where
  "js_bind m f = (\<lambda>e w. case m e w of (Inl x, w') \<Rightarrow> (Inl x, w') | (Inr a, w') \<Rightarrow> f a e w')"

definition js_then :: "'a js \<Rightarrow> 'b js \<Rightarrow> 'b js" where
  "js_then m k = js_bind m (\<lambda>_. k)"

lemma bind_return: "js_bind (js_return a) f = f a"
  by (simp add: js_bind_def js_return_def)

definition js_when :: "bool \<Rightarrow> unit js \<Rightarrow> unit js" where
  "js_when b m = (if b then m else js_return ())"

text \<open>\<open>try { m } catch (x) { h(x) }\<close>.\<close>

definition js_try :: "'a js \<Rightarrow> (js_error \<Rightarrow> 'a js) \<Rightarrow> 'a js" where
  "js_try m h = (\<lambda>e w. case m e w of (Inl x, w') \<Rightarrow> h x e w' | (Inr a, w') \<Rightarrow> (Inr a, w'))"

lemmas js_combinators [js_run] =
  js_return_def js_throw_def js_bind_def js_then_def js_when_def js_try_def

subsection \<open>oclif's Command: log, exit, error\<close>

definition cmd_log :: "string \<Rightarrow> unit js" where
  "cmd_log s = (\<lambda>e w. (Inr (), w\<lparr>stdout := stdout w @ [LogText s]\<rparr>))"

text \<open>\<open>this.log(msg, arg)\<close> writes \<open>util.format(msg, arg)\<close>; the line keeps
  the format string and the argument.\<close>

definition cmd_log_fmt :: "string \<Rightarrow> jsval \<Rightarrow> unit js" where
  "cmd_log_fmt s a = (\<lambda>e w. (Inr (), w\<lparr>stdout := stdout w @ [LogFormat s a]\<rparr>))"

definition exit_error :: "int \<Rightarrow> js_error" where
  "exit_error n = \<lparr>kind = ExitError n, oclif_exit = Some n\<rparr>"

definition cmd_exit :: "int \<Rightarrow> 'a js" where
  "cmd_exit n = js_throw (exit_error n)"

definition cmd_error :: "js_error \<Rightarrow> int \<Rightarrow> 'a js" where
  "cmd_error x k = js_throw (x\<lparr>oclif_exit := Some k\<rparr>)"

subsection \<open>Node and library calls\<close>

text \<open>\<open>uuid()\<close> (\<open>uuid/v4\<close>): the next identifier of the generator.\<close>

definition uuid_v4 :: "string js" where
  "uuid_v4 = (\<lambda>e w. (Inr (uuid_at e (uuid_count w)), w\<lparr>uuid_count := Suc (uuid_count w)\<rparr>))"

text \<open>\<open>auth(path, cmd)\<close> of \<open>utils/auth\<close>: builds the authenticated client from
  the config file, or fails with the authentication error.\<close>

definition auth_client :: "string \<Rightarrow> unit js" where
  "auth_client path = (\<lambda>e w. case auth_outcome e path of
     None \<Rightarrow> (Inr (), w)
   | Some msg \<Rightarrow> (Inl (mk_error (AuthError msg)), w))"

text \<open>A remote operation is sent (and recorded) before its answer is known.\<close>

definition remote :: "remote_call \<Rightarrow> unit js" where
  "remote c = (\<lambda>e w. let w' = w\<lparr>calls := calls w @ [c]\<rparr> in
     case remote_outcome e c of
       None \<Rightarrow> (Inr (), w')
     | Some msg \<Rightarrow> (Inl (mk_error (RemoteError msg)), w'))"

text \<open>
  \<open>fs.readFileSync(path)\<close> returns a \<open>Buffer\<close> (an object, shown by its
  \<open>toJSON\<close> form), \<open>fs.readFileSync(path, 'utf-8')\<close> a string; a path that is
  not a string is a \<open>TypeError\<close>, a missing file an \<open>ENOENT\<close> error.
\<close>

definition buffer_of :: "string \<Rightarrow> jsval" where
  "buffer_of s = JObj [(''type'', JStr ''Buffer''),
                       (''data'', JArr (map (\<lambda>c. JNum (JDec (int (of_char c)) 0)) s))]"

definition read_file :: "jsval \<Rightarrow> bool \<Rightarrow> jsval js" where
  "read_file p utf8 = (\<lambda>e w. case p of
     JStr path \<Rightarrow>
       (case fs e path of
          None \<Rightarrow> (Inl (mk_error (FileError
                      (''ENOENT: no such file or directory, open '' @ path))), w)
        | Some s \<Rightarrow> (Inr (if utf8 then JStr s else buffer_of s), w))
   | _ \<Rightarrow> (Inl (mk_error (TypeError ''The path argument must be of type string'')), w))"

text \<open>
  An identifier that no enclosing scope declares is looked up on the global
  object; when the global object has no such property the reference throws.
\<close>

definition resolve_global :: "string \<Rightarrow> jsval js" where
  "resolve_global x = (\<lambda>e w. case globals e x of
     None \<Rightarrow> (Inl (mk_error (ReferenceError (x @ '' is not defined''))), w)
   | Some v \<Rightarrow> (Inr v, w))"

text \<open>Member access \<open>v.k\<close> on the values of the model.\<close>

definition get_member :: "jsval \<Rightarrow> string \<Rightarrow> jsval js" where
  "get_member v k = (case v of
     JUndef \<Rightarrow> js_throw (mk_error (TypeError
                 (''Cannot read property '' @ k @ '' of undefined'')))
   | JNull \<Rightarrow> js_throw (mk_error (TypeError (''Cannot read property '' @ k @ '' of null'')))
   | JObj ps \<Rightarrow> js_return (case map_of ps k of None \<Rightarrow> JUndef | Some x \<Rightarrow> x)
   | JStr s \<Rightarrow> js_return (if k = ''length'' then JNum (JDec (int (length s)) 0) else JUndef)
   | JArr xs \<Rightarrow> js_return (if k = ''length'' then JNum (JDec (int (length xs)) 0) else JUndef)
   | _ \<Rightarrow> js_return JUndef)"

text \<open>Calling a host function: \<open>client.updateAppSettings(settings)\<close> sends
  the settings to the chat service and resolves to the (unused) response.
  Calling a value that is not a function is a \<open>TypeError\<close>.\<close>

primrec host_call :: "host_fn \<Rightarrow> jsval list \<Rightarrow> jsval js" where
  "host_call HostUpdateAppSettings args =
     js_then (remote (UpdateAppSettings (case args of [] \<Rightarrow> JUndef | a # _ \<Rightarrow> a))) (js_return JUndef)"

definition call_value :: "string \<Rightarrow> jsval \<Rightarrow> jsval list \<Rightarrow> jsval js" where
  "call_value name f args = (case f of
     JFun h \<Rightarrow> host_call h args
   | _ \<Rightarrow> js_throw (mk_error (TypeError (name @ '' is not a function''))))"

lemmas js_prims [js_run] =
  cmd_log_def cmd_log_fmt_def cmd_exit_def cmd_error_def exit_error_def uuid_v4_def
  auth_client_def remote_def read_file_def resolve_global_def get_member_def
  call_value_def mk_error_def

subsection \<open>The end of a run\<close>

text \<open>
  oclif's handler: a run that returns ends with status 0; a thrown error is
  rendered on stderr (an \<open>ExitError\<close> renders as nothing) and the process
  exits with the error's exit field, 1 when it has none.
\<close>

definition exit_status :: "js_error + 'a \<Rightarrow> int" where
  "exit_status r = (case r of
     Inr _ \<Rightarrow> 0
   | Inl x \<Rightarrow> (case oclif_exit x of Some k \<Rightarrow> k | None \<Rightarrow> 1))"

definition is_exit_error :: "js_error \<Rightarrow> bool" where
  "is_exit_error x = (case kind x of ExitError _ \<Rightarrow> True | _ \<Rightarrow> False)"

definition handle :: "unit js \<Rightarrow> env \<Rightarrow> world \<Rightarrow> int \<times> world" where
  "handle m e w = (case m e w of (r, w') \<Rightarrow>
     (exit_status r,
      (case r of
         Inl x \<Rightarrow> if is_exit_error x then w' else w'\<lparr>stderr := stderr w' @ [x]\<rparr>
       | Inr _ \<Rightarrow> w')))"

subsection \<open>A concrete environment\<close>

text \<open>
  The environment the worked examples run in: authentication and the chat
  service accept everything, the \<open>n\<close>-th \<open>uuid()\<close> is \<open>uuid-n\<close>, there are no
  local files, and the global object has none of the names the commands
  use (as in Node). The world starts empty.
\<close>

definition demo_env :: env where
  "demo_env =
     \<lparr>config_dir = ''/home/u/.config/stream-cli'', auth_outcome = (\<lambda>_. None),
      remote_outcome = (\<lambda>_. None), uuid_at = (\<lambda>n. ''uuid-'' @ nat_digits n),
      fs = (\<lambda>_. None), globals = (\<lambda>_. None)\<rparr>"

definition demo_world :: world where
  "demo_world = \<lparr>stdout = [], stderr = [], calls = [], uuid_count = 0\<rparr>"

subsection \<open>Bounding the remote calls\<close>

text \<open>
  \<open>calls_within n m\<close>: a run of \<open>m\<close> sends at most \<open>n\<close> remote operations.
  It is closed under the combinators, so each command inherits it from its
  primitives.
\<close>

definition calls_within :: "nat \<Rightarrow> 'a js \<Rightarrow> bool" where
  "calls_within n m \<longleftrightarrow> (\<forall>e w. length (calls (snd (m e w))) \<le> length (calls w) + n)"

named_theorems within_intros "closure rules of calls_within"

lemma calls_withinD:
  "calls_within n m \<Longrightarrow> m e w = (r, w') \<Longrightarrow> length (calls w') \<le> length (calls w) + n"
  unfolding calls_within_def by (metis snd_conv)

lemma within_return [within_intros]: "calls_within n (js_return a)"
  and within_throw [within_intros]: "calls_within n (js_throw x)"
  by (simp_all add: calls_within_def js_return_def js_throw_def)

lemma within_bind [within_intros]:
  assumes "calls_within n m" and "\<And>a. calls_within k (f a)"
  shows "calls_within (n + k) (js_bind m f)"
  unfolding calls_within_def
proof (intro allI)
  fix e w
  obtain r w' where m: "m e w = (r, w')" by fastforce
  with assms(1) have le: "length (calls w') \<le> length (calls w) + n" by (rule calls_withinD)
  show "length (calls (snd (js_bind m f e w))) \<le> length (calls w) + (n + k)"
  proof (cases r)
    case (Inl x)
    with m le show ?thesis by (simp add: js_bind_def)
  next
    case (Inr a)
    have "length (calls (snd (f a e w'))) \<le> length (calls w') + k"
      using assms(2) by (simp add: calls_within_def)
    with m Inr le show ?thesis by (simp add: js_bind_def)
  qed
qed

lemma within_then [within_intros]:
  "calls_within n m \<Longrightarrow> calls_within k c \<Longrightarrow> calls_within (n + k) (js_then m c)"
  by (simp add: js_then_def within_bind)

lemma within_when [within_intros]: "calls_within n m \<Longrightarrow> calls_within n (js_when b m)"
  by (simp add: js_when_def within_return)

lemma within_try [within_intros]:
  assumes "calls_within n m" and "\<And>x. calls_within k (h x)"
  shows "calls_within (n + k) (js_try m h)"
  unfolding calls_within_def
proof (intro allI)
  fix e w
  obtain r w' where m: "m e w = (r, w')" by fastforce
  with assms(1) have le: "length (calls w') \<le> length (calls w) + n" by (rule calls_withinD)
  show "length (calls (snd (js_try m h e w))) \<le> length (calls w) + (n + k)"
  proof (cases r)
    case (Inl x)
    have "length (calls (snd (h x e w'))) \<le> length (calls w') + k"
      using assms(2) by (simp add: calls_within_def)
    with m Inl le show ?thesis by (simp add: js_try_def)
  next
    case (Inr a)
    with m le show ?thesis by (simp add: js_try_def)
  qed
qed

lemma within_mono:
  assumes "calls_within n m" and "n \<le> k"
  shows "calls_within k m"
  unfolding calls_within_def
proof (intro allI)
  fix e w
  have "length (calls (snd (m e w))) \<le> length (calls w) + n"
    using assms(1) by (simp add: calls_within_def)
  with assms(2) show "length (calls (snd (m e w))) \<le> length (calls w) + k"
    by linarith
qed

lemma within_state_prims [within_intros]:
  "calls_within 0 (cmd_log s)" "calls_within 0 (cmd_log_fmt s a)" "calls_within 0 uuid_v4"
  "calls_within 1 (remote c)"
  by (simp_all add: calls_within_def cmd_log_def cmd_log_fmt_def uuid_v4_def
        remote_def Let_def split: option.split)

lemma within_pure_prims [within_intros]:
  "calls_within 0 (cmd_exit n)" "calls_within 0 (cmd_error x k)" "calls_within 0 (auth_client p)"
  "calls_within 0 (read_file q u)" "calls_within 0 (resolve_global nm)"
  by (simp_all add: calls_within_def cmd_exit_def cmd_error_def js_throw_def auth_client_def
        read_file_def resolve_global_def split: option.split jsval.split)

lemma within_call_value [within_intros]: "calls_within 1 (call_value nm f args)"
proof (cases f)
  case (JFun h)
  then show ?thesis
    by (cases h) (simp add: calls_within_def call_value_def js_run Let_def split: option.split)
qed (simp_all add: call_value_def within_throw)

lemma within_get_member [within_intros]: "calls_within 0 (get_member v key)"
  by (cases v) (simp_all add: get_member_def within_return within_throw)

subsection \<open>Runs that never return normally\<close>

text \<open>
  \<open>throws m\<close>: every run of \<open>m\<close> ends in a thrown error. A body that ends
  in \<open>this.exit\<close> throws; wrapped in a \<open>try\<close> whose \<open>catch\<close> is
  \<open>this.error(err, {exit: k})\<close>, it always ends with exit field \<open>k\<close>
  (\<open>ends_with k\<close>), so the process status is \<open>k\<close> on every path.
\<close>

definition throws :: "'a js \<Rightarrow> bool" where
  "throws m \<longleftrightarrow> (\<forall>e w. isl (fst (m e w)))"

definition ends_with :: "int \<Rightarrow> 'a js \<Rightarrow> bool" where
  "ends_with k m \<longleftrightarrow> (\<forall>e w. \<exists>x. fst (m e w) = Inl x \<and> oclif_exit x = Some k)"

named_theorems throws_intros "closure rules of throws"

lemma throws_throw [throws_intros]: "throws (js_throw x)"
  and throws_exit [throws_intros]: "throws (cmd_exit n)"
  and throws_error [throws_intros]: "throws (cmd_error x k)"
  by (simp_all add: throws_def js_throw_def cmd_exit_def cmd_error_def)

lemma throws_bind [throws_intros]:
  assumes "\<And>a. throws (f a)"
  shows "throws (js_bind m f)"
  unfolding throws_def
proof (intro allI)
  fix e w
  obtain r w' where m: "m e w = (r, w')" by fastforce
  show "isl (fst (js_bind m f e w))"
  proof (cases r)
    case (Inr a)
    with m assms show ?thesis by (simp add: js_bind_def throws_def)
  qed (use m in \<open>simp add: js_bind_def\<close>)
qed

lemma throws_then [throws_intros]: "throws k \<Longrightarrow> throws (js_then m k)"
  by (simp add: js_then_def throws_bind)

lemma ends_with_try:
  assumes "throws m"
  shows "ends_with k (js_try m (\<lambda>x. cmd_error x k))"
  unfolding ends_with_def
proof (intro allI)
  fix e w
  obtain r w' where m: "m e w = (r, w')" by fastforce
  from assms m obtain x where "r = Inl x" by (metis fst_conv isl_def throws_def)
  with m show "\<exists>y. fst (js_try m (\<lambda>x. cmd_error x k) e w) = Inl y \<and> oclif_exit y = Some k"
    by (simp add: js_try_def cmd_error_def js_throw_def)
qed

lemma handle_ends_with: "ends_with k m \<Longrightarrow> fst (handle m e w) = k"
  unfolding ends_with_def handle_def exit_status_def
  by (metis (mono_tags, lifting) case_prod_beta fst_conv sum.case(1) option.case(2))

lemma handle_uuid:
  "handle (js_bind uuid_v4 f) e w =
     handle (f (uuid_at e (uuid_count w))) e (w\<lparr>uuid_count := Suc (uuid_count w)\<rparr>)"
  by (simp add: handle_def js_bind_def uuid_v4_def)

subsection \<open>Rendering an error and running a \<open>try\<close>\<close>

text \<open>What oclif's handler does with a thrown error before the process
  exits: an \<open>ExitError\<close> prints nothing, any other error is written to
  stderr. The lemmas run a \<open>try\<close> one statement at a time.\<close>

definition report :: "js_error \<Rightarrow> world \<Rightarrow> world" where
  "report x w = (if is_exit_error x then w else w\<lparr>stderr := stderr w @ [x]\<rparr>)"

lemma try_bind:
  "js_try (js_bind m f) h e w =
     (case m e w of (Inl x, w') \<Rightarrow> h x e w' | (Inr a, w') \<Rightarrow> js_try (f a) h e w')"
  by (simp add: js_try_def js_bind_def split: prod.split sum.split)

lemma bind_throw: "js_bind (js_throw x) f = js_throw x"
  by (simp add: js_bind_def js_throw_def)

lemma try_throw: "js_try (js_throw x) h e w = h x e w"
  by (simp add: js_try_def js_throw_def)

lemma handle_try_bind:
  "handle (js_try (js_bind m f) h) e w =
     (case m e w of (Inl x, w') \<Rightarrow> handle (h x) e w' | (Inr a, w') \<Rightarrow> handle (js_try (f a) h) e w')"
  by (simp add: handle_def try_bind split: prod.split sum.split)

lemma handle_try_throw: "handle (js_try (js_throw x) h) e w = handle (h x) e w"
  by (simp add: handle_def try_throw)

lemma handle_throw_report: "handle (js_throw x) e w = (exit_status (Inl x :: js_error + unit), report x w)"
  by (simp add: handle_def js_throw_def report_def)

subsection \<open>oclif's \<open>Command._run\<close>: help, version and the catch\<close>

text \<open>
  What \<open>@oclif/command\<close> does around \<open>run\<close>. \<open>init\<close> shows the command's
  help and calls \<open>this.exit(0)\<close> when argv holds \<open>--help\<close> before any
  \<open>--\<close> (\<open>_helpOverride\<close>), and \<open>run\<close> is not called. An error that \<open>run\<close>
  throws goes to \<open>catch\<close>, which tests its message against
  \<open>/Unexpected arguments?: (-h|--help|help)(,|\n)/\<close> (then shows help and
  exits 0) and against the same pattern with \<open>-v|--version|version\<close>
  (then logs \<open>config.userAgent\<close> and exits 0), and rethrows it otherwise.
  The help text of \<open>@oclif/plugin-help\<close> and the user agent are kept
  symbolic (\<open>LogHelp\<close>, \<open>LogVersion\<close>). The message of an \<open>ExitError\<close> is
  \<open>EEXIT: n\<close>.
\<close>

definition err_message :: "js_error \<Rightarrow> string" where
  "err_message x = (case kind x of
     ExitError n \<Rightarrow> ''EEXIT: '' @ num_to_string (JDec n 0)
   | ReferenceError s \<Rightarrow> s | TypeError s \<Rightarrow> s | SyntaxError s \<Rightarrow> s | AuthError s \<Rightarrow> s
   | RemoteError s \<Rightarrow> s | FileError s \<Rightarrow> s | FlagError s \<Rightarrow> s)"

text \<open>A search for the pattern anywhere in the message: some suffix starts
  with the prefix, one of the words, and a comma or a line feed.\<close>

definition redirect_msg :: "string list \<Rightarrow> string \<Rightarrow> bool" where
  "redirect_msg ws msg \<longleftrightarrow>
     list_ex (\<lambda>t. list_ex (\<lambda>h. list_ex (\<lambda>a. prefix (h @ a @ '','') t \<or> prefix (h @ a @ [CHR 0x0A]) t) ws)
                 [''Unexpected argument: '', ''Unexpected arguments: ''])
             (suffixes msg)"

definition help_words :: "string list" where
  "help_words = [''-h'', ''--help'', ''help'']"

definition version_words :: "string list" where
  "version_words = [''-v'', ''--version'', ''version'']"

definition quiet_msg :: "string \<Rightarrow> bool" where
  "quiet_msg m \<longleftrightarrow> \<not> redirect_msg help_words m \<and> \<not> redirect_msg version_words m"

fun help_override :: "string list \<Rightarrow> bool" where
  "help_override [] = False"
| "help_override (a # argv) = (if a = ''--help'' then True else if a = ''--'' then False else help_override argv)"

definition emit :: "log_line \<Rightarrow> unit js" where
  "emit l = (\<lambda>e w. (Inr (), w\<lparr>stdout := stdout w @ [l]\<rparr>))"

definition show_help :: "'a js" where
  "show_help = js_then (emit LogHelp) (cmd_exit 0)"

definition show_version :: "'a js" where
  "show_version = js_then (emit LogVersion) (cmd_exit 0)"

definition oclif_catch :: "js_error \<Rightarrow> unit js" where
  "oclif_catch x =
     (if redirect_msg help_words (err_message x) then show_help
      else if redirect_msg version_words (err_message x) then show_version
      else js_throw x)"

definition oclif_run :: "string list \<Rightarrow> unit js \<Rightarrow> unit js" where
  "oclif_run argv body = (if help_override argv then show_help else js_try body oclif_catch)"

lemma prefix_in_set: "prefix (c # p) t \<Longrightarrow> c \<in> set t"
  by (metis list.set_intros(1) prefix_Cons set_mono_prefix subsetD)

lemma redirect_msg_U: "redirect_msg ws m \<Longrightarrow> CHR ''U'' \<in> set m"
proof -
  assume "redirect_msg ws m"
  then obtain t where t: "suffix t m" and "CHR ''U'' \<in> set t"
    by (auto simp: redirect_msg_def list_ex_iff dest: prefix_in_set)
  then show ?thesis using set_mono_suffix [OF t] by blast
qed

lemma no_U_no_redirect: "CHR ''U'' \<notin> set m \<Longrightarrow> \<not> redirect_msg ws m"
  by (auto dest: redirect_msg_U)

lemma quiet_msg_no_U: "CHR ''U'' \<notin> set m \<Longrightarrow> quiet_msg m"
  by (auto simp: quiet_msg_def dest: redirect_msg_U)

text \<open>
  An environment is quiet when neither the authentication routine nor the
  chat service answers with an error message that \<open>catch\<close> would take for
  a help or version request. \<open>quiet P m\<close>: every error \<open>m\<close> throws in an
  environment satisfying \<open>P\<close> is rethrown by \<open>catch\<close>. It is closed under
  the combinators (\<open>quiet_intros\<close>).
\<close>

definition quiet_env :: "env \<Rightarrow> bool" where
  "quiet_env e \<longleftrightarrow>
     (\<forall>p m. auth_outcome e p = Some m \<longrightarrow> quiet_msg m) \<and>
     (\<forall>c m. remote_outcome e c = Some m \<longrightarrow> quiet_msg m)"

definition quiet :: "(env \<Rightarrow> bool) \<Rightarrow> 'a js \<Rightarrow> bool" where
  "quiet P m \<longleftrightarrow> (\<forall>e w x w'. P e \<longrightarrow> m e w = (Inl x, w') \<longrightarrow> quiet_msg (err_message x))"

named_theorems quiet_intros "closure rules of quiet"

lemma quietD: "quiet P m \<Longrightarrow> P e \<Longrightarrow> m e w = (Inl x, w') \<Longrightarrow> quiet_msg (err_message x)"
  unfolding quiet_def by blast

lemma quiet_return [quiet_intros]: "quiet P (js_return a)"
  by (simp add: quiet_def js_return_def)

lemma quiet_throw [quiet_intros]: "quiet_msg (err_message x) \<Longrightarrow> quiet P (js_throw x)"
  by (simp add: quiet_def js_throw_def)

lemma quiet_bind [quiet_intros]:
  assumes "quiet P m" and "\<And>a. quiet P (f a)"
  shows "quiet P (js_bind m f)"
  unfolding quiet_def
proof (intro allI impI)
  fix e w x w'
  assume P: "P e" and r: "js_bind m f e w = (Inl x, w')"
  obtain r0 w0 where m: "m e w = (r0, w0)" by fastforce
  show "quiet_msg (err_message x)"
  proof (cases r0)
    case (Inl y)
    with m r have "m e w = (Inl x, w')" by (simp add: js_bind_def)
    with assms(1) P show ?thesis by (rule quietD)
  next
    case (Inr a)
    with m r have "f a e w0 = (Inl x, w')" by (simp add: js_bind_def)
    with assms(2) P show ?thesis by (rule quietD)
  qed
qed

lemma quiet_then [quiet_intros]: "quiet P m \<Longrightarrow> quiet P k \<Longrightarrow> quiet P (js_then m k)"
  by (simp add: js_then_def quiet_bind)

lemma quiet_when [quiet_intros]: "quiet P m \<Longrightarrow> quiet P (js_when b m)"
  by (simp add: js_when_def quiet_return)

lemma quiet_try [quiet_intros]:
  assumes "quiet P m" and "\<And>x. quiet_msg (err_message x) \<Longrightarrow> quiet P (h x)"
  shows "quiet P (js_try m h)"
  unfolding quiet_def
proof (intro allI impI)
  fix e w x w'
  assume P: "P e" and r: "js_try m h e w = (Inl x, w')"
  obtain r0 w0 where m: "m e w = (r0, w0)" by fastforce
  show "quiet_msg (err_message x)"
  proof (cases r0)
    case (Inl y)
    with m have "quiet_msg (err_message y)" using assms(1) P by (blast intro: quietD)
    moreover from Inl m r have "h y e w0 = (Inl x, w')" by (simp add: js_try_def)
    ultimately show ?thesis using assms(2) P by (blast intro: quietD)
  next
    case (Inr a)
    with m r show ?thesis by (simp add: js_try_def)
  qed
qed

lemma quiet_effects [quiet_intros]:
  "quiet P (cmd_log s)" "quiet P (cmd_log_fmt s a)" "quiet P (emit l)" "quiet P uuid_v4"
  by (simp_all add: quiet_def cmd_log_def cmd_log_fmt_def emit_def uuid_v4_def)

lemma quiet_exit [quiet_intros]: "quiet P (cmd_exit n)"
proof -
  have "CHR ''U'' \<notin> set (err_message (exit_error n))"
    using num_to_string_U [of "JDec n 0"] by (simp add: err_message_def exit_error_def)
  then show ?thesis by (simp add: cmd_exit_def quiet_throw quiet_msg_no_U)
qed

lemma err_message_exit_field [simp]: "err_message (x\<lparr>oclif_exit := k\<rparr>) = err_message x"
  by (simp add: err_message_def)

lemma quiet_error [quiet_intros]: "quiet_msg (err_message x) \<Longrightarrow> quiet P (cmd_error x k)"
  by (simp add: cmd_error_def quiet_throw)

lemma quiet_env_prims [quiet_intros]:
  assumes "\<And>e. P e \<Longrightarrow> quiet_env e"
  shows "quiet P (auth_client p)" "quiet P (remote c)"
  using assms
  by (auto simp: quiet_def quiet_env_def auth_client_def remote_def err_message_def mk_error_def
           Let_def split: option.splits)

lemma quiet_resolve [quiet_intros]: "CHR ''U'' \<notin> set nm \<Longrightarrow> quiet P (resolve_global nm)"
  by (auto simp: quiet_def resolve_global_def err_message_def mk_error_def quiet_msg_no_U
           split: option.splits)

lemma quiet_get_member [quiet_intros]: "CHR ''U'' \<notin> set k \<Longrightarrow> quiet P (get_member v k)"
  by (cases v) (simp_all add: get_member_def quiet_return quiet_throw err_message_def mk_error_def
                               quiet_msg_no_U)

lemma quiet_call_value [quiet_intros]:
  assumes "\<And>e. P e \<Longrightarrow> quiet_env e" and "CHR ''U'' \<notin> set nm"
  shows "quiet P (call_value nm f args)"
proof (cases f)
  case (JFun h)
  then show ?thesis using assms(1)
    by (cases h) (simp add: call_value_def quiet_then quiet_return quiet_env_prims)
qed (use assms(2) in \<open>simp_all add: call_value_def quiet_throw err_message_def mk_error_def quiet_msg_no_U\<close>)

text \<open>What the process ends with: help shown by \<open>init\<close>; an error of
  \<open>run\<close> redirected by \<open>catch\<close> or rethrown; and, for a quiet body, exactly
  the end of \<open>run\<close> itself.\<close>

lemma handle_show_help: "handle show_help e w = (0, w\<lparr>stdout := stdout w @ [LogHelp]\<rparr>)"
  and handle_show_version: "handle show_version e w = (0, w\<lparr>stdout := stdout w @ [LogVersion]\<rparr>)"
  by (simp_all add: handle_def show_help_def show_version_def emit_def js_run exit_status_def
                    is_exit_error_def)

lemma handle_oclif_help:
  "help_override argv \<Longrightarrow> handle (oclif_run argv m) e w = (0, w\<lparr>stdout := stdout w @ [LogHelp]\<rparr>)"
  by (simp add: oclif_run_def handle_show_help)

lemma handle_oclif_throw:
  assumes "m e w = (Inl x, w')" and "\<not> help_override argv"
  shows "handle (oclif_run argv m) e w =
           (if redirect_msg help_words (err_message x) then (0, w'\<lparr>stdout := stdout w' @ [LogHelp]\<rparr>)
            else if redirect_msg version_words (err_message x) then (0, w'\<lparr>stdout := stdout w' @ [LogVersion]\<rparr>)
            else (exit_status (Inl x :: js_error + unit), report x w'))"
  using assms
  by (simp add: oclif_run_def oclif_catch_def handle_def js_try_def report_def
                handle_show_help [unfolded handle_def] handle_show_version [unfolded handle_def]
                js_throw_def split: prod.splits)

lemma handle_oclif_quiet:
  assumes "quiet P m" and "P e" and "\<not> help_override argv"
  shows "handle (oclif_run argv m) e w = handle m e w"
proof -
  obtain r w' where m: "m e w = (r, w')" by fastforce
  show ?thesis
  proof (cases r)
    case (Inl x)
    with m assms(1,2) have "quiet_msg (err_message x)" by (blast intro: quietD)
    then have "handle (oclif_run argv m) e w = (exit_status (Inl x :: js_error + unit), report x w')"
      using handle_oclif_throw [of m e w x w' argv] m Inl assms(3) by (simp add: quiet_msg_def)
    moreover have "handle m e w = (exit_status (Inl x :: js_error + unit), report x w')"
      using m Inl by (simp add: handle_def report_def)
    ultimately show ?thesis by simp
  next
    case (Inr a)
    with m assms(3) show ?thesis by (simp add: oclif_run_def handle_def js_try_def)
  qed
qed

text \<open>
  \<open>zero_help m\<close>: every run of \<open>m\<close> throws, and when the thrown error
  carries exit field 0 the last line on stdout is the help or the version.
  So status 0 never reports work done: it always follows help or version
  output.
\<close>

definition help_shown :: "world \<Rightarrow> bool" where
  "help_shown w \<longleftrightarrow> stdout w \<noteq> [] \<and> last (stdout w) \<in> {LogHelp, LogVersion}"

definition zero_help :: "unit js \<Rightarrow> bool" where
  "zero_help m \<longleftrightarrow> (\<forall>e w. \<exists>x w'. m e w = (Inl x, w') \<and> (oclif_exit x = Some 0 \<longrightarrow> help_shown w'))"

lemma zero_help_show: "zero_help show_help" "zero_help show_version"
  by (simp_all add: zero_help_def show_help_def show_version_def emit_def help_shown_def js_run)

lemma zero_help_nonzero:
  "(\<And>e w. \<exists>x w'. m e w = (Inl x, w') \<and> oclif_exit x \<noteq> Some 0) \<Longrightarrow> zero_help m"
  unfolding zero_help_def by blast

lemma zero_help_ends_with:
  assumes "ends_with k m" and "k \<noteq> 0"
  shows "zero_help m"
proof (rule zero_help_nonzero)
  fix e w
  obtain x where x: "fst (m e w) = Inl x" "oclif_exit x = Some k"
    using assms(1) unfolding ends_with_def by blast
  then have "m e w = (Inl x, snd (m e w))" by (metis prod.collapse)
  with x(2) assms(2) show "\<exists>x w'. m e w = (Inl x, w') \<and> oclif_exit x \<noteq> Some 0" by auto
qed

lemma zero_help_catch: "zero_help m \<Longrightarrow> zero_help (js_try m oclif_catch)"
  unfolding zero_help_def
proof (intro allI)
  fix e w
  assume z: "\<forall>e w. \<exists>x w'. m e w = (Inl x, w') \<and> (oclif_exit x = Some 0 \<longrightarrow> help_shown w')"
  then obtain x w' where m: "m e w = (Inl x, w')" and h: "oclif_exit x = Some 0 \<longrightarrow> help_shown w'"
    by blast
  have "\<exists>y w''. oclif_catch x e w' = (Inl y, w'') \<and> (oclif_exit y = Some 0 \<longrightarrow> help_shown w'')"
    using h zero_help_show unfolding oclif_catch_def zero_help_def by (simp add: js_throw_def)
  then show "\<exists>y w''. js_try m oclif_catch e w = (Inl y, w'') \<and> (oclif_exit y = Some 0 \<longrightarrow> help_shown w'')"
    using m by (simp add: js_try_def)
qed

lemma zero_help_oclif_run: "zero_help m \<Longrightarrow> zero_help (oclif_run argv m)"
  by (simp add: oclif_run_def zero_help_show zero_help_catch)

lemma zero_help_uuid: "(\<And>d. zero_help (f d)) \<Longrightarrow> zero_help (js_bind uuid_v4 f)"
  by (simp add: zero_help_def js_bind_def uuid_v4_def)

lemma handle_zero_help:
  assumes "zero_help m" and "fst (handle m e w) = 0"
  shows "help_shown (snd (handle m e w))"
proof -
  obtain x w' where m: "m e w = (Inl x, w')" and h: "oclif_exit x = Some 0 \<longrightarrow> help_shown w'"
    using assms(1) unfolding zero_help_def by blast
  with assms(2) have "oclif_exit x = Some 0"
    by (simp add: handle_def exit_status_def split: option.splits)
  with h m show ?thesis by (simp add: handle_def help_shown_def)
qed

end
