(* ===== verification/Flags.thy ===== *)
theory Flags
  imports Runtime
begin

text \<open>
  The flag layer of oclif (\<open>@oclif/command\<close>'s \<open>flags.string\<close>,
  \<open>flags.boolean\<close> and \<open>this.parse\<close>), which both commands declare their
  options with. A schema is the list of flag definitions of a command, in
  declaration order. Parsing has three stages, as in oclif's parser: the
  argv words are cut into raw tokens (\<open>--name value\<close>, \<open>--name=value\<close>,
  \<open>-c value\<close>, \<open>-cvalue\<close>, bundled boolean characters, \<open>--\<close> ending the
  flags); the flag tokens are applied in order (a boolean flag becomes
  \<open>true\<close>, a string flag takes its input after the check against its
  options); defaults fill the flags that are still unset; and validation
  rejects extra arguments (the commands declare none) and missing required
  flags. Every error is a \<open>CLIError\<close> with exit field 2. No flag of the two
  commands sets \<open>allowNo\<close>, \<open>multiple\<close>, \<open>env\<close> or \<open>parse\<close>, so those
  options are not modelled.
\<close>

datatype flag_kind = StringFlag | BooleanFlag

record flag_def =
  flag_name :: string
  flag_char :: "char option"
  flag_kind :: flag_kind
  flag_options :: "string list option"
  flag_required :: bool
  flag_default :: jsval

type_synonym schema = "flag_def list"

definition string_flag ::
  "string \<Rightarrow> char option \<Rightarrow> string list option \<Rightarrow> bool \<Rightarrow> jsval \<Rightarrow> flag_def" where
  "string_flag n c opts req d =
     \<lparr>flag_name = n, flag_char = c, flag_kind = StringFlag, flag_options = opts,
      flag_required = req, flag_default = d\<rparr>"

definition boolean_flag :: "string \<Rightarrow> char option \<Rightarrow> bool \<Rightarrow> flag_def" where
  "boolean_flag n c req =
     \<lparr>flag_name = n, flag_char = c, flag_kind = BooleanFlag, flag_options = None,
      flag_required = req, flag_default = JUndef\<rparr>"

datatype raw_tok = RawFlag string string | RawArg string

definition flag_error :: "string \<Rightarrow> js_error" where
  "flag_error msg = \<lparr>kind = FlagError msg, oclif_exit = Some 2\<rparr>"

subsection \<open>Cutting argv into tokens\<close>

definition find_flag :: "schema \<Rightarrow> string \<Rightarrow> flag_def option" where
  "find_flag S n = find (\<lambda>f. flag_name f = n) S"

definition find_char :: "schema \<Rightarrow> char \<Rightarrow> flag_def option" where
  "find_char S c = find (\<lambda>f. flag_char f = Some c) S"

text \<open>\<open>findLongFlag\<close> / \<open>findShortFlag\<close>: a word starting with \<open>--\<close> names a
  flag by its name, any other by its second character.\<close>

definition lookup_flag :: "schema \<Rightarrow> string \<Rightarrow> flag_def option" where
  "lookup_flag S arg =
     (if take 2 arg = ''--'' then find_flag S (drop 2 arg)
      else case arg of _ # c # _ \<Rightarrow> find_char S c | _ \<Rightarrow> None)"

text \<open>
  The token of a recognised flag word: a string flag takes the next word
  (long form, or a bare \<open>-c\<close>) or the rest of the word (\<open>-cvalue\<close>,
  \<open>-c=value\<close>); a boolean flag keeps the word, and a bundle \<open>-abc\<close> puts
  \<open>-bc\<close> back in front of the remaining words.
\<close>

definition take_flag ::
  "flag_def \<Rightarrow> bool \<Rightarrow> string \<Rightarrow> string list \<Rightarrow> js_error + raw_tok \<times> string list" where
  "take_flag f long arg argv =
     (if flag_kind f = StringFlag then
        (if long \<or> length arg < 3 then
           (case argv of
              [] \<Rightarrow> Inl (flag_error (''Flag --'' @ flag_name f @ '' expects a value''))
            | v # rest \<Rightarrow> Inr (RawFlag (flag_name f) v, rest))
         else Inr (RawFlag (flag_name f) (drop (if arg ! 2 = CHR ''='' then 3 else 2) arg), argv))
      else Inr (RawFlag (flag_name f) arg,
                if \<not> long \<and> 2 < length arg then (CHR ''-'' # drop 2 arg) # argv else argv))"

text \<open>
  \<open>parseFlag\<close>: a word that names no flag but holds \<open>=\<close> is tried once more
  as its part before the first \<open>=\<close>, with the part after it put in front of
  the remaining words; \<open>None\<close> is a word that is not a flag.
\<close>

definition parse_flag ::
  "schema \<Rightarrow> string \<Rightarrow> string list \<Rightarrow> (js_error + raw_tok \<times> string list) option" where
  "parse_flag S arg argv =
     (case lookup_flag S arg of
        Some f \<Rightarrow> Some (take_flag f (take 2 arg = ''--'') arg argv)
      | None \<Rightarrow>
          if CHR ''='' \<in> set arg then
            (let pre = takeWhile (\<lambda>c. c \<noteq> CHR ''='') arg;
                 post = tl (dropWhile (\<lambda>c. c \<noteq> CHR ''='') arg)
             in case lookup_flag S pre of
                  Some f \<Rightarrow> Some (take_flag f (take 2 pre = ''--'') pre (post # argv))
                | None \<Rightarrow> None)
          else None)"

definition argv_size :: "string list \<Rightarrow> nat" where
  "argv_size argv = sum_list (map (\<lambda>a. Suc (length a)) argv)"

lemma argv_size_Cons [simp]: "argv_size (a # argv) = Suc (length a) + argv_size argv"
  by (simp add: argv_size_def)

lemma take_flag_shrinks:
  assumes "take_flag f long arg argv = Inr (t, argv')" and "long \<or> 2 \<le> length arg"
  shows "argv_size argv' < argv_size (arg # argv)"
  using assms
  by (auto simp: take_flag_def split: if_splits list.splits)

lemma lookup_flag_length:
  "lookup_flag S arg = Some f \<Longrightarrow> take 2 arg = ''--'' \<or> 2 \<le> length arg"
  by (auto simp: lookup_flag_def split: if_splits list.splits)

lemma argv_size_post:
  assumes "CHR ''='' \<in> set arg"
  shows "Suc (length (tl (dropWhile (\<lambda>c. c \<noteq> CHR ''='') arg)))
         + length (takeWhile (\<lambda>c. c \<noteq> CHR ''='') arg) \<le> length arg"
proof -
  have "length (takeWhile (\<lambda>c. c \<noteq> CHR ''='') arg)
        + length (dropWhile (\<lambda>c. c \<noteq> CHR ''='') arg) = length arg"
    by (metis length_append takeWhile_dropWhile_id)
  moreover have "dropWhile (\<lambda>c. c \<noteq> CHR ''='') arg \<noteq> []"
    using assms by (simp add: dropWhile_eq_Nil_conv)
  ultimately show ?thesis by (cases "dropWhile (\<lambda>c. c \<noteq> CHR ''='') arg") auto
qed

lemma parse_flag_shrinks:
  assumes "parse_flag S arg argv = Some (Inr (t, argv'))"
  shows "argv_size argv' < argv_size (arg # argv)"
proof (cases "lookup_flag S arg")
  case (Some f)
  with assms have "take_flag f (take 2 arg = ''--'') arg argv = Inr (t, argv')"
    by (simp add: parse_flag_def)
  moreover have "take 2 arg = ''--'' \<or> 2 \<le> length arg"
    using Some by (rule lookup_flag_length)
  ultimately show ?thesis by (rule take_flag_shrinks)
next
  case None
  define pre where "pre = takeWhile (\<lambda>c. c \<noteq> CHR ''='') arg"
  define post where "post = tl (dropWhile (\<lambda>c. c \<noteq> CHR ''='') arg)"
  from assms None obtain f where eq: "CHR ''='' \<in> set arg" "lookup_flag S pre = Some f"
      and tk: "take_flag f (take 2 pre = ''--'') pre (post # argv) = Inr (t, argv')"
    by (auto simp: parse_flag_def pre_def post_def Let_def split: if_splits option.splits)
  have "take 2 pre = ''--'' \<or> 2 \<le> length pre"
    using eq(2) by (rule lookup_flag_length)
  with tk have "argv_size argv' < argv_size (pre # post # argv)"
    by (rule take_flag_shrinks)
  moreover have "Suc (length post) + length pre \<le> length arg"
    using argv_size_post [OF eq(1)] by (simp add: pre_def post_def)
  ultimately show ?thesis by simp
qed

definition cons_tok :: "raw_tok \<Rightarrow> js_error + raw_tok list \<Rightarrow> js_error + raw_tok list" where
  "cons_tok t r = (case r of Inl x \<Rightarrow> Inl x | Inr ts \<Rightarrow> Inr (t # ts))"

text \<open>The parser's main loop; \<open>pf\<close> is false after \<open>--\<close>.\<close>

function lex_argv :: "schema \<Rightarrow> bool \<Rightarrow> string list \<Rightarrow> js_error + raw_tok list" where
  "lex_argv S pf [] = Inr []"
| "lex_argv S pf (a # rest) =
     (if pf \<and> a = ''--'' then lex_argv S False rest
      else if pf \<and> take 1 a = ''-'' \<and> a \<noteq> ''-'' then
        (case parse_flag S a rest of
           None \<Rightarrow> cons_tok (RawArg a) (lex_argv S pf rest)
         | Some (Inl x) \<Rightarrow> Inl x
         | Some (Inr (t, rest')) \<Rightarrow> cons_tok t (lex_argv S pf rest'))
      else cons_tok (RawArg a) (lex_argv S pf rest))"
  by pat_completeness auto
termination
  by (relation "measure (\<lambda>(S, pf, argv). argv_size argv)")
     (auto dest!: parse_flag_shrinks)

subsection \<open>Flag values, defaults, validation\<close>

text \<open>\<open>_flags()\<close>: the flag tokens in order; the flags object keeps the
  position of a flag's first occurrence and the value of its last.\<close>

fun apply_toks :: "schema \<Rightarrow> jsval props \<Rightarrow> raw_tok list \<Rightarrow> js_error + jsval props" where
  "apply_toks S fl [] = Inr fl"
| "apply_toks S fl (RawArg a # ts) = apply_toks S fl ts"
| "apply_toks S fl (RawFlag n inp # ts) =
     (case find_flag S n of
        None \<Rightarrow> Inl (flag_error (''Unexpected flag '' @ n))
      | Some f \<Rightarrow>
          if flag_kind f = BooleanFlag then
            apply_toks S (AList.update n (JBool (inp \<noteq> ''--no-'' @ n)) fl) ts
          else if (case flag_options f of None \<Rightarrow> False | Some opts \<Rightarrow> inp \<notin> set opts) then
            Inl (flag_error (''Expected --'' @ n @ ''='' @ inp @ '' to be one of: ''
                             @ join_sep '', '' (the (flag_options f))))
          else apply_toks S (AList.update n (JStr inp) fl) ts)"

definition apply_defaults :: "schema \<Rightarrow> jsval props \<Rightarrow> jsval props" where
  "apply_defaults S fl0 =
     foldl (\<lambda>fl f.
              if truthy (prop_get fl (flag_name f)) then fl
              else if flag_name f \<notin> set (map fst fl) \<and> flag_default f \<noteq> JUndef
                   then AList.update (flag_name f) (flag_default f) fl
              else fl) fl0 S"

definition arg_words :: "raw_tok list \<Rightarrow> string list" where
  "arg_words ts = concat (map (\<lambda>t. case t of RawArg a \<Rightarrow> [a] | RawFlag _ _ \<Rightarrow> []) ts)"

definition validate :: "schema \<Rightarrow> raw_tok list \<Rightarrow> jsval props \<Rightarrow> js_error option" where
  "validate S ts fl =
     (if arg_words ts \<noteq> [] then
        Some (flag_error (''Unexpected argument'' @ (if length (arg_words ts) = 1 then [] else ''s'') @ '': ''
                          @ join_sep '', '' (arg_words ts) @ [CHR 0x0A] @ ''See more help with --help''))
      else case find (\<lambda>f. flag_required f \<and> prop_get fl (flag_name f) = JUndef) S of
             Some f \<Rightarrow> Some (flag_error (''Missing required flag: --'' @ flag_name f))
           | None \<Rightarrow> None)"

definition parse_argv :: "schema \<Rightarrow> string list \<Rightarrow> js_error + jsval props" where
  "parse_argv S argv =
     (case lex_argv S True argv of
        Inl x \<Rightarrow> Inl x
      | Inr ts \<Rightarrow>
          (case apply_toks S [] ts of
             Inl x \<Rightarrow> Inl x
           | Inr fl \<Rightarrow>
               (let fl' = apply_defaults S fl in
                case validate S ts fl' of Some x \<Rightarrow> Inl x | None \<Rightarrow> Inr fl')))"

text \<open>\<open>const { flags } = this.parse(C)\<close> as an action: a parse error is thrown.\<close>

definition cmd_parse :: "schema \<Rightarrow> string list \<Rightarrow> jsval props js" where
  "cmd_parse S argv = (case parse_argv S argv of Inl x \<Rightarrow> js_throw x | Inr fl \<Rightarrow> js_return fl)"

subsection \<open>Parse errors\<close>

text \<open>Every error of the parser is a \<open>CLIError\<close>: the process ends with
  status 2 and the error on stderr, before any effect of the command.\<close>

lemma cons_tok_Inl [simp]: "cons_tok t r = Inl x \<longleftrightarrow> r = Inl x"
  by (cases r) (auto simp: cons_tok_def)

lemma cons_tok_Inr [simp]: "cons_tok t r = Inr ts \<longleftrightarrow> (\<exists>ts'. r = Inr ts' \<and> ts = t # ts')"
  by (cases r) (auto simp: cons_tok_def)

definition is_flag_error :: "js_error \<Rightarrow> bool" where
  "is_flag_error x \<longleftrightarrow> (\<exists>m. x = flag_error m)"

lemma take_flag_error: "take_flag f l a argv = Inl x \<Longrightarrow> is_flag_error x"
  by (auto simp: take_flag_def is_flag_error_def split: if_splits list.splits)

lemma parse_flag_error: "parse_flag S a argv = Some (Inl x) \<Longrightarrow> is_flag_error x"
  by (auto simp: parse_flag_def Let_def dest: take_flag_error split: option.splits if_splits)

lemma lex_argv_error: "lex_argv S pf argv = Inl x \<Longrightarrow> is_flag_error x"
proof (induction S pf argv rule: lex_argv.induct)
  case (1 S pf)
  then show ?case by simp
next
  case (2 S pf a rest)
  then show ?case
    by (simp split: if_splits option.splits sum.splits prod.splits)
       (blast dest: parse_flag_error)+
qed

lemma apply_toks_error: "apply_toks S fl ts = Inl x \<Longrightarrow> is_flag_error x"
  by (induction S fl ts rule: apply_toks.induct)
     (auto simp: is_flag_error_def split: option.splits if_splits)

lemma validate_error: "validate S ts fl = Some x \<Longrightarrow> is_flag_error x"
  by (auto simp: validate_def is_flag_error_def split: if_splits option.splits)

lemma parse_argv_error: "parse_argv S argv = Inl x \<Longrightarrow> is_flag_error x"
  by (auto simp: parse_argv_def Let_def dest: lex_argv_error apply_toks_error validate_error
           split: sum.splits option.splits)

lemma flag_error_handled:
  "is_flag_error x \<Longrightarrow> oclif_exit x = Some 2 \<and> \<not> is_exit_error x"
  by (auto simp: is_flag_error_def flag_error_def is_exit_error_def)

lemma cmd_parse_fails:
  assumes "parse_argv S argv = Inl x"
  shows "handle (js_bind (cmd_parse S argv) f) e w = (2, w\<lparr>stderr := stderr w @ [x]\<rparr>)"
  using flag_error_handled [OF parse_argv_error [OF assms]] assms
  by (simp add: cmd_parse_def handle_def exit_status_def js_run)

lemma cmd_parse_succeeds:
  "parse_argv S argv = Inr fl \<Longrightarrow> js_bind (cmd_parse S argv) f = f fl"
  by (simp add: cmd_parse_def js_run fun_eq_iff)


subsection \<open>What a successful parse guarantees\<close>

theorem parse_argv_required:
  assumes "parse_argv S argv = Inr fl" and "f \<in> set S" and "flag_required f"
  shows "prop_get fl (flag_name f) \<noteq> JUndef"
proof -
  from assms(1) obtain ts fl0 where
      "fl = apply_defaults S fl0" and v: "validate S ts fl = None"
    by (auto simp: parse_argv_def Let_def split: sum.splits option.splits)
  from v have "find (\<lambda>f. flag_required f \<and> prop_get fl (flag_name f) = JUndef) S = None"
    by (simp add: validate_def split: if_splits option.splits)
  with assms(2,3) show ?thesis by (auto simp: find_None_iff)
qed

lemma apply_defaults_keep:
  assumes "\<forall>f\<in>set S. flag_name f \<in> set (map fst fl) \<or> flag_default f = JUndef"
  shows "apply_defaults S fl = fl"
proof -
  have "foldl (\<lambda>fl f. if truthy (prop_get fl (flag_name f)) then fl
                     else if flag_name f \<notin> set (map fst fl) \<and> flag_default f \<noteq> JUndef
                          then AList.update (flag_name f) (flag_default f) fl else fl) fl S' = fl"
    if "set S' \<subseteq> set S" for S'
    using that assms by (induction S' rule: rev_induct) auto
  then show ?thesis by (simp add: apply_defaults_def)
qed

lemma apply_defaults_Cons:
  "apply_defaults (f # S) fl =
     apply_defaults S (if truthy (prop_get fl (flag_name f)) then fl
                       else if flag_name f \<notin> set (map fst fl) \<and> flag_default f \<noteq> JUndef
                            then AList.update (flag_name f) (flag_default f) fl else fl)"
  by (simp add: apply_defaults_def)

lemma parse_argv_steps:
  assumes "lex_argv S True argv = Inr ts" and "apply_toks S [] ts = Inr fl0"
    and "apply_defaults S fl0 = fl" and "validate S ts fl = None"
  shows "parse_argv S argv = Inr fl"
  unfolding parse_argv_def by (simp only: assms sum.case Let_def option.case)

lemma find_flag_name: "find_flag S n = Some f \<Longrightarrow> flag_name f = n"
  by (auto simp: find_flag_def find_Some_iff)

theorem lex_long_pairs:
  assumes "\<forall>(n, v) \<in> set xs. n \<noteq> [] \<and> (\<exists>f. find_flag S n = Some f \<and> flag_kind f = StringFlag)"
  shows "lex_argv S True (concat (map (\<lambda>(n, v). [''--'' @ n, v]) xs)) =
           Inr (map (\<lambda>(n, v). RawFlag n v) xs)"
  using assms
proof (induction xs)
  case Nil
  then show ?case by simp
next
  case (Cons p xs)
  obtain n v where p: "p = (n, v)" by fastforce
  with Cons.prems obtain f where n: "n \<noteq> []" and f: "find_flag S n = Some f" "flag_kind f = StringFlag"
    by auto
  have name: "flag_name f = n" using f(1) by (rule find_flag_name)
  have "lookup_flag S (''--'' @ n) = Some f"
    using f(1) by (simp add: lookup_flag_def)
  then have "parse_flag S (''--'' @ n) (v # concat (map (\<lambda>(n, v). [''--'' @ n, v]) xs)) =
               Some (Inr (RawFlag n v, concat (map (\<lambda>(n, v). [''--'' @ n, v]) xs)))"
    using f(2) name by (simp add: parse_flag_def take_flag_def)
  moreover have "''--'' @ n \<noteq> ''--''" using n by simp
  ultimately show ?case
    using Cons.IH Cons.prems p by (simp add: cons_tok_def)
qed

subsection \<open>The parse inside a command\<close>

lemma handle_cmd_parse_status:
  "fst (handle (js_bind (cmd_parse S argv) f) e w) =
     (case parse_argv S argv of Inl _ \<Rightarrow> 2 | Inr fl \<Rightarrow> fst (handle (f fl) e w))"
  by (cases "parse_argv S argv") (simp_all add: cmd_parse_fails cmd_parse_succeeds)

subsection \<open>Equivalent spellings of a flag\<close>

text \<open>For a string flag, \<open>--name=v\<close>, \<open>--name v\<close>, \<open>-c v\<close> and \<open>-c=v\<close>
  give the same token, when no flag name contains \<open>=\<close>.\<close>

lemma find_flag_eq_char:
  assumes "\<forall>f\<in>set S. CHR ''='' \<notin> set (flag_name f)" and "CHR ''='' \<in> set n"
  shows "find_flag S n = None"
  using assms by (auto simp: find_flag_def find_None_iff)

lemma lex_long_eq:
  assumes "\<forall>f\<in>set S. CHR ''='' \<notin> set (flag_name f)"
    and "find_flag S n = Some f" and "flag_kind f = StringFlag" and "n \<noteq> []"
  shows "lex_argv S True ((''--'' @ n @ ''='' @ v) # rest) = lex_argv S True ((''--'' @ n) # v # rest)"
proof -
  have nn: "CHR ''='' \<notin> set n"
    using assms(1,2) find_flag_name [OF assms(2)] by (auto simp: find_flag_def find_Some_iff)
  have none: "lookup_flag S (''--'' @ n @ ''='' @ v) = None"
    using find_flag_eq_char [OF assms(1), of "n @ ''='' @ v"] by (simp add: lookup_flag_def)
  have tw: "takeWhile (\<lambda>c. c \<noteq> CHR ''='') (''--'' @ n @ ''='' @ v) = ''--'' @ n"
    using nn by (simp add: takeWhile_append)
  have dw: "tl (dropWhile (\<lambda>c. c \<noteq> CHR ''='') (''--'' @ n @ ''='' @ v)) = v"
    using nn by (simp add: dropWhile_append)
  have lk: "lookup_flag S (''--'' @ n) = Some f"
    using assms(2) by (simp add: lookup_flag_def)
  have pf: "parse_flag S (''--'' @ n @ ''='' @ v) rest = parse_flag S (''--'' @ n) (v # rest)"
    using none tw dw lk by (simp add: parse_flag_def Let_def)
  have sm: "parse_flag S (''--'' @ n) (v # rest) = Some (Inr (RawFlag n v, rest))"
    using lk assms(3) find_flag_name [OF assms(2)] by (simp add: parse_flag_def take_flag_def)
  have a1: "''--'' @ n @ ''='' @ v \<noteq> ''--''" and a2: "''--'' @ n \<noteq> ''--''" using assms(4) by simp_all
  show ?thesis using pf sm a1 a2 by simp
qed

lemma lex_short_long:
  assumes "find_char S c = Some f" and "find_flag S (flag_name f) = Some f"
    and "flag_kind f = StringFlag" and "c \<noteq> CHR ''-''" and "flag_name f \<noteq> []"
  shows "lex_argv S True ([CHR ''-'', c] # v # rest) = lex_argv S True ((''--'' @ flag_name f) # v # rest)"
proof -
  have "parse_flag S [CHR ''-'', c] (v # rest) = Some (Inr (RawFlag (flag_name f) v, rest))"
    using assms(1,3,4) by (simp add: parse_flag_def lookup_flag_def take_flag_def)
  moreover have "parse_flag S (''--'' @ flag_name f) (v # rest) = Some (Inr (RawFlag (flag_name f) v, rest))"
    using assms(2,3) by (simp add: parse_flag_def lookup_flag_def take_flag_def)
  ultimately show ?thesis using assms(4,5) by simp
qed

lemma lex_short_eq:
  assumes "find_char S c = Some f" and "flag_kind f = StringFlag" and "c \<noteq> CHR ''-''"
  shows "lex_argv S True ((CHR ''-'' # c # CHR ''='' # v) # rest) = lex_argv S True ([CHR ''-'', c] # v # rest)"
proof -
  have "parse_flag S (CHR ''-'' # c # CHR ''='' # v) rest = Some (Inr (RawFlag (flag_name f) v, rest))"
    using assms by (simp add: parse_flag_def lookup_flag_def take_flag_def)
  moreover have "parse_flag S [CHR ''-'', c] (v # rest) = Some (Inr (RawFlag (flag_name f) v, rest))"
    using assms by (simp add: parse_flag_def lookup_flag_def take_flag_def)
  ultimately show ?thesis using assms(3) by simp
qed

lemma parse_argv_lex_cong:
  "lex_argv S True argv = lex_argv S True argv' \<Longrightarrow> parse_argv S argv = parse_argv S argv'"
  by (simp add: parse_argv_def)

subsection \<open>A parse error at the end of the process\<close>

text \<open>The parser's error leaves \<open>run\<close> and reaches oclif's \<open>catch\<close>: an
  unexpected first argument \<open>-h\<close>, \<open>--help\<close> or \<open>help\<close> shows the help, one
  of \<open>-v\<close>, \<open>--version\<close>, \<open>version\<close> the version, both with status 0; any
  other parse error ends the process with status 2 and the error on stderr.\<close>

lemma handle_oclif_parse_fails:
  assumes "parse_argv S argv = Inl x" and "\<not> help_override argv"
  shows "handle (oclif_run argv (js_bind (cmd_parse S argv) f)) e w =
           (if redirect_msg help_words (err_message x) then (0, w\<lparr>stdout := stdout w @ [LogHelp]\<rparr>)
            else if redirect_msg version_words (err_message x) then (0, w\<lparr>stdout := stdout w @ [LogVersion]\<rparr>)
            else (2, w\<lparr>stderr := stderr w @ [x]\<rparr>))"
proof -
  have "js_bind (cmd_parse S argv) f e w = (Inl x, w)"
    using assms(1) by (simp add: cmd_parse_def js_run)
  moreover have "exit_status (Inl x :: js_error + unit) = 2" and "report x w = w\<lparr>stderr := stderr w @ [x]\<rparr>"
    using flag_error_handled [OF parse_argv_error [OF assms(1)]]
    by (simp_all add: exit_status_def report_def)
  ultimately show ?thesis using assms(2) by (simp add: handle_oclif_throw)
qed

lemma redirect_demo:
  "redirect_msg help_words (''Unexpected argument: -h'' @ [CHR 0x0A] @ ''See more help with --help'')"
  "\<not> redirect_msg help_words (''Unexpected argument: x'' @ [CHR 0x0A] @ ''See more help with --help'')"
  by (simp_all add: redirect_msg_def help_words_def)

lemma zero_help_parse_run:
  assumes "\<And>fl. ends_with k (f fl)" and "k \<noteq> 0"
  shows "zero_help (js_bind (cmd_parse S argv) f)"
proof (cases "parse_argv S argv")
  case (Inl x)
  then show ?thesis
    using flag_error_handled [OF parse_argv_error [OF Inl]]
    by (intro zero_help_nonzero) (simp add: cmd_parse_def js_run)
next
  case (Inr fl)
  then show ?thesis
    using zero_help_ends_with [OF assms(1) assms(2)] by (simp add: cmd_parse_succeeds)
qed

end
