(* ===== verification/JsonParse.thy ===== *)
theory JsonParse
  imports Runtime
begin

text \<open>
  \<open>JSON.parse\<close>, which \<open>chat:channel:init\<close> applies to its \<open>--data\<close> flag.
  The text is cut into tokens (punctuation, strings with their escapes,
  numbers, the three literals; whitespace between tokens is space, tab,
  line feed and carriage return), and the tokens are read by a pushdown
  machine whose stack holds the arrays and objects not yet closed. An
  object keeps its keys in the order of their first occurrence and the value
  of their last (\<open>CreateDataProperty\<close>), and a key \<open>__proto__\<close> is an own
  property like any other. A syntax error is a \<open>SyntaxError\<close>.

  The values are those of \<open>JsValue\<close>: numbers are exact decimals (\<open>-0\<close> is
  read as \<open>0\<close>), strings are code units below 256. A \<open>\u\<close> escape above
  \<open>00FF\<close> denotes a code unit these strings cannot hold: the model rejects
  it with a \<open>TypeError\<close> that names the limitation, where JavaScript would
  accept it.
\<close>

datatype jtok =
    TLBrace | TRBrace | TLBrack | TRBrack | TColon | TComma
  | TStr string | TNum jnum | TTrue | TFalse | TNull

definition json_error :: "string \<Rightarrow> js_error" where
  "json_error msg = mk_error (SyntaxError msg)"

definition unexpected :: js_error where
  "unexpected = json_error ''Unexpected token in JSON''"

definition unexpected_end :: js_error where
  "unexpected_end = json_error ''Unexpected end of JSON input''"

definition out_of_model :: js_error where
  "out_of_model = mk_error (TypeError ''code unit above 00FF'')"

definition parse_errors :: "js_error set" where
  "parse_errors = {unexpected, unexpected_end, out_of_model}"

subsection \<open>Lexing strings\<close>

definition is_ws :: "char \<Rightarrow> bool" where
  "is_ws c \<longleftrightarrow> c \<in> {CHR '' '', CHR 0x09, CHR 0x0A, CHR 0x0D}"

definition hex_val :: "char \<Rightarrow> nat option" where
  "hex_val c =
     (let n = (of_char c :: nat) in
      if 48 \<le> n \<and> n \<le> 57 then Some (n - 48)
      else if 65 \<le> n \<and> n \<le> 70 then Some (n - 55)
      else if 97 \<le> n \<and> n \<le> 102 then Some (n - 87)
      else None)"

definition hex4 :: "string \<Rightarrow> nat option" where
  "hex4 s =
     (if length s < 4 then None
      else case those (map hex_val (take 4 s)) of
             None \<Rightarrow> None
           | Some ds \<Rightarrow> Some (foldl (\<lambda>n d. 16 * n + d) 0 ds))"

text \<open>The one-character escapes \<open>\" \\ \/ \b \f \n \r \t\<close>.\<close>

definition simple_escape :: "char \<Rightarrow> char option" where
  "simple_escape e =
     (if e = CHR 0x22 then Some (CHR 0x22)
      else if e = CHR 0x5C then Some (CHR 0x5C)
      else if e = CHR ''/'' then Some (CHR ''/'')
      else if e = CHR ''b'' then Some (CHR 0x08)
      else if e = CHR ''f'' then Some (CHR 0x0C)
      else if e = CHR ''n'' then Some (CHR 0x0A)
      else if e = CHR ''r'' then Some (CHR 0x0D)
      else if e = CHR ''t'' then Some (CHR 0x09)
      else None)"

text \<open>The body of a string literal after its opening quote; \<open>acc\<close> holds
  the characters read so far, in reverse.\<close>

fun lex_str :: "string \<Rightarrow> string \<Rightarrow> js_error + string \<times> string" where
  "lex_str [] acc = Inl unexpected_end"
| "lex_str (c # cs) acc =
     (if c = CHR 0x22 then Inr (rev acc, cs)
      else if c = CHR 0x5C then
        (case cs of
           [] \<Rightarrow> Inl unexpected_end
         | e # cs' \<Rightarrow>
             (case simple_escape e of
                Some x \<Rightarrow> lex_str cs' (x # acc)
              | None \<Rightarrow>
                  if e = CHR ''u'' then
                    (case hex4 cs' of
                       None \<Rightarrow> Inl unexpected
                     | Some n \<Rightarrow> if n < 256 then lex_str (drop 4 cs') (char_of n # acc)
                                 else Inl out_of_model)
                  else Inl unexpected))
      else if (of_char c :: nat) < 32 then Inl unexpected
      else lex_str cs (c # acc))"

lemma lex_str_props:
  "(lex_str s acc = Inl x \<longrightarrow> x \<in> parse_errors) \<and>
   (lex_str s acc = Inr (r, rest) \<longrightarrow> length rest < length s)"
proof (induction s acc rule: lex_str.induct)
  case (1 acc)
  then show ?case by (simp add: parse_errors_def)
next
  case (2 c cs acc)
  consider (quote) "c = CHR 0x22"
    | (esc) e cs' where "c \<noteq> CHR 0x22" "c = CHR 0x5C" "cs = e # cs'"
    | (plain) "c \<noteq> CHR 0x22" "c \<noteq> CHR 0x5C"
    | (esc_end) "c \<noteq> CHR 0x22" "c = CHR 0x5C" "cs = []"
    by (cases cs) auto
  then show ?case
  proof cases
    case quote
    then show ?thesis by simp
  next
    case esc_end
    then show ?thesis by (simp add: parse_errors_def)
  next
    case plain
    show ?thesis
    proof (cases "(of_char c :: nat) < 32")
      case True
      with plain show ?thesis by (simp add: parse_errors_def)
    next
      case False
      with plain "2.IH"(3) show ?thesis by auto
    qed
  next
    case esc
    show ?thesis
    proof (cases "simple_escape e")
      case (Some y)
      with esc "2.IH"(2) [of e cs' y] show ?thesis by auto
    next
      case None
      show ?thesis
      proof (cases "e = CHR ''u''")
        case False
        with esc None show ?thesis by (simp add: parse_errors_def)
      next
        case True
        show ?thesis
        proof (cases "hex4 cs'")
          case None': None
          with esc None True show ?thesis by (simp add: parse_errors_def)
        next
          case (Some n)
          with esc None True "2.IH"(1) [of e cs' n] show ?thesis
            by (auto simp: parse_errors_def)
        qed
      qed
    qed
  qed
qed

lemma lex_str_suffix: "lex_str s acc = Inr (r, rest) \<Longrightarrow> length rest < length s"
  using lex_str_props by blast

lemma lex_str_error: "lex_str s acc = Inl x \<Longrightarrow> x \<in> parse_errors"
  using lex_str_props by blast

subsection \<open>Lexing numbers\<close>

text \<open>
  \<open>-? (0 | [1-9][0-9]*) (. [0-9]+)? ([eE] [+-]? [0-9]+)?\<close>. A leading zero
  followed by a digit is rejected here: JSON has no place where a number
  may follow the number \<open>0\<close>, so this gives the same errors as reading the
  \<open>0\<close> alone.
\<close>

definition lex_exp :: "string \<Rightarrow> (int \<times> string) option" where
  "lex_exp s =
     (case s of
        c # s' \<Rightarrow>
          if c = CHR ''e'' \<or> c = CHR ''E'' then
            (let (neg, s'') = (case s' of
                                 d # t \<Rightarrow> if d = CHR ''-'' then (True, t)
                                          else if d = CHR ''+'' then (False, t) else (False, s')
                               | [] \<Rightarrow> (False, s'));
                 ds = takeWhile is_digit s''
             in if ds = [] then None
                else Some ((if neg then - 1 else 1) * int (digits_value ds), dropWhile is_digit s''))
          else Some (0, s)
      | [] \<Rightarrow> Some (0, []))"

definition lex_frac :: "string \<Rightarrow> (string \<times> string) option" where
  "lex_frac s =
     (case s of
        c # s' \<Rightarrow>
          if c = CHR ''.'' then
            (let ds = takeWhile is_digit s' in
             if ds = [] then None else Some (ds, dropWhile is_digit s'))
          else Some ([], s)
      | [] \<Rightarrow> Some ([], []))"

definition lex_num :: "string \<Rightarrow> (jnum \<times> string) option" where
  "lex_num s =
     (let (neg, s1) = (case s of c # t \<Rightarrow> if c = CHR ''-'' then (True, t) else (False, s)
                                | [] \<Rightarrow> (False, s));
          ids = takeWhile is_digit s1
      in if ids = [] \<or> (hd ids = CHR ''0'' \<and> 1 < length ids) then None
         else case lex_frac (dropWhile is_digit s1) of
                None \<Rightarrow> None
              | Some (fds, s2) \<Rightarrow>
                  (case lex_exp s2 of
                     None \<Rightarrow> None
                   | Some (x, s3) \<Rightarrow>
                       Some (dec_norm ((if neg then - 1 else 1) * int (digits_value (ids @ fds)))
                                      (x - int (length fds)), s3)))"

lemma length_dropWhile_le: "length (dropWhile P s) \<le> length s"
  by (induction s) auto

lemma lex_frac_suffix: "lex_frac s = Some (ds, rest) \<Longrightarrow> length rest \<le> length s"
  by (auto simp: lex_frac_def Let_def split: list.splits if_splits
           intro: le_SucI length_dropWhile_le)

lemma lex_exp_suffix: "lex_exp s = Some (x, rest) \<Longrightarrow> length rest \<le> length s"
  by (auto simp: lex_exp_def Let_def split: list.splits if_splits prod.splits
           intro: le_SucI length_dropWhile_le)

lemma dropWhile_shorter:
  "takeWhile P s \<noteq> [] \<Longrightarrow> length (dropWhile P s) < length s"
  by (cases s) (auto simp: le_imp_less_Suc length_dropWhile_le split: if_splits)

lemma lex_num_suffix: "lex_num s = Some (n, rest) \<Longrightarrow> length rest < length s"
proof -
  assume a: "lex_num s = Some (n, rest)"
  obtain neg s1 where ns: "(case s of c # t \<Rightarrow> if c = CHR ''-'' then (True, t) else (False, s)
                                | [] \<Rightarrow> (False, s)) = (neg, s1)"
    by fastforce
  have s1: "length s1 \<le> length s"
    using ns by (auto split: list.splits if_splits)
  from a ns obtain fds s2 x where
      ids: "takeWhile is_digit s1 \<noteq> []" and
      fr: "lex_frac (dropWhile is_digit s1) = Some (fds, s2)" and
      ex: "lex_exp s2 = Some (x, rest)"
    by (auto simp: lex_num_def Let_def split: if_splits option.splits prod.splits)
  have "length rest \<le> length s2" using ex by (rule lex_exp_suffix)
  also have "\<dots> \<le> length (dropWhile is_digit s1)" using fr by (rule lex_frac_suffix)
  also have "\<dots> < length s1" using ids by (rule dropWhile_shorter)
  finally show ?thesis using s1 by simp
qed

subsection \<open>The token stream\<close>

definition cons_jtok :: "jtok \<Rightarrow> js_error + jtok list \<Rightarrow> js_error + jtok list" where
  "cons_jtok t r = (case r of Inl x \<Rightarrow> Inl x | Inr ts \<Rightarrow> Inr (t # ts))"

definition punct :: "char \<Rightarrow> jtok option" where
  "punct c =
     (if c = CHR ''{'' then Some TLBrace else if c = CHR ''}'' then Some TRBrace
      else if c = CHR ''['' then Some TLBrack else if c = CHR '']'' then Some TRBrack
      else if c = CHR '':'' then Some TColon else if c = CHR '','' then Some TComma
      else None)"

function json_lex :: "string \<Rightarrow> js_error + jtok list" where
  "json_lex [] = Inr []"
| "json_lex (c # cs) =
     (if is_ws c then json_lex cs
      else case punct c of
        Some t \<Rightarrow> cons_jtok t (json_lex cs)
      | None \<Rightarrow>
          if c = CHR 0x22 then
            (case lex_str cs [] of
               Inl x \<Rightarrow> Inl x
             | Inr (s, rest) \<Rightarrow> cons_jtok (TStr s) (json_lex rest))
          else if c = CHR ''-'' \<or> is_digit c then
            (case lex_num (c # cs) of
               None \<Rightarrow> Inl unexpected
             | Some (n, rest) \<Rightarrow> cons_jtok (TNum n) (json_lex rest))
          else if take 4 (c # cs) = ''true'' then cons_jtok TTrue (json_lex (drop 3 cs))
          else if take 5 (c # cs) = ''false'' then cons_jtok TFalse (json_lex (drop 4 cs))
          else if take 4 (c # cs) = ''null'' then cons_jtok TNull (json_lex (drop 3 cs))
          else Inl unexpected)"
  by pat_completeness auto
termination
  by (relation "measure length")
     (auto dest!: lex_str_suffix lex_num_suffix)

lemma cons_jtok_Inl [simp]: "cons_jtok t r = Inl x \<longleftrightarrow> r = Inl x"
  by (cases r) (auto simp: cons_jtok_def)

lemma cons_jtok_Inr [simp]: "cons_jtok t r = Inr ts \<longleftrightarrow> (\<exists>ts'. r = Inr ts' \<and> ts = t # ts')"
  by (cases r) (auto simp: cons_jtok_def)

lemma json_lex_error: "json_lex s = Inl x \<Longrightarrow> x \<in> parse_errors"
proof (induction s rule: json_lex.induct)
  case 1
  then show ?case by simp
next
  case (2 c cs)
  note IH = "2.IH" and prems = "2.prems"
  show ?case
  proof (cases "is_ws c")
    case True
    with IH(1) prems show ?thesis by simp
  next
    case nws: False
    show ?thesis
    proof (cases "punct c")
      case (Some t)
      with nws IH(7) prems show ?thesis by simp
    next
      case np: None
      show ?thesis
      proof (cases "c = CHR 0x22")
        case True
        show ?thesis
        proof (cases "lex_str cs []")
          case (Inl y)
          with nws np True prems show ?thesis by (simp add: lex_str_error)
        next
          case (Inr p)
          then obtain s rest where p: "lex_str cs [] = Inr (s, rest)" by (cases p) auto
          with nws np True IH(2) [of "(s, rest)" s rest] prems show ?thesis
            by simp
        qed
      next
        case nq: False
        show ?thesis
        proof (cases "c = CHR ''-'' \<or> is_digit c")
          case True
          show ?thesis
          proof (cases "lex_num (c # cs)")
            case None
            with nws np nq True prems show ?thesis by (simp add: parse_errors_def)
          next
            case (Some p)
            then obtain n rest where p: "lex_num (c # cs) = Some (n, rest)" by (cases p) auto
            with nws np nq True IH(3) [of "(n, rest)" n rest] prems
            show ?thesis by simp
          qed
        next
          case nn: False
          with nws np nq IH(4-6) prems show ?thesis
            by (simp add: parse_errors_def split: if_splits)
        qed
      qed
    qed
  qed
qed

lemma parse_errors_not_exit: "x \<in> parse_errors \<Longrightarrow> \<not> is_exit_error x"
  by (auto simp: parse_errors_def is_exit_error_def unexpected_def unexpected_end_def
                 out_of_model_def json_error_def mk_error_def)

subsection \<open>The pushdown reader\<close>

text \<open>
  The open containers: an array with its elements so far (in reverse), an
  object with its properties so far and the key whose value is being read.
  The mode says what the next token may be.
\<close>

datatype frame = ArrF "jsval list" | ObjF "jsval props" string

datatype pmode =
    PValue | PValueOrClose | PCommaOrClose | PKey | PKeyOrClose | PColon | PDone jsval

type_synonym pstate = "frame list \<times> pmode"

text \<open>A finished value goes into the innermost open container.\<close>

fun jp_complete :: "frame list \<Rightarrow> jsval \<Rightarrow> pstate" where
  "jp_complete [] v = ([], PDone v)"
| "jp_complete (ArrF xs # st) v = (ArrF (v # xs) # st, PCommaOrClose)"
| "jp_complete (ObjF ps k # st) v = (ObjF (AList.update k v ps) k # st, PCommaOrClose)"

fun prim_tok :: "jtok \<Rightarrow> jsval option" where
  "prim_tok (TStr s) = Some (JStr s)"
| "prim_tok (TNum n) = Some (JNum n)"
| "prim_tok TTrue = Some (JBool True)"
| "prim_tok TFalse = Some (JBool False)"
| "prim_tok TNull = Some JNull"
| "prim_tok t = None"

fun jp_value :: "frame list \<Rightarrow> jtok \<Rightarrow> pstate option" where
  "jp_value st TLBrack = Some (ArrF [] # st, PValueOrClose)"
| "jp_value st TLBrace = Some (ObjF [] [] # st, PKeyOrClose)"
| "jp_value st t = map_option (jp_complete st) (prim_tok t)"

fun jp_close :: "frame list \<Rightarrow> jtok \<Rightarrow> pstate option" where
  "jp_close (ArrF xs # st) TRBrack = Some (jp_complete st (JArr (rev xs)))"
| "jp_close (ObjF ps k # st) TRBrace = Some (jp_complete st (JObj ps))"
| "jp_close st t = None"

fun jp_step :: "pstate \<Rightarrow> jtok \<Rightarrow> pstate option" where
  "jp_step (st, PValue) t = jp_value st t"
| "jp_step (st, PValueOrClose) t = (if t = TRBrack then jp_close st t else jp_value st t)"
| "jp_step (ArrF xs # st, PCommaOrClose) TComma = Some (ArrF xs # st, PValue)"
| "jp_step (ObjF ps k # st, PCommaOrClose) TComma = Some (ObjF ps k # st, PKey)"
| "jp_step (st, PCommaOrClose) t = jp_close st t"
| "jp_step (ObjF ps k # st, PKey) (TStr s) = Some (ObjF ps s # st, PColon)"
| "jp_step (ObjF ps k # st, PKeyOrClose) (TStr s) = Some (ObjF ps s # st, PColon)"
| "jp_step (st, PKeyOrClose) TRBrace = jp_close st TRBrace"
| "jp_step (st, PColon) TColon = Some (st, PValue)"
| "jp_step s t = None"

fun jp_run :: "pstate \<Rightarrow> jtok list \<Rightarrow> pstate option" where
  "jp_run s [] = Some s"
| "jp_run s (t # ts) = (case jp_step s t of None \<Rightarrow> None | Some s' \<Rightarrow> jp_run s' ts)"

definition json_parse :: "string \<Rightarrow> js_error + jsval" where
  "json_parse text =
     (case json_lex text of
        Inl x \<Rightarrow> Inl x
      | Inr ts \<Rightarrow>
          (case jp_run ([], PValue) ts of
             Some ([], PDone v) \<Rightarrow> Inr v
           | Some _ \<Rightarrow> Inl unexpected_end
           | None \<Rightarrow> Inl unexpected))"

lemma json_parse_error: "json_parse s = Inl x \<Longrightarrow> x \<in> parse_errors"
  by (auto simp: json_parse_def parse_errors_def dest: json_lex_error
           split: sum.splits option.splits prod.splits list.splits pmode.splits)

subsection \<open>The reader keeps objects well formed\<close>

text \<open>
  An invariant of the pushdown machine: every open container holds
  well-formed values and every open object distinct keys. Each step keeps
  it, so a parsed value is well formed.
\<close>

fun frame_ok :: "frame \<Rightarrow> bool" where
  "frame_ok (ArrF xs) = list_all wf_val xs"
| "frame_ok (ObjF ps k) = props_ok ps"

fun pstate_ok :: "pstate \<Rightarrow> bool" where
  "pstate_ok (st, PDone v) = (list_all frame_ok st \<and> wf_val v)"
| "pstate_ok (st, m) = list_all frame_ok st"

lemma jp_complete_ok:
  "list_all frame_ok st \<Longrightarrow> wf_val v \<Longrightarrow> pstate_ok (jp_complete st v)"
  by (induction st v rule: jp_complete.induct) (auto simp: props_ok_update)

lemma prim_tok_wf: "prim_tok t = Some v \<Longrightarrow> wf_val v"
  by (cases t) auto

lemma jp_value_ok:
  "list_all frame_ok st \<Longrightarrow> jp_value st t = Some s' \<Longrightarrow> pstate_ok s'"
  by (cases "(st, t)" rule: jp_value.cases)
     (auto simp: props_ok_def intro!: jp_complete_ok dest: prim_tok_wf)

lemma jp_close_ok:
  "list_all frame_ok st \<Longrightarrow> jp_close st t = Some s' \<Longrightarrow> pstate_ok s'"
  by (cases "(st, t)" rule: jp_close.cases) (auto simp: props_ok_def intro!: jp_complete_ok)

lemma pstate_ok_frames: "pstate_ok (st, m) \<Longrightarrow> list_all frame_ok st"
  by (cases m) auto

lemma jp_step_ok: "pstate_ok s \<Longrightarrow> jp_step s t = Some s' \<Longrightarrow> pstate_ok s'"
  by (induction s t rule: jp_step.induct)
     (auto simp: props_ok_def intro!: jp_complete_ok
           dest: jp_value_ok jp_close_ok pstate_ok_frames split: if_splits)

lemma jp_run_ok: "pstate_ok s \<Longrightarrow> jp_run s ts = Some s' \<Longrightarrow> pstate_ok s'"
  by (induction s ts rule: jp_run.induct) (auto dest: jp_step_ok split: option.splits)

theorem json_parse_wf: "json_parse text = Inr v \<Longrightarrow> wf_val v"
proof -
  assume a: "json_parse text = Inr v"
  then obtain ts where "json_lex text = Inr ts" and run: "jp_run ([], PValue) ts = Some ([], PDone v)"
    by (auto simp: json_parse_def split: sum.splits option.splits prod.splits list.splits
             pmode.splits)
  have "pstate_ok ([], PDone v)" using jp_run_ok [OF _ run] by simp
  then show ?thesis by simp
qed

text \<open>\<open>JSON.parse(x)\<close> as an action of the runtime.\<close>

definition js_json_parse :: "jsval \<Rightarrow> jsval js" where
  "js_json_parse x = (case json_parse (js_to_string x) of Inl e \<Rightarrow> js_throw e | Inr v \<Rightarrow> js_return v)"

lemma parse_errors_quiet: "x \<in> parse_errors \<Longrightarrow> quiet_msg (err_message x)"
  by (auto simp: parse_errors_def unexpected_def unexpected_end_def out_of_model_def json_error_def
                 mk_error_def err_message_def quiet_msg_def redirect_msg_def help_words_def version_words_def)

lemma quiet_json_parse [quiet_intros]: "quiet P (js_json_parse x)"
  by (auto simp: js_json_parse_def quiet_def js_run dest: json_parse_error parse_errors_quiet
           split: sum.splits)

end
