(* ===== verification/ChannelInit.thy ===== *)
theory ChannelInit
  imports Flags JsonParse
begin

text \<open>
  The command \<open>chat:channel:init\<close> (\<open>src/src/commands/chat/channel/init.js\<close>,
  class \<open>ChannelInit\<close>). Its flag table (lines 9--46) is evaluated once,
  when the class is defined: the default of \<open>--id\<close> is the \<open>uuid()\<close> drawn
  at that moment, so \<open>channel_init_flags\<close> takes it as a parameter. Its
  \<open>run\<close> (lines 48--82) parses the flags outside the \<open>try\<close>, then inside it
  authenticates, builds the payload (lines 57--70), sends the channel
  creation, logs the confirmation and calls \<open>this.exit(0)\<close>; the \<open>catch\<close>
  passes every error to \<open>this.error(err, {exit: 1})\<close>.
\<close>

definition channel_types :: "string list" where
  "channel_types = [''livestream'', ''messaging'', ''gaming'', ''commerce'', ''team'']"

definition channel_init_flags :: "string \<Rightarrow> schema" where
  "channel_init_flags default_id =
     [string_flag ''id'' (Some CHR ''i'') None True (JStr default_id),
      string_flag ''type'' (Some CHR ''t'') (Some channel_types) True JUndef,
      string_flag ''name'' (Some CHR ''n'') None True JUndef,
      string_flag ''image'' (Some CHR ''u'') None False JUndef,
      string_flag ''members'' (Some CHR ''m'') None False JUndef,
      string_flag ''data'' (Some CHR ''d'') None False JUndef]"

text \<open>\<open>path.join(this.config.configDir, 'config.json')\<close> for a config
  directory given as a normalised path without a trailing separator.\<close>

definition config_json_path :: "string \<Rightarrow> string" where
  "config_json_path dir = dir @ ''/config.json''"

definition get_config_dir :: "string js" where
  "get_config_dir = (\<lambda>e w. (Inr (config_dir e), w))"

text \<open>Lines 57--65: the payload before \<open>--data\<close> is merged.\<close>

definition init_payload :: "jsval props \<Rightarrow> string \<Rightarrow> jsval props" where
  "init_payload fl u =
     (let p0 = [(''name'', prop_get fl ''name''),
                (''created_by'', JObj [(''id'', JStr u), (''name'', JStr ''CLI'')])];
          p1 = (if truthy (prop_get fl ''image'')
                then AList.update ''image'' (prop_get fl ''image'') p0 else p0);
          p2 = (if truthy (prop_get fl ''members'')
                then AList.update ''members''
                       (JArr (map JStr (js_split (js_to_string (prop_get fl ''members'')) CHR '','')))
                       p1
                else p1)
      in p2)"

text \<open>Lines 67--70: \<open>payload = Object.assign({}, payload, JSON.parse(flags.data))\<close>.\<close>

definition merge_data :: "jsval props \<Rightarrow> jsval \<Rightarrow> jsval props js" where
  "merge_data payload d =
     (if truthy d
      then js_bind (js_json_parse d) (\<lambda>parsed. js_return (object_assign [] [JObj payload, parsed]))
      else js_return payload)"

definition init_message :: "jsval props \<Rightarrow> string" where
  "init_message fl = ''The channel '' @ js_to_string (prop_get fl ''name'') @ '' has been initialized!''"

definition rocket :: jsval where
  "rocket = JObj [(''emoji'', JStr ''rocket'')]"

text \<open>Lines 51--81, after \<open>this.parse\<close>: \<open>client.channel(type, id, payload)\<close>
  builds a local handle and \<open>channel.create()\<close> is the remote operation.\<close>

definition channel_init_run :: "jsval props \<Rightarrow> unit js" where
  "channel_init_run fl =
     js_try
       (js_bind get_config_dir (\<lambda>dir.
        js_then (auth_client (config_json_path dir))
        (js_bind uuid_v4 (\<lambda>u.
         js_bind (merge_data (init_payload fl u) (prop_get fl ''data'')) (\<lambda>payload.
         js_then (remote (ChannelCreate (prop_get fl ''type'') (prop_get fl ''id'') (JObj payload)))
         (js_then (cmd_log_fmt (init_message fl) rocket)
         (cmd_exit 0)))))))
       (\<lambda>err. cmd_error err 1)"

text \<open>Line 49 then the rest of \<open>run\<close>: a parse error is thrown outside the
  \<open>try\<close>.\<close>

definition channel_init_main :: "string \<Rightarrow> string list \<Rightarrow> unit js" where
  "channel_init_main default_id argv =
     js_bind (cmd_parse (channel_init_flags default_id) argv) channel_init_run"

text \<open>Loading the module (which evaluates the flag table and its \<open>uuid()\<close>)
  and running the command once, as one process does.\<close>

definition channel_init_command :: "string list \<Rightarrow> unit js" where
  "channel_init_command argv = js_bind uuid_v4 (\<lambda>d. channel_init_main d argv)"

text \<open>The whole process: loading the module, then oclif's \<open>Command._run\<close>
  around \<open>run\<close> (the help override of \<open>init\<close>, and \<open>catch\<close>).\<close>

definition channel_init_process :: "string list \<Rightarrow> unit js" where
  "channel_init_process argv = js_bind uuid_v4 (\<lambda>d. oclif_run argv (channel_init_main d argv))"

subsection \<open>Properties of a run\<close>

text \<open>Authentication succeeds for the config file of the environment.\<close>

definition auth_ok :: "env \<Rightarrow> bool" where
  "auth_ok e \<longleftrightarrow> auth_outcome e (config_json_path (config_dir e)) = None"

text \<open>The flags of the worked examples: \<open>-i general -t messaging -n General\<close>.\<close>

definition demo_flags :: "jsval props" where
  "demo_flags = [(''id'', JStr ''general''), (''type'', JStr ''messaging''), (''name'', JStr ''General'')]"

subsection \<open>The payload\<close>

lemma merge_data_falsy: "\<not> truthy d \<Longrightarrow> merge_data p d e w = (Inr p, w)"
  by (simp add: merge_data_def js_return_def)

lemmas channel_init_unfold =
  channel_init_run_def get_config_dir_def handle_def exit_status_def auth_ok_def
  is_exit_error_def

lemma channel_init_sent:
  assumes "auth_ok e"
    and "merge_data (init_payload fl (uuid_at e (uuid_count w))) (prop_get fl ''data'') e
           (w\<lparr>uuid_count := Suc (uuid_count w)\<rparr>) = (Inr p, w\<lparr>uuid_count := Suc (uuid_count w)\<rparr>)"
    and "remote_outcome e (ChannelCreate (prop_get fl ''type'') (prop_get fl ''id'') (JObj p)) = r"
  shows "handle (channel_init_run fl) e w =
           (case r of
              None \<Rightarrow>
                (1, w\<lparr>stdout := stdout w @ [LogFormat (init_message fl) rocket],
                      calls := calls w @ [ChannelCreate (prop_get fl ''type'') (prop_get fl ''id'') (JObj p)],
                      uuid_count := Suc (uuid_count w)\<rparr>)
            | Some msg \<Rightarrow>
                (1, w\<lparr>stderr := stderr w @ [\<lparr>kind = RemoteError msg, oclif_exit = Some 1\<rparr>],
                      calls := calls w @ [ChannelCreate (prop_get fl ''type'') (prop_get fl ''id'') (JObj p)],
                      uuid_count := Suc (uuid_count w)\<rparr>))"
  using assms by (simp add: channel_init_unfold js_run split: option.split)

text \<open>C1: With authentication accepted, no --data and the remote creation accepted, run sends exactly one ChannelCreate with the built payload, logs the confirmation with the rocket object, draws one uuid, and the process exits with status 1: the ExitError of this.exit(0) is caught and rethrown by this.error(err, {exit: 1}).\<close>

theorem channel_init_created:
  assumes "auth_ok e" and "\<not> truthy (prop_get fl ''data'')"
    and "remote_outcome e (ChannelCreate (prop_get fl ''type'') (prop_get fl ''id'')
           (JObj (init_payload fl (uuid_at e (uuid_count w))))) = None"
  shows "handle (channel_init_run fl) e w =
           (1, w\<lparr>stdout := stdout w @ [LogFormat (init_message fl) rocket],
                 calls := calls w @ [ChannelCreate (prop_get fl ''type'') (prop_get fl ''id'')
                                       (JObj (init_payload fl (uuid_at e (uuid_count w))))],
                 uuid_count := Suc (uuid_count w)\<rparr>)"
  using assms by (simp add: channel_init_unfold merge_data_falsy js_run)

theorem channel_init_created_witness:
  "handle (channel_init_run [(''id'', JStr ''general''), (''type'', JStr ''messaging''),
                             (''name'', JStr ''General'')]) demo_env demo_world =
   (1, demo_world\<lparr>stdout := [LogFormat ''The channel General has been initialized!'' rocket],
        calls := [ChannelCreate (JStr ''messaging'') (JStr ''general'')
                    (JObj [(''name'', JStr ''General''),
                           (''created_by'', JObj [(''id'', JStr ''uuid-0''), (''name'', JStr ''CLI'')])])],
        uuid_count := 1\<rparr>)"
proof -
  let ?fl = "[(''id'', JStr ''general''), (''type'', JStr ''messaging''), (''name'', JStr ''General'')]"
  have a: "auth_ok demo_env" by (simp add: auth_ok_def demo_env_def)
  have d: "\<not> truthy (prop_get ?fl ''data'')" by (simp add: prop_get_def)
  have r: "remote_outcome demo_env (ChannelCreate (prop_get ?fl ''type'') (prop_get ?fl ''id'')
           (JObj (init_payload ?fl (uuid_at demo_env (uuid_count demo_world))))) = None"
    by (simp add: demo_env_def)
  show ?thesis
    using channel_init_created [OF a d r]
    by (simp add: demo_env_def demo_world_def init_payload_def init_message_def prop_get_def
                  nat_digits_0)
qed




text \<open>C3: With --data holding valid JSON, the payload sent is Object.assign({}, payload, parsed) and the run otherwise behaves as without data (one call, the confirmation, status 1).\<close>

theorem channel_init_created_with_data:
  assumes "auth_ok e" and "truthy (prop_get fl ''data'')"
    and "json_parse (js_to_string (prop_get fl ''data'')) = Inr v"
    and "remote_outcome e (ChannelCreate (prop_get fl ''type'') (prop_get fl ''id'')
           (JObj (object_assign [] [JObj (init_payload fl (uuid_at e (uuid_count w))), v]))) = None"
  shows "handle (channel_init_run fl) e w =
           (1, w\<lparr>stdout := stdout w @ [LogFormat (init_message fl) rocket],
                 calls := calls w @ [ChannelCreate (prop_get fl ''type'') (prop_get fl ''id'')
                   (JObj (object_assign [] [JObj (init_payload fl (uuid_at e (uuid_count w))), v]))],
                 uuid_count := Suc (uuid_count w)\<rparr>)"
  using assms by (simp add: channel_init_unfold merge_data_def js_json_parse_def js_run)

theorem channel_init_created_with_data_witness:
  "handle (channel_init_run (demo_flags @ [(''data'', JStr ''{\"name\":\"X\",\"topic\":1}'')]))
          demo_env demo_world =
   (1, demo_world\<lparr>stdout := [LogFormat ''The channel General has been initialized!'' rocket],
        calls := [ChannelCreate (JStr ''messaging'') (JStr ''general'')
                    (JObj [(''name'', JStr ''X''),
                           (''created_by'', JObj [(''id'', JStr ''uuid-0''), (''name'', JStr ''CLI'')]),
                           (''topic'', JNum (JDec 1 0))])],
        uuid_count := 1\<rparr>)"
proof -
  let ?fl = "demo_flags @ [(''data'', JStr ''{\"name\":\"X\",\"topic\":1}'')]"
  have a: "auth_ok demo_env" by (simp add: auth_ok_def demo_env_def)
  have d: "truthy (prop_get ?fl ''data'')" by (simp add: prop_get_def demo_flags_def)
  have j: "json_parse (js_to_string (prop_get ?fl ''data'')) =
           Inr (JObj [(''name'', JStr ''X''), (''topic'', JNum (JDec 1 0))])"
    by (simp add: prop_get_def demo_flags_def) code_simp
  have r: "remote_outcome demo_env (ChannelCreate (prop_get ?fl ''type'') (prop_get ?fl ''id'')
           (JObj (object_assign [] [JObj (init_payload ?fl (uuid_at demo_env (uuid_count demo_world))),
                                     JObj [(''name'', JStr ''X''), (''topic'', JNum (JDec 1 0))]]))) = None"
    by (simp add: demo_env_def)
  have p: "object_assign [] [JObj (init_payload ?fl ''uuid-0''),
                             JObj [(''name'', JStr ''X''), (''topic'', JNum (JDec 1 0))]] =
           [(''name'', JStr ''X''),
            (''created_by'', JObj [(''id'', JStr ''uuid-0''), (''name'', JStr ''CLI'')]),
            (''topic'', JNum (JDec 1 0))]"
    by (simp add: init_payload_def prop_get_def demo_flags_def) code_simp
  show ?thesis
    using channel_init_created_with_data [OF a d j r] p
    by (simp add: demo_env_def demo_world_def init_message_def prop_get_def demo_flags_def
                  nat_digits_0)
qed

text \<open>C4: Malformed JSON in --data makes run exit with status 1, the SyntaxError on stderr with exit code 1, and no remote call.\<close>

theorem channel_init_bad_data:
  assumes "auth_ok e" and "truthy (prop_get fl ''data'')"
    and "json_parse (js_to_string (prop_get fl ''data'')) = Inl x"
  shows "handle (channel_init_run fl) e w =
           (1, w\<lparr>stderr := stderr w @ [x\<lparr>oclif_exit := Some 1\<rparr>],
                 uuid_count := Suc (uuid_count w)\<rparr>)"
proof -
  have "\<not> is_exit_error (x\<lparr>oclif_exit := Some 1\<rparr>)"
    using parse_errors_not_exit [OF json_parse_error [OF assms(3)]]
    by (simp add: is_exit_error_def)
  with assms show ?thesis
    by (simp add: channel_init_unfold merge_data_def js_json_parse_def js_run)
qed

theorem channel_init_bad_data_witness:
  "handle (channel_init_run (demo_flags @ [(''data'', JStr ''{name: 1}'')])) demo_env demo_world =
   (1, demo_world\<lparr>stderr := [unexpected\<lparr>oclif_exit := Some 1\<rparr>], uuid_count := 1\<rparr>)"
proof -
  let ?fl = "demo_flags @ [(''data'', JStr ''{name: 1}'')]"
  have a: "auth_ok demo_env" by (simp add: auth_ok_def demo_env_def)
  have d: "truthy (prop_get ?fl ''data'')" by (simp add: prop_get_def demo_flags_def)
  have j: "json_parse (js_to_string (prop_get ?fl ''data'')) = Inl unexpected"
    by (simp add: prop_get_def demo_flags_def) code_simp
  show ?thesis
    using channel_init_bad_data [OF a d j] by (simp add: demo_world_def)
qed

text \<open>C5: An authentication failure makes run exit with status 1 with the AuthError on stderr, before any uuid is drawn and before any remote call.\<close>

theorem channel_init_auth_fails:
  assumes "auth_outcome e (config_json_path (config_dir e)) = Some msg"
  shows "handle (channel_init_run fl) e w =
           (1, w\<lparr>stderr := stderr w @ [\<lparr>kind = AuthError msg, oclif_exit = Some 1\<rparr>]\<rparr>)"
  using assms by (simp add: channel_init_unfold js_run)

theorem channel_init_auth_fails_witness:
  "handle (channel_init_run demo_flags) (demo_env\<lparr>auth_outcome := (\<lambda>_. Some ''no config'')\<rparr>) demo_world =
   (1, demo_world\<lparr>stderr := [\<lparr>kind = AuthError ''no config'', oclif_exit = Some 1\<rparr>]\<rparr>)"
  using channel_init_auth_fails [of "demo_env\<lparr>auth_outcome := (\<lambda>_. Some ''no config'')\<rparr>" "''no config''"]
  by (simp add: demo_world_def)

text \<open>C6: A rejected channel creation makes run exit with status 1 with the RemoteError on stderr, after exactly one remote call and no confirmation.\<close>

theorem channel_init_remote_fails:
  assumes "auth_ok e" and "\<not> truthy (prop_get fl ''data'')"
    and "remote_outcome e (ChannelCreate (prop_get fl ''type'') (prop_get fl ''id'')
           (JObj (init_payload fl (uuid_at e (uuid_count w))))) = Some msg"
  shows "handle (channel_init_run fl) e w =
           (1, w\<lparr>stderr := stderr w @ [\<lparr>kind = RemoteError msg, oclif_exit = Some 1\<rparr>],
                 calls := calls w @ [ChannelCreate (prop_get fl ''type'') (prop_get fl ''id'')
                                       (JObj (init_payload fl (uuid_at e (uuid_count w))))],
                 uuid_count := Suc (uuid_count w)\<rparr>)"
  using channel_init_sent [OF assms(1) merge_data_falsy [OF assms(2)] assms(3)] by simp

theorem channel_init_remote_fails_witness:
  "handle (channel_init_run demo_flags) (demo_env\<lparr>remote_outcome := (\<lambda>_. Some ''rejected'')\<rparr>)
          demo_world =
   (1, demo_world\<lparr>stderr := [\<lparr>kind = RemoteError ''rejected'', oclif_exit = Some 1\<rparr>],
        calls := [ChannelCreate (JStr ''messaging'') (JStr ''general'')
                    (JObj [(''name'', JStr ''General''),
                           (''created_by'', JObj [(''id'', JStr ''uuid-0''), (''name'', JStr ''CLI'')])])],
        uuid_count := 1\<rparr>)"
proof -
  let ?e = "demo_env\<lparr>remote_outcome := (\<lambda>_. Some ''rejected'')\<rparr>"
  have a: "auth_ok ?e" by (simp add: auth_ok_def demo_env_def)
  have d: "\<not> truthy (prop_get demo_flags ''data'')" by (simp add: prop_get_def demo_flags_def)
  have r: "remote_outcome ?e (ChannelCreate (prop_get demo_flags ''type'') (prop_get demo_flags ''id'')
           (JObj (init_payload demo_flags (uuid_at ?e (uuid_count demo_world))))) = Some ''rejected''"
    by simp
  show ?thesis
    using channel_init_remote_fails [OF a d r]
    by (simp add: demo_env_def demo_world_def init_payload_def prop_get_def demo_flags_def nat_digits_0)
qed


text \<open>C8: The payload built from the flags has exactly the keys name, created_by, then image iff the image flag is truthy, then members iff the members flag is truthy; name is the flag, created_by is {id: uuid, name: CLI}.\<close>

theorem init_payload_shape:
  "map fst (init_payload fl u) =
     [''name'', ''created_by''] @ (if truthy (prop_get fl ''image'') then [''image''] else [])
       @ (if truthy (prop_get fl ''members'') then [''members''] else []) \<and>
   prop_get (init_payload fl u) ''name'' = prop_get fl ''name'' \<and>
   prop_get (init_payload fl u) ''created_by'' = JObj [(''id'', JStr u), (''name'', JStr ''CLI'')] \<and>
   prop_get (init_payload fl u) ''image'' =
     (if truthy (prop_get fl ''image'') then prop_get fl ''image'' else JUndef)"
  by (simp add: init_payload_def Let_def prop_get_def)

lemma init_payload_distinct: "distinct (map fst (init_payload fl u))"
  using init_payload_shape [of fl u] by auto

lemma init_payload_no_proto: "''__proto__'' \<notin> set (map fst (init_payload fl u))"
  using init_payload_shape [of fl u] by auto

lemma get_config_dir_within [within_intros]: "calls_within 0 get_config_dir"
  by (simp add: calls_within_def get_config_dir_def)

lemma merge_data_within [within_intros]: "calls_within 0 (merge_data p d)"
  by (simp add: calls_within_def merge_data_def js_json_parse_def js_run split: sum.split)

text \<open>C9: Whatever the flags and the environment, a run of channel init makes at most one remote call.\<close>

theorem channel_init_one_call: "calls_within 1 (channel_init_run fl)"
  unfolding channel_init_run_def
  by (rule within_mono, (rule within_intros)+) simp

subsection \<open>From the command line\<close>

lemma quiet_get_config_dir [quiet_intros]: "quiet P get_config_dir"
  by (simp add: quiet_def get_config_dir_def)

lemma quiet_merge_data [quiet_intros]: "quiet P (merge_data p d)"
  by (simp add: merge_data_def quiet_intros)

lemma quiet_channel_init_run: "quiet quiet_env (channel_init_run fl)"
  unfolding channel_init_run_def by (intro quiet_intros) simp_all

lemma channel_init_process_parse:
  "handle (channel_init_process argv) e w =
     handle (oclif_run argv (js_bind (cmd_parse (channel_init_flags (uuid_at e (uuid_count w))) argv)
                                      channel_init_run)) e (w\<lparr>uuid_count := Suc (uuid_count w)\<rparr>)"
  by (simp add: channel_init_process_def channel_init_main_def handle_uuid)



text \<open>C2: From the command line --type t --id i --name n, with t an allowed type and the environment accepting, the command creates the channel (t, i) with payload name and created_by, prints the confirmation naming n, and exits with status 1.\<close>

theorem channel_init_main_long:
  assumes "t \<in> set channel_types" and "auth_ok e"
    and "remote_outcome e (ChannelCreate (JStr t) (JStr i)
           (JObj (init_payload [(''type'', JStr t), (''id'', JStr i), (''name'', JStr n)]
                    (uuid_at e (uuid_count w))))) = None"
  shows "handle (channel_init_main d [''--type'', t, ''--id'', i, ''--name'', n]) e w =
           (1, w\<lparr>stdout := stdout w @ [LogFormat (''The channel '' @ n @ '' has been initialized!'') rocket],
                 calls := calls w @ [ChannelCreate (JStr t) (JStr i)
                   (JObj [(''name'', JStr n),
                          (''created_by'', JObj [(''id'', JStr (uuid_at e (uuid_count w))), (''name'', JStr ''CLI'')])])],
                 uuid_count := Suc (uuid_count w)\<rparr>)"
proof -
  let ?fl = "[(''type'', JStr t), (''id'', JStr i), (''name'', JStr n)]"
  let ?ts = "[RawFlag ''type'' t, RawFlag ''id'' i, RawFlag ''name'' n]"
  have lx: "lex_argv (channel_init_flags d) True [''--type'', t, ''--id'', i, ''--name'', n] = Inr ?ts"
    using lex_long_pairs [of "[(''type'', t), (''id'', i), (''name'', n)]" "channel_init_flags d"]
    by (simp add: channel_init_flags_def find_flag_def string_flag_def)
  have tk: "apply_toks (channel_init_flags d) [] ?ts = Inr ?fl"
    using assms(1) by (simp add: channel_init_flags_def find_flag_def string_flag_def)
  have df: "apply_defaults (channel_init_flags d) ?fl = ?fl"
    by (rule apply_defaults_keep) (simp add: channel_init_flags_def string_flag_def)
  have vd: "validate (channel_init_flags d) ?ts ?fl = None"
    by (simp add: validate_def arg_words_def channel_init_flags_def string_flag_def prop_get_def)
  have ps: "parse_argv (channel_init_flags d) [''--type'', t, ''--id'', i, ''--name'', n] = Inr ?fl"
    by (rule parse_argv_steps [OF lx tk df vd])
  have run: "handle (channel_init_main d [''--type'', t, ''--id'', i, ''--name'', n]) e w =
               handle (channel_init_run ?fl) e w"
    by (simp add: channel_init_main_def cmd_parse_succeeds [OF ps])
  have nd: "\<not> truthy (prop_get ?fl ''data'')" by (simp add: prop_get_def)
  have r: "remote_outcome e (ChannelCreate (prop_get ?fl ''type'') (prop_get ?fl ''id'')
             (JObj (init_payload ?fl (uuid_at e (uuid_count w))))) = None"
    using assms(3) by (simp add: prop_get_def)
  show ?thesis
    using run channel_init_sent [OF assms(2) merge_data_falsy [OF nd] r]
    by (simp add: prop_get_def init_message_def init_payload_def)
qed

theorem channel_init_main_long_witness:
  "handle (channel_init_main ''d0'' [''--type'', ''team'', ''--id'', ''ops'', ''--name'', ''Ops'']) demo_env demo_world =
   (1, demo_world\<lparr>stdout := [LogFormat ''The channel Ops has been initialized!'' rocket],
        calls := [ChannelCreate (JStr ''team'') (JStr ''ops'')
                    (JObj [(''name'', JStr ''Ops''),
                           (''created_by'', JObj [(''id'', JStr ''uuid-0''), (''name'', JStr ''CLI'')])])],
        uuid_count := 1\<rparr>)"
proof -
  have t: "''team'' \<in> set channel_types" by (simp add: channel_types_def)
  have a: "auth_ok demo_env" by (simp add: auth_ok_def demo_env_def)
  have r: "remote_outcome demo_env (ChannelCreate (JStr ''team'') (JStr ''ops'')
             (JObj (init_payload [(''type'', JStr ''team''), (''id'', JStr ''ops''), (''name'', JStr ''Ops'')]
                      (uuid_at demo_env (uuid_count demo_world))))) = None"
    by (simp add: demo_env_def)
  show ?thesis
    using channel_init_main_long [OF t a r, of "''d0''"]
    by (simp add: demo_env_def demo_world_def nat_digits_0)
qed

subsection \<open>Every path ends with a non-zero status\<close>

text \<open>The body of the \<open>try\<close> ends in \<open>this.exit(0)\<close>, so it never returns;
  the \<open>catch\<close> rethrows with exit 1. Together with the parse outside the
  \<open>try\<close> this fixes the status of every invocation.\<close>



subsection \<open>The payload against its specification\<close>

text \<open>The spec's contract for the payload (section 4.1) as a map: \<open>name\<close>
  and \<open>created_by\<close>, \<open>image\<close> and the split \<open>members\<close> when given, then
  the keys of \<open>--data\<close> merged over them, last write winning.
  \<open>merge_spec\<close> also removes \<open>__proto__\<close>, which \<open>Object.assign\<close>
  never creates as an own key.\<close>

definition payload_spec :: "jsval props \<Rightarrow> string \<Rightarrow> (string \<rightharpoonup> jsval)" where
  "payload_spec fl u =
     [''name'' \<mapsto> prop_get fl ''name'',
      ''created_by'' \<mapsto> JObj [(''id'', JStr u), (''name'', JStr ''CLI'')]]
     ++ (if truthy (prop_get fl ''image'') then [''image'' \<mapsto> prop_get fl ''image''] else Map.empty)
     ++ (if truthy (prop_get fl ''members'')
         then [''members'' \<mapsto> JArr (map JStr (js_split (js_to_string (prop_get fl ''members'')) CHR '',''))]
         else Map.empty)"

definition merge_spec :: "(string \<rightharpoonup> jsval) \<Rightarrow> (string \<rightharpoonup> jsval) \<Rightarrow> (string \<rightharpoonup> jsval)" where
  "merge_spec p d = (p ++ d) |` (- {''__proto__''})"

lemma init_payload_refines: "map_of (init_payload fl u) = payload_spec fl u"
  by (rule ext) (simp add: init_payload_def payload_spec_def Let_def map_add_def
                   AList.update_conv' split: option.split)

text \<open>C18: With --data truthy and parsed to v, merging returns without any effect a payload whose map is the spec payload with the own properties of v merged over it, last write winning, and without __proto__.\<close>

theorem merge_data_refines:
  assumes "truthy d" and "json_parse (js_to_string d) = Inr v"
  shows "\<exists>p. merge_data (init_payload fl u) d e w = (Inr p, w) \<and>
             map_of p = merge_spec (payload_spec fl u) (own_map v)"
proof -
  have "own_map (JObj (init_payload fl u)) = payload_spec fl u"
    by (simp add: own_map_obj init_payload_distinct init_payload_refines)
  with assms show ?thesis
    by (simp add: merge_data_def js_json_parse_def js_run map_of_object_assign_two merge_spec_def)
qed

theorem merge_data_refines_witness:
  "\<exists>p. merge_data (init_payload demo_flags ''u1'') (JStr ''{\"name\":\"X\"}'') demo_env demo_world =
         (Inr p, demo_world) \<and>
       map_of p = merge_spec (payload_spec demo_flags ''u1'') (own_map (JObj [(''name'', JStr ''X'')]))"
proof -
  have t: "truthy (JStr ''{\"name\":\"X\"}'')" by simp
  have j: "json_parse (js_to_string (JStr ''{\"name\":\"X\"}'')) = Inr (JObj [(''name'', JStr ''X'')])"
    by code_simp
  show ?thesis using merge_data_refines [OF t j] .
qed

subsection \<open>\<open>--data\<close> that is not an object\<close>

lemma init_payload_plain: "\<not> list_ex is_array_index (map fst (init_payload fl u))"
  using init_payload_shape [of fl u] by (simp add: is_array_index_def is_digit_def)

text \<open>C24: When --data parses to null, a boolean or a number, the code accepts it and the payload is sent exactly as built from the flags: Object.assign copies nothing from such a value.\<close>

theorem merge_data_scalar:
  assumes "truthy d" and "json_parse (js_to_string d) = Inr v"
    and "v = JNull \<or> (\<exists>b. v = JBool b) \<or> (\<exists>x. v = JNum x)"
  shows "merge_data (init_payload fl u) d e w = (Inr (init_payload fl u), w)"
proof -
  have "assign_one [] (JObj (init_payload fl u)) = init_payload fl u"
    by (rule assign_plain_obj [OF init_payload_distinct init_payload_plain init_payload_no_proto])
  moreover have "assign_one t v = t" for t
    using assms(3) by (auto simp: assign_one_def)
  ultimately show ?thesis
    using assms(1,2) by (simp add: merge_data_def js_json_parse_def js_run object_assign_def)
qed

theorem merge_data_scalar_witness:
  "merge_data (init_payload demo_flags ''u1'') (JStr ''null'') demo_env demo_world =
     (Inr (init_payload demo_flags ''u1''), demo_world)"
proof -
  have t: "truthy (JStr ''null'')" by simp
  have j: "json_parse (js_to_string (JStr ''null'')) = Inr JNull" by code_simp
  show ?thesis using merge_data_scalar [OF t j] by simp
qed

subsection \<open>The default id\<close>

text \<open>C19: A process run without -i (--type t --name n) sends as channel id the uuid drawn when the module was loaded and as created_by.id the next uuid, drawn in run; the two are different draws of the generator.\<close>

theorem channel_init_default_id:
  assumes "t \<in> set channel_types" and "auth_ok e"
    and "remote_outcome e (ChannelCreate (JStr t) (JStr (uuid_at e (uuid_count w)))
           (JObj (init_payload [(''type'', JStr t), (''name'', JStr n), (''id'', JStr (uuid_at e (uuid_count w)))]
                    (uuid_at e (Suc (uuid_count w)))))) = None"
  shows "handle (channel_init_command [''--type'', t, ''--name'', n]) e w =
           (1, w\<lparr>stdout := stdout w @ [LogFormat (''The channel '' @ n @ '' has been initialized!'') rocket],
                 calls := calls w @ [ChannelCreate (JStr t) (JStr (uuid_at e (uuid_count w)))
                   (JObj [(''name'', JStr n),
                          (''created_by'', JObj [(''id'', JStr (uuid_at e (Suc (uuid_count w)))),
                                                (''name'', JStr ''CLI'')])])],
                 uuid_count := Suc (Suc (uuid_count w))\<rparr>)"
proof -
  let ?d = "uuid_at e (uuid_count w)"
  let ?S = "channel_init_flags ?d"
  let ?ts = "[RawFlag ''type'' t, RawFlag ''name'' n]"
  let ?fl = "[(''type'', JStr t), (''name'', JStr n), (''id'', JStr ?d)]"
  have lx: "lex_argv ?S True [''--type'', t, ''--name'', n] = Inr ?ts"
    using lex_long_pairs [of "[(''type'', t), (''name'', n)]" ?S]
    by (simp add: channel_init_flags_def find_flag_def string_flag_def)
  have tk: "apply_toks ?S [] ?ts = Inr [(''type'', JStr t), (''name'', JStr n)]"
    using assms(1) by (simp add: channel_init_flags_def find_flag_def string_flag_def)
  have df: "apply_defaults ?S [(''type'', JStr t), (''name'', JStr n)] = ?fl"
  proof -
    have s: "?S = string_flag ''id'' (Some CHR ''i'') None True (JStr ?d) # tl ?S"
      by (simp add: channel_init_flags_def)
    have "apply_defaults ?S [(''type'', JStr t), (''name'', JStr n)] = apply_defaults (tl ?S) ?fl"
      by (subst s, subst apply_defaults_Cons) (simp add: string_flag_def prop_get_def)
    also have "\<dots> = ?fl"
      by (rule apply_defaults_keep) (simp add: channel_init_flags_def string_flag_def)
    finally show ?thesis .
  qed
  have vd: "validate ?S ?ts ?fl = None"
    by (simp add: validate_def arg_words_def channel_init_flags_def string_flag_def prop_get_def)
  have ps: "parse_argv ?S [''--type'', t, ''--name'', n] = Inr ?fl"
    by (rule parse_argv_steps [OF lx tk df vd])
  have run: "handle (channel_init_command [''--type'', t, ''--name'', n]) e w =
               handle (channel_init_run ?fl) e (w\<lparr>uuid_count := Suc (uuid_count w)\<rparr>)"
    by (simp add: channel_init_command_def channel_init_main_def handle_uuid cmd_parse_succeeds [OF ps])
  have nd: "\<not> truthy (prop_get ?fl ''data'')" by (simp add: prop_get_def)
  have r: "remote_outcome e (ChannelCreate (prop_get ?fl ''type'') (prop_get ?fl ''id'')
             (JObj (init_payload ?fl (uuid_at e (uuid_count (w\<lparr>uuid_count := Suc (uuid_count w)\<rparr>)))))) = None"
    using assms(3) by (simp add: prop_get_def)
  show ?thesis
    using run channel_init_sent [OF assms(2) merge_data_falsy [OF nd] r]
    by (simp add: prop_get_def init_message_def init_payload_def)
qed

theorem channel_init_default_id_witness:
  "handle (channel_init_command [''--type'', ''team'', ''--name'', ''Ops'']) demo_env demo_world =
   (1, demo_world\<lparr>stdout := [LogFormat ''The channel Ops has been initialized!'' rocket],
        calls := [ChannelCreate (JStr ''team'') (JStr ''uuid-0'')
                    (JObj [(''name'', JStr ''Ops''),
                           (''created_by'', JObj [(''id'', JStr ''uuid-1''), (''name'', JStr ''CLI'')])])],
        uuid_count := 2\<rparr>)"
proof -
  have t: "''team'' \<in> set channel_types" by (simp add: channel_types_def)
  have a: "auth_ok demo_env" by (simp add: auth_ok_def demo_env_def)
  have r: "remote_outcome demo_env (ChannelCreate (JStr ''team'') (JStr (uuid_at demo_env (uuid_count demo_world)))
             (JObj (init_payload [(''type'', JStr ''team''), (''name'', JStr ''Ops''),
                                  (''id'', JStr (uuid_at demo_env (uuid_count demo_world)))]
                      (uuid_at demo_env (Suc (uuid_count demo_world)))))) = None"
    by (simp add: demo_env_def)
  have n1: "nat_digits (Suc 0) = ''1''" using nat_digits_1 by simp
  show ?thesis
    using channel_init_default_id [OF t a r]
    by (simp add: demo_env_def demo_world_def nat_digits_0 n1)
qed

subsection \<open>Spellings of the flags\<close>

text \<open>C21: For every flag of the chat:channel:init table, --name=v, -c=v and -c v parse exactly as --name v, whatever v and the words after it.\<close>

theorem channel_init_flag_spellings:
  assumes "f \<in> set (channel_init_flags d)"
  shows "parse_argv (channel_init_flags d) ((''--'' @ flag_name f @ ''='' @ v) # rest) =
           parse_argv (channel_init_flags d) ((''--'' @ flag_name f) # v # rest) \<and>
         parse_argv (channel_init_flags d) ((CHR ''-'' # the (flag_char f) # CHR ''='' # v) # rest) =
           parse_argv (channel_init_flags d) ((''--'' @ flag_name f) # v # rest) \<and>
         parse_argv (channel_init_flags d) ([CHR ''-'', the (flag_char f)] # v # rest) =
           parse_argv (channel_init_flags d) ((''--'' @ flag_name f) # v # rest)"
proof -
  let ?S = "channel_init_flags d"
  have noeq: "\<forall>g\<in>set ?S. CHR ''='' \<notin> set (flag_name g)"
    by (simp add: channel_init_flags_def string_flag_def)
  from assms obtain c where c: "flag_char f = Some c" "c \<noteq> CHR ''-''"
      and fc: "find_char ?S c = Some f" and ff: "find_flag ?S (flag_name f) = Some f"
      and k: "flag_kind f = StringFlag" and n: "flag_name f \<noteq> []"
    by (auto simp: channel_init_flags_def string_flag_def find_char_def find_flag_def)
  have long: "lex_argv ?S True ((''--'' @ flag_name f @ ''='' @ v) # rest) =
                lex_argv ?S True ((''--'' @ flag_name f) # v # rest)"
    by (rule lex_long_eq [OF noeq ff k n])
  have sl: "lex_argv ?S True ([CHR ''-'', c] # v # rest) = lex_argv ?S True ((''--'' @ flag_name f) # v # rest)"
    by (rule lex_short_long [OF fc ff k c(2) n])
  have se: "lex_argv ?S True ((CHR ''-'' # c # CHR ''='' # v) # rest) = lex_argv ?S True ([CHR ''-'', c] # v # rest)"
    by (rule lex_short_eq [OF fc k c(2)])
  show ?thesis using long sl se c(1) by (simp add: parse_argv_lex_cong)
qed

theorem channel_init_flag_spellings_witness:
  "parse_argv (channel_init_flags ''d0'') [''--name=General'', ''-t'', ''team''] =
     parse_argv (channel_init_flags ''d0'') [''--name'', ''General'', ''-t'', ''team''] \<and>
   parse_argv (channel_init_flags ''d0'') [''-n=General'', ''-t'', ''team''] =
     parse_argv (channel_init_flags ''d0'') [''--name'', ''General'', ''-t'', ''team''] \<and>
   parse_argv (channel_init_flags ''d0'') [''-n'', ''General'', ''-t'', ''team''] =
     parse_argv (channel_init_flags ''d0'') [''--name'', ''General'', ''-t'', ''team'']"
proof -
  have f: "string_flag ''name'' (Some CHR ''n'') None True JUndef \<in> set (channel_init_flags ''d0'')"
    by (simp add: channel_init_flags_def)
  show ?thesis
    using channel_init_flag_spellings [OF f, of "''General''" "[''-t'', ''team'']"]
    by (simp add: string_flag_def)
qed

end
