(* ===== verification/SettingsPush.thy ===== *)
theory SettingsPush
  imports Flags
begin

text \<open>
  The command \<open>chat:settings:push\<close> (\<open>src/src/commands/chat/settings/push.js\<close>,
  class \<open>SettingsPush\<close>). Its flag table (lines 66--129) gives \<open>enable\<close> and
  \<open>disable\<close> the key \<open>chart\<close>, which oclif does not read, so these two flags
  have no one-letter form. Its \<open>run\<close> (lines 5--63) refers to three names
  the module never declares: \<open>type\<close> (line 9, where \<open>flags.type\<close> was
  meant), \<open>auth\<close> (line 17, never imported) and \<open>client\<close> (lines 35 and 46,
  declared only inside the block of the \<open>apn\<close> branch). JavaScript looks
  such a name up on the global object and throws a \<open>ReferenceError\<close> when it
  is not there; the model does the same through \<open>resolve_global\<close>, so the
  definitions below follow the code line by line and the theorems say what
  happens under Node's global object, which defines none of the three.
\<close>

definition push_types :: "string list" where
  "push_types = [''apn'', ''firebase'', ''webhook'']"

definition push_flags :: schema where
  "push_flags =
     [boolean_flag ''enable'' None False,
      boolean_flag ''disable'' None False,
      string_flag ''type'' (Some CHR ''t'') (Some push_types) False JUndef,
      string_flag ''auth_key'' (Some CHR ''a'') None False JUndef,
      string_flag ''key_id'' (Some CHR ''k'') None False JUndef,
      string_flag ''team_id'' (Some CHR ''i'') None False JUndef,
      string_flag ''pem_cert'' (Some CHR ''p'') None False JUndef,
      string_flag ''p12_cert'' (Some CHR ''b'') None False JUndef,
      string_flag ''notification_template'' (Some CHR ''n'') None False JUndef,
      string_flag ''api_key'' (Some CHR ''f'') None False JUndef,
      string_flag ''webhook_url'' (Some CHR ''w'') None False JUndef,
      boolean_flag ''json'' (Some CHR ''j'') False]"

text \<open>
  \<open>obj.m(args)\<close>: the member is read before the arguments are evaluated,
  then called; \<open>args\<close> is the action that evaluates the argument list.
\<close>

definition call_method :: "jsval \<Rightarrow> string \<Rightarrow> jsval list js \<Rightarrow> jsval js" where
  "call_method obj m args =
     js_bind (get_member obj m) (\<lambda>f. js_bind args (\<lambda>vs. call_value m f vs))"

text \<open>Lines 20--28: the \<open>apn_config\<close> object, from the two files read.\<close>

definition apn_config :: "jsval props \<Rightarrow> jsval \<Rightarrow> jsval \<Rightarrow> jsval" where
  "apn_config fl p12 pem =
     JObj [(''p12_cert'', js_or p12 (JStr [])),
           (''pem_cert'', js_or pem (JStr [])),
           (''auth_key'', js_or (prop_get fl ''auth_key'') (JStr [])),
           (''key_id'', js_or (prop_get fl ''key_id'') (JStr [])),
           (''team_id'', js_or (prop_get fl ''team_id'') (JStr [])),
           (''notification_template'', prop_get fl ''notification_template'')]"

text \<open>Lines 16--32: \<open>const client = await auth(this)\<close>, then
  \<open>client.updateAppSettings({apn_config: ...})\<close>.\<close>

definition apn_branch :: "jsval props \<Rightarrow> unit js" where
  "apn_branch fl =
     js_bind (resolve_global ''auth'') (\<lambda>a.
     js_bind (call_value ''auth'' a [JObj []]) (\<lambda>client.
     js_then
       (call_method client ''updateAppSettings''
          (js_bind (read_file (prop_get fl ''p12_cert'') False) (\<lambda>p12.
           js_bind (read_file (prop_get fl ''pem_cert'') True) (\<lambda>pem.
           js_return [JObj [(''apn_config'', apn_config fl p12 pem)]]))))
       (cmd_log ''Push notifications have been enabled with APN.'')))"

text \<open>Lines 34--43: \<open>client\<close> here is not the block-scoped constant of the
  \<open>apn\<close> branch but a free name.\<close>

definition firebase_branch :: "jsval props \<Rightarrow> unit js" where
  "firebase_branch fl =
     js_bind (resolve_global ''client'') (\<lambda>client.
     js_then
       (call_method client ''updateAppSettings''
          (js_return [JObj [(''firebase_config'',
                              JObj [(''api_key'', prop_get fl ''api_key''),
                                    (''notification_template'', prop_get fl ''notification_template'')])]]))
       (cmd_log ''Push notifications have been enabled for Firebase.''))"

text \<open>Lines 45--51.\<close>

definition webhook_branch :: "jsval props \<Rightarrow> unit js" where
  "webhook_branch fl =
     js_bind (resolve_global ''client'') (\<lambda>client.
     js_then
       (call_method client ''updateAppSettings''
          (js_return [JObj [(''webhook_url'', prop_get fl ''webhook_url'')]]))
       (cmd_log ''Push notifications have been enabled for Webhooks.''))"

definition no_type_message :: string where
  "no_type_message = ''Please specify a push notification type of apn, firebase or webhook''"

text \<open>Lines 8--62, after \<open>this.parse\<close>. The thrown value is always an
  \<open>Error\<close> object, so \<open>error || 'A Stream CLI error has occurred.'\<close> is the
  error itself.\<close>

definition push_run :: "jsval props \<Rightarrow> unit js" where
  "push_run fl =
     js_try
       (js_bind (resolve_global ''type'') (\<lambda>ty.
        js_then (js_when (\<not> truthy ty) (js_then (cmd_log no_type_message) (cmd_exit 0)))
        (js_then (js_when (truthy (prop_get fl ''enable'') \<and> prop_get fl ''type'' = JStr ''apn'')
                    (apn_branch fl))
        (js_then (js_when (truthy (prop_get fl ''enable'') \<and> prop_get fl ''type'' = JStr ''firebase'')
                    (firebase_branch fl))
        (js_then (js_when (truthy (prop_get fl ''enable'') \<and> prop_get fl ''type'' = JStr ''webhook'')
                    (webhook_branch fl))
        (js_then (js_when (truthy (prop_get fl ''disable''))
                    (cmd_log (''Push via '' @ js_to_string (prop_get fl ''type'') @ '' has been disabled.'')))
        (cmd_exit 0)))))))
       (\<lambda>err. cmd_error err 1)"

definition push_main :: "string list \<Rightarrow> unit js" where
  "push_main argv = js_bind (cmd_parse push_flags argv) push_run"

text \<open>The process: oclif's \<open>Command._run\<close> around \<open>run\<close>.\<close>

definition push_process :: "string list \<Rightarrow> unit js" where
  "push_process argv = oclif_run argv (push_main argv)"

text \<open>Inputs for the witnesses: an environment whose global object binds
  \<open>type\<close> to a given value and nothing else, and the flags of
  \<open>--enable --type apn\<close>.\<close>

definition type_env :: "jsval \<Rightarrow> env" where
  "type_env t = demo_env\<lparr>globals := (\<lambda>n. if n = ''type'' then Some t else None)\<rparr>"

definition apn_flags :: "jsval props" where
  "apn_flags = [(''enable'', JBool True), (''disable'', JBool False), (''type'', JStr ''apn'')]"

subsection \<open>Behaviour of \<open>run\<close>\<close>

lemmas push_unfold = push_run_def handle_def exit_status_def is_exit_error_def

text \<open>C10: When the global object has no binding for type (Node), run of settings push throws a ReferenceError at line 9 and exits with status 1, with no output and no remote call, whatever the flags.\<close>

theorem push_type_unbound:
  assumes "globals e ''type'' = None"
  shows "handle (push_run fl) e w =
           (1, w\<lparr>stderr := stderr w @ [\<lparr>kind = ReferenceError ''type is not defined'', oclif_exit = Some 1\<rparr>]\<rparr>)"
  using assms by (simp add: push_unfold js_run)

text \<open>C12: Where a falsy global type exists, run prints the usage hint and exits with status 1, not 0: the ExitError of this.exit(0) is caught and rethrown with exit 1.\<close>

theorem push_no_type_exits_1:
  assumes "globals e ''type'' = Some t" and "\<not> truthy t"
  shows "handle (push_run fl) e w = (1, w\<lparr>stdout := stdout w @ [LogText no_type_message]\<rparr>)"
  using assms by (simp add: push_unfold js_run)

text \<open>C13: Where a truthy global type exists and --enable selects a provider, the apn branch fails on the unbound auth and the firebase and webhook branches on the unbound client, each with a ReferenceError and status 1, before any remote call.\<close>

theorem push_enable_unbound:
  assumes "globals e ''type'' = Some t" and "truthy t"
    and "globals e ''auth'' = None" and "globals e ''client'' = None"
    and "truthy (prop_get fl ''enable'')"
    and "prop_get fl ''type'' \<in> {JStr ''apn'', JStr ''firebase'', JStr ''webhook''}"
  shows "handle (push_run fl) e w =
           (1, w\<lparr>stderr := stderr w @
              [\<lparr>kind = ReferenceError ((if prop_get fl ''type'' = JStr ''apn'' then ''auth'' else ''client'')
                                          @ '' is not defined''),
                oclif_exit = Some 1\<rparr>]\<rparr>)"
  using assms
  by (auto simp: push_unfold apn_branch_def firebase_branch_def webhook_branch_def js_run)

lemma push_parse_fails:
  "parse_argv push_flags argv = Inl x \<Longrightarrow> handle (push_main argv) e w = (2, w\<lparr>stderr := stderr w @ [x]\<rparr>)"
  unfolding push_main_def by (rule cmd_parse_fails)



lemma lex_short_unknown:
  "find_char S c = None \<Longrightarrow> c \<noteq> CHR ''-'' \<Longrightarrow> lex_argv S True ([CHR ''-'', c] # argv) =
     cons_tok (RawArg [CHR ''-'', c]) (lex_argv S True argv)"
  by (simp add: parse_flag_def lookup_flag_def)

lemma parse_leading_arg:
  assumes "lex_argv S True (a # argv) = cons_tok (RawArg a) (lex_argv S True argv)"
  shows "\<exists>x. parse_argv S (a # argv) = Inl x"
  using assms
  by (auto simp: parse_argv_def validate_def arg_words_def Let_def cons_tok_def
           split: sum.splits option.splits)

text \<open>C15: Because the flag table spells char as chart, -e and -d are not flags of settings push: the parser takes each as an argument, and an argv starting with either never parses, whatever follows.\<close>

theorem push_short_enable_rejected:
  "isl (parse_argv push_flags (''-e'' # argv)) \<and> isl (parse_argv push_flags (''-d'' # argv))"
proof -
  have "find_char push_flags CHR ''e'' = None" and "find_char push_flags CHR ''d'' = None"
    by (simp_all add: find_char_def push_flags_def string_flag_def boolean_flag_def)
  moreover have "CHR ''e'' \<noteq> CHR ''-''" and "CHR ''d'' \<noteq> CHR ''-''" by simp_all
  ultimately obtain x y where "parse_argv push_flags (''-e'' # argv) = Inl x"
      and "parse_argv push_flags (''-d'' # argv) = Inl y"
    using parse_leading_arg [OF lex_short_unknown] by blast
  then show ?thesis by simp
qed

text \<open>C14: Where a truthy global type exists, --disable without --enable only logs Push via <type> has been disabled. and exits with status 1; no remote operation is issued.\<close>

theorem push_disable_logs:
  assumes "globals e ''type'' = Some t" and "truthy t"
    and "\<not> truthy (prop_get fl ''enable'')" and "truthy (prop_get fl ''disable'')"
  shows "handle (push_run fl) e w =
           (1, w\<lparr>stdout := stdout w @
              [LogText (''Push via '' @ js_to_string (prop_get fl ''type'') @ '' has been disabled.'')]\<rparr>)"
  using assms by (simp add: push_unfold js_run)

lemma type_env_globals [simp]:
  "globals (type_env t) n = (if n = ''type'' then Some t else None)"
  by (simp add: type_env_def)

lemma demo_env_globals [simp]: "globals demo_env n = None"
  by (simp add: demo_env_def)

theorem push_type_unbound_witness:
  "globals demo_env ''type'' = None \<and>
   handle (push_run apn_flags) demo_env demo_world =
     (1, demo_world\<lparr>stderr := [\<lparr>kind = ReferenceError ''type is not defined'', oclif_exit = Some 1\<rparr>]\<rparr>)"
  using push_type_unbound [of demo_env apn_flags demo_world] by (simp add: demo_world_def)

theorem push_no_type_exits_1_witness:
  "globals (type_env (JStr [])) ''type'' = Some (JStr []) \<and> \<not> truthy (JStr []) \<and>
   handle (push_run apn_flags) (type_env (JStr [])) demo_world =
     (1, demo_world\<lparr>stdout := [LogText no_type_message]\<rparr>)"
  using push_no_type_exits_1 [of "type_env (JStr [])" "JStr []" apn_flags demo_world]
  by (simp add: demo_world_def)

theorem push_enable_unbound_witness:
  "globals (type_env (JStr ''apn'')) ''type'' = Some (JStr ''apn'') \<and> truthy (JStr ''apn'') \<and>
   handle (push_run apn_flags) (type_env (JStr ''apn'')) demo_world =
     (1, demo_world\<lparr>stderr := [\<lparr>kind = ReferenceError ''auth is not defined'', oclif_exit = Some 1\<rparr>]\<rparr>)"
  using push_enable_unbound [of "type_env (JStr ''apn'')" "JStr ''apn''" apn_flags demo_world]
  by (simp add: apn_flags_def demo_world_def prop_get_def)

theorem push_disable_logs_witness:
  "handle (push_run [(''type'', JStr ''apn''), (''disable'', JBool True)]) (type_env (JStr ''apn'')) demo_world =
     (1, demo_world\<lparr>stdout := [LogText ''Push via apn has been disabled.'']\<rparr>)"
  using push_disable_logs [of "type_env (JStr ''apn'')" "JStr ''apn''" "[(''type'', JStr ''apn''), (''disable'', JBool True)]" demo_world]
  by (simp add: demo_world_def prop_get_def)

subsection \<open>The exit status of the process\<close>

lemma quiet_call_method [quiet_intros]:
  "quiet P args \<Longrightarrow> (\<And>e. P e \<Longrightarrow> quiet_env e) \<Longrightarrow> CHR ''U'' \<notin> set m \<Longrightarrow>
   quiet P (call_method obj m args)"
  unfolding call_method_def by (intro quiet_intros) simp_all

definition node_auth :: "env \<Rightarrow> bool" where
  "node_auth e \<longleftrightarrow> quiet_env e \<and> globals e ''auth'' = None"

lemma quiet_apn_branch: "quiet node_auth (apn_branch fl)"
  by (auto simp: quiet_def node_auth_def apn_branch_def js_bind_def resolve_global_def err_message_def
                 mk_error_def quiet_msg_no_U)

lemma quiet_push_run: "quiet node_auth (push_run fl)"
  unfolding push_run_def firebase_branch_def webhook_branch_def
  by (intro quiet_intros quiet_apn_branch) (simp_all add: node_auth_def no_type_message_def)



subsection \<open>The enable branches where the free names resolve\<close>

text \<open>The branches of lines 34--51 run only when the global object binds
  \<open>type\<close> and \<open>client\<close>. \<open>sdk_client\<close> is the chat-service client as
  the branches use it: an object whose \<open>updateAppSettings\<close> is the host
  function. \<open>webhook_call\<close> and \<open>firebase_call\<close> are the requests the two
  branches build.\<close>

definition sdk_client :: jsval where
  "sdk_client = JObj [(''updateAppSettings'', JFun HostUpdateAppSettings)]"

definition webhook_call :: "jsval props \<Rightarrow> remote_call" where
  "webhook_call fl = UpdateAppSettings (JObj [(''webhook_url'', prop_get fl ''webhook_url'')])"

definition firebase_call :: "jsval props \<Rightarrow> remote_call" where
  "firebase_call fl = UpdateAppSettings (JObj [(''firebase_config'',
     JObj [(''api_key'', prop_get fl ''api_key''), (''notification_template'', prop_get fl ''notification_template'')])])"

lemma call_sdk_client:
  "call_method sdk_client ''updateAppSettings'' args =
     js_bind args (\<lambda>vs. js_then (remote (UpdateAppSettings (case vs of [] \<Rightarrow> JUndef | a # _ \<Rightarrow> a)))
                                  (js_return JUndef))"
  by (simp add: call_method_def sdk_client_def get_member_def call_value_def bind_return)

text \<open>C22: Where the global object binds a truthy type and client to the chat-service client, --enable --type webhook sends exactly one updateAppSettings({webhook_url}) and then logs the confirmation; a rejected request is reported instead of the log; the process exits 1 either way.\<close>

theorem push_webhook_sent:
  assumes "globals e ''type'' = Some t" and "truthy t" and "globals e ''client'' = Some sdk_client"
    and "truthy (prop_get fl ''enable'')" and "prop_get fl ''type'' = JStr ''webhook''"
    and "\<not> truthy (prop_get fl ''disable'')"
  shows "handle (push_run fl) e w =
           (case remote_outcome e (webhook_call fl) of
              None \<Rightarrow> (1, w\<lparr>stdout := stdout w @ [LogText ''Push notifications have been enabled for Webhooks.''],
                            calls := calls w @ [webhook_call fl]\<rparr>)
            | Some m \<Rightarrow> (1, w\<lparr>stderr := stderr w @ [\<lparr>kind = RemoteError m, oclif_exit = Some 1\<rparr>],
                            calls := calls w @ [webhook_call fl]\<rparr>))"
  using assms
  by (simp add: push_unfold webhook_branch_def call_sdk_client webhook_call_def js_run
           split: option.split)

text \<open>C23: In the same environment, --enable --type firebase sends exactly one updateAppSettings({firebase_config: {api_key, notification_template}}) and then logs the confirmation, or reports the rejection; the process exits 1.\<close>

theorem push_firebase_sent:
  assumes "globals e ''type'' = Some t" and "truthy t" and "globals e ''client'' = Some sdk_client"
    and "truthy (prop_get fl ''enable'')" and "prop_get fl ''type'' = JStr ''firebase''"
    and "\<not> truthy (prop_get fl ''disable'')"
  shows "handle (push_run fl) e w =
           (case remote_outcome e (firebase_call fl) of
              None \<Rightarrow> (1, w\<lparr>stdout := stdout w @ [LogText ''Push notifications have been enabled for Firebase.''],
                            calls := calls w @ [firebase_call fl]\<rparr>)
            | Some m \<Rightarrow> (1, w\<lparr>stderr := stderr w @ [\<lparr>kind = RemoteError m, oclif_exit = Some 1\<rparr>],
                            calls := calls w @ [firebase_call fl]\<rparr>))"
  using assms
  by (simp add: push_unfold firebase_branch_def call_sdk_client firebase_call_def js_run
           split: option.split)

definition client_env :: env where
  "client_env = demo_env\<lparr>globals := (\<lambda>n. if n = ''type'' then Some (JStr ''apn'')
                                         else if n = ''client'' then Some sdk_client else None)\<rparr>"

theorem push_webhook_sent_witness:
  "handle (push_run [(''enable'', JBool True), (''type'', JStr ''webhook''), (''webhook_url'', JStr ''https://h.example/x'')])
          client_env demo_world =
   (1, demo_world\<lparr>stdout := [LogText ''Push notifications have been enabled for Webhooks.''],
        calls := [UpdateAppSettings (JObj [(''webhook_url'', JStr ''https://h.example/x'')])]\<rparr>)"
proof -
  let ?fl = "[(''enable'', JBool True), (''type'', JStr ''webhook''), (''webhook_url'', JStr ''https://h.example/x'')]"
  have g: "globals client_env ''type'' = Some (JStr ''apn'')" "truthy (JStr ''apn'')"
          "globals client_env ''client'' = Some sdk_client"
    by (simp_all add: client_env_def)
  have f: "truthy (prop_get ?fl ''enable'')" "prop_get ?fl ''type'' = JStr ''webhook''"
          "\<not> truthy (prop_get ?fl ''disable'')"
    by (simp_all add: prop_get_def)
  show ?thesis
    using push_webhook_sent [OF g f, of demo_world]
    by (simp add: client_env_def demo_env_def demo_world_def webhook_call_def prop_get_def)
qed

theorem push_firebase_sent_witness:
  "handle (push_run [(''enable'', JBool True), (''type'', JStr ''firebase''), (''api_key'', JStr ''k1'')])
          client_env demo_world =
   (1, demo_world\<lparr>stdout := [LogText ''Push notifications have been enabled for Firebase.''],
        calls := [UpdateAppSettings (JObj [(''firebase_config'',
                    JObj [(''api_key'', JStr ''k1''), (''notification_template'', JUndef)])])]\<rparr>)"
proof -
  let ?fl = "[(''enable'', JBool True), (''type'', JStr ''firebase''), (''api_key'', JStr ''k1'')]"
  have g: "globals client_env ''type'' = Some (JStr ''apn'')" "truthy (JStr ''apn'')"
          "globals client_env ''client'' = Some sdk_client"
    by (simp_all add: client_env_def)
  have f: "truthy (prop_get ?fl ''enable'')" "prop_get ?fl ''type'' = JStr ''firebase''"
          "\<not> truthy (prop_get ?fl ''disable'')"
    by (simp_all add: prop_get_def)
  show ?thesis
    using push_firebase_sent [OF g f, of demo_world]
    by (simp add: client_env_def demo_env_def demo_world_def firebase_call_def prop_get_def)
qed

end
