(* ===== verification/JsonPrint.thy ===== *)
theory JsonPrint
  imports JsonParse
begin

text \<open>
  \<open>JSON.stringify\<close>, the inverse direction of \<open>JsonParse\<close>: the caller of
  \<open>chat:channel:init\<close> writes \<open>--data\<close> with it, and the chat-service
  client serializes each request body with it. It is modelled from
  ECMA-262 (\<open>SerializeJSONProperty\<close>, \<open>SerializeJSONObject\<close>,
  \<open>SerializeJSONArray\<close>, \<open>QuoteJSONString\<close>), since no serializer is in
  the repository: \<open>undefined\<close> and functions give no text, and are left
  out of objects and written \<open>null\<close> in arrays; keys come in own-key order;
  strings escape quote, backslash and the code units below 0x20; numbers
  are written by \<open>Number::toString\<close>; no whitespace is emitted. The
  serializer produces tokens (\<open>json_ser\<close>) that \<open>print_tok\<close> writes out.

  The main result, \<open>json_parse_stringify\<close>, is that \<open>JSON.parse\<close> reads
  the text back as \<open>json_canon v\<close>: the value with omitted members dropped,
  array holes as \<open>null\<close>, keys in own-key order and numbers normalised. It
  rests on three round trips: \<open>Number::toString\<close> against the number
  lexer (all five output formats), \<open>QuoteJSONString\<close> against the string
  lexer, and the token printer against the tokenizer, and on the pushdown
  reader reading the serializer's tokens (\<open>json_ser_read\<close>).
\<close>

subsection \<open>Digits and decimals\<close>

lemma digit_char_props:
  "d < 10 \<Longrightarrow> is_digit (digit_char d) \<and> digit_val (digit_char d) = d"
  by (simp add: digit_char_def is_digit_def digit_val_def)

lemma nat_digits_nonempty: "nat_digits n \<noteq> []"
  by (subst nat_digits.simps) simp

lemma nat_digits_is_digit: "list_all is_digit (nat_digits n)"
proof (induction n rule: nat_digits.induct)
  case (1 n)
  then show ?case
    by (subst nat_digits.simps) (simp add: digit_char_props)
qed

lemma foldl_digits_acc:
  "foldl (\<lambda>n c. 10 * n + digit_val c) a s = a * 10 ^ length s + foldl (\<lambda>n c. 10 * n + digit_val c) 0 s"
proof (induction s arbitrary: a)
  case (Cons c s)
  show ?case
    using Cons.IH [of "10 * a + digit_val c"] Cons.IH [of "digit_val c"]
    by (simp add: algebra_simps)
qed simp

lemma digits_value_append:
  "digits_value (a @ b) = digits_value a * 10 ^ length b + digits_value b"
  unfolding digits_value_def foldl_append by (rule foldl_digits_acc)

lemma digits_value_nat_digits: "digits_value (nat_digits n) = n"
proof (induction n rule: nat_digits.induct)
  case (1 n)
  then show ?case
    by (subst nat_digits.simps)
       (simp add: digits_value_append digit_char_props digits_value_def)
qed

lemma hd_nat_digits: "0 < n \<Longrightarrow> hd (nat_digits n) \<noteq> CHR ''0''"
proof (induction n rule: nat_digits.induct)
  case (1 n)
  show ?case
  proof (cases "n < 10")
    case True
    have "char_of (48 + n) \<noteq> CHR ''0''"
    proof
      assume "char_of (48 + n) = CHR ''0''"
      then have "(of_char (char_of (48 + n) :: char) :: nat) = of_char CHR ''0''" by simp
      with True "1.prems" show False by simp
    qed
    with True show ?thesis
      by (subst nat_digits.simps) (simp add: digit_char_def)
  next
    case False
    with "1.IH" have "hd (nat_digits (n div 10)) \<noteq> CHR ''0''" by simp
    with False show ?thesis
      by (subst nat_digits.simps) (simp add: hd_append nat_digits_nonempty)
  qed
qed

lemma digits_value_zeros: "digits_value (replicate j (CHR ''0'')) = 0"
  by (induction j) (simp_all add: digits_value_def digit_val_def)

lemma dec_norm_mult: "m \<noteq> 0 \<Longrightarrow> dec_norm (m * 10 ^ j) e = dec_norm m (e + int j)"
proof (induction j arbitrary: e)
  case (Suc j)
  have "dec_norm (m * 10 ^ Suc j) e = dec_norm (m * 10 ^ j) (e + 1)"
    using Suc.prems by (subst dec_norm.simps) simp
  then show ?case using Suc by (simp add: add.assoc)
qed simp

lemma dec_norm_normal: "dec_normal (JDec m e) \<Longrightarrow> dec_norm m e = JDec m e"
  by (subst dec_norm.simps) (auto split: if_splits)

lemma dec_normal_dec_norm: "dec_normal (dec_norm m e)"
proof (induction m e rule: dec_norm.induct)
  case (1 m e)
  show ?case
  proof (cases "m = 0 \<or> m mod 10 \<noteq> 0")
    case True
    then show ?thesis by (subst dec_norm.simps) auto
  next
    case False
    then have eq: "dec_norm m e = dec_norm (m div 10) (e + 1)" by (subst dec_norm.simps) simp
    from False have "dec_normal (dec_norm (m div 10) (e + 1))" by (intro "1.IH") auto
    then show ?thesis by (simp only: eq)
  qed
qed


subsection \<open>The number lexer reads \<open>Number::toString\<close>\<close>

definition num_end :: "string \<Rightarrow> bool" where
  "num_end s \<longleftrightarrow> (case s of [] \<Rightarrow> True | c # _ \<Rightarrow> \<not> is_digit c \<and> c \<notin> {CHR ''.'', CHR ''e'', CHR ''E''})"

lemma takeWhile_digits_Nil: "num_end s \<Longrightarrow> takeWhile is_digit s = []"
  by (cases s) (auto simp: num_end_def)

lemma take_drop_digits:
  assumes "list_all is_digit ds" "takeWhile is_digit s = []"
  shows "takeWhile is_digit (ds @ s) = ds" "dropWhile is_digit (ds @ s) = s"
proof -
  have "dropWhile is_digit s = s"
    using takeWhile_dropWhile_id [of is_digit s] assms(2) by simp
  with assms show "takeWhile is_digit (ds @ s) = ds" "dropWhile is_digit (ds @ s) = s"
    by (simp_all add: takeWhile_append2 dropWhile_append2 list_all_iff)
qed

lemma lex_frac_none: "(case s of [] \<Rightarrow> True | c # _ \<Rightarrow> c \<noteq> CHR ''.'') \<Longrightarrow> lex_frac s = Some ([], s)"
  by (cases s) (auto simp: lex_frac_def)

lemma lex_frac_digits:
  "fds \<noteq> [] \<Longrightarrow> list_all is_digit fds \<Longrightarrow> takeWhile is_digit s = [] \<Longrightarrow>
   lex_frac (CHR ''.'' # fds @ s) = Some (fds, s)"
  by (simp add: lex_frac_def take_drop_digits)

lemma lex_exp_none: "num_end s \<Longrightarrow> lex_exp s = Some (0, s)"
  by (cases s) (auto simp: num_end_def lex_exp_def)

lemma lex_exp_suffix_rt:
  "takeWhile is_digit s = [] \<Longrightarrow> lex_exp (exp_suffix x @ s) = Some (x, s)"
  using nat_digits_is_digit [of "nat \<bar>x\<bar>"] nat_digits_nonempty [of "nat \<bar>x\<bar>"]
  by (auto simp: lex_exp_def exp_suffix_def take_drop_digits digits_value_nat_digits)

lemma lex_num_split:
  assumes ids: "list_all is_digit ids" "ids \<noteq> []" "hd ids = CHR ''0'' \<Longrightarrow> length ids = 1"
    and r: "takeWhile is_digit r = []" "lex_frac r = Some (fds, s2)" "lex_exp s2 = Some (x, s3)"
  shows "lex_num ((if neg then [CHR ''-''] else []) @ ids @ r) =
           Some (dec_norm ((if neg then - 1 else 1) * int (digits_value (ids @ fds))) (x - int (length fds)), s3)"
proof -
  obtain c t where ct: "ids = c # t" using ids(2) by (cases ids) auto
  have "is_digit c" using ids(1) ct by simp
  then have "c \<noteq> CHR ''-''" by (auto simp: is_digit_def)
  then have sg: "(case (if neg then [CHR ''-''] else []) @ ids @ r of
                    c # t \<Rightarrow> if c = CHR ''-'' then (True, t) else (False, (if neg then [CHR ''-''] else []) @ ids @ r)
                  | [] \<Rightarrow> (False, (if neg then [CHR ''-''] else []) @ ids @ r)) = (neg, ids @ r)"
    using ct by simp
  have "\<not> (hd ids = CHR ''0'' \<and> 1 < length ids)" using ids(3) by auto
  with sg ids(1,2) r show ?thesis
    by (simp add: lex_num_def take_drop_digits)
qed

lemma is_digit_0 [simp]: "is_digit CHR ''0''"
  by (simp add: is_digit_def)

lemma is_digit_dot [simp]: "\<not> is_digit CHR ''.''"
  by (simp add: is_digit_def)

lemma list_all_zeros: "list_all is_digit (replicate j (CHR ''0''))"
  by (induction j) simp_all

lemma exp_suffix_start: "takeWhile is_digit (exp_suffix x @ s) = [] \<and>
   lex_frac (exp_suffix x @ s) = Some ([], exp_suffix x @ s)"
  by (simp add: exp_suffix_def is_digit_def lex_frac_def)

lemma lex_num_normal:
  assumes nrm: "dec_normal (JDec m e)" and s: "num_end s"
  shows "lex_num (normal_num_string (JDec m e) @ s) = Some (JDec m e, s)"
proof (cases "m = 0")
  case True
  with nrm have "e = 0" by simp
  moreover have "digits_value ''0'' = 0" by (simp add: digits_value_def digit_val_def)
  moreover have "dec_norm 0 0 = JDec 0 0" by (subst dec_norm.simps) simp
  ultimately show ?thesis
    using True lex_num_split [of "''0''" s "[]" s 0 s False] s
    by (simp add: takeWhile_digits_Nil lex_exp_none lex_frac_none num_end_def split: list.splits)
next
  case False
  define a where "a = nat \<bar>m\<bar>"
  define ds where "ds = nat_digits a"
  define q where "q = int (length ds) + e"
  define neg where "neg = (m < 0)"
  have a: "0 < a" using False by (simp add: a_def)
  have ds: "ds \<noteq> []" "list_all is_digit ds" "hd ds \<noteq> CHR ''0''" "digits_value ds = a"
    using a by (simp_all add: ds_def nat_digits_nonempty nat_digits_is_digit hd_nat_digits
                              digits_value_nat_digits)
  have sg: "(if neg then - 1 else 1) * int a = m" by (simp add: neg_def a_def)
  have nm: "dec_norm m e = JDec m e" using nrm by (rule dec_norm_normal)
  have str: "normal_num_string (JDec m e) = (if neg then [CHR ''-''] else []) @ pos_dec_string ds q"
    using False by (simp add: neg_def ds_def a_def q_def)
  have s0: "takeWhile is_digit s = []" "lex_frac s = Some ([], s)" "lex_exp s = Some (0, s)"
    using s by (simp_all add: takeWhile_digits_Nil lex_exp_none lex_frac_none num_end_def split: list.splits)
  have "lex_num ((if neg then [CHR ''-''] else []) @ pos_dec_string ds q @ s) = Some (JDec m e, s)"
  proof (cases "int (length ds) \<le> q \<and> q \<le> 21")
    case A: True
    define j where "j = nat (q - int (length ds))"
    have pos: "pos_dec_string ds q = ds @ replicate j (CHR ''0'')"
      using A by (simp add: pos_dec_string_def j_def)
    have e: "e = int j" using A by (simp add: j_def q_def)
    have dv: "digits_value (ds @ replicate j (CHR ''0'')) = a * 10 ^ j"
      using ds by (simp add: digits_value_append digits_value_zeros)
    have v: "(if neg then - 1 else 1) * int (digits_value ((ds @ replicate j (CHR ''0'')) @ [])) = m * 10 ^ j"
    proof -
      have "(if neg then - 1 else 1) * int (digits_value ((ds @ replicate j (CHR ''0'')) @ []))
              = ((if neg then - 1 else 1) * int a) * 10 ^ j" by (simp add: dv)
      then show ?thesis by (simp only: sg)
    qed
    have L: "lex_num ((if neg then [CHR ''-''] else []) @ (ds @ replicate j (CHR ''0'')) @ s)
               = Some (dec_norm (m * 10 ^ j) (0 - int (length ([] :: string))), s)"
      unfolding v [symmetric] by (rule lex_num_split) (use ds s0 in \<open>simp_all add: list_all_zeros\<close>)
    have "dec_norm (m * 10 ^ j) 0 = JDec m e" using False nm e by (simp add: dec_norm_mult)
    with L show ?thesis by (simp add: pos)
  next
    case nA: False
    show ?thesis
    proof (cases "0 < q \<and> q \<le> 21")
      case B: True
      define p where "p = nat q"
      have pos: "pos_dec_string ds q = take p ds @ CHR ''.'' # drop p ds"
        using nA B by (simp add: pos_dec_string_def p_def)
      have pl: "0 < p" "p < length ds" using nA B by (auto simp: p_def)
      have t: "take p ds \<noteq> []" "list_all is_digit (take p ds)" "hd (take p ds) = hd ds"
        using pl ds by (auto simp: list_all_iff dest: in_set_takeD)
      have d: "drop p ds \<noteq> []" "list_all is_digit (drop p ds)"
        using pl ds by (auto simp: list_all_iff dest: in_set_dropD)
      have "e = 0 - int (length (drop p ds))" using pl B by (simp add: q_def p_def)
      with t d ds s0 sg nm show ?thesis
        using lex_num_split [of "take p ds" "CHR ''.'' # drop p ds @ s" "drop p ds" s 0 s neg]
        by (simp add: pos lex_frac_digits)
    next
      case nB: False
      show ?thesis
      proof (cases "-6 < q \<and> q \<le> 0")
        case C: True
        define z where "z = replicate (nat (- q)) (CHR ''0'')"
        have pos: "pos_dec_string ds q = ''0'' @ CHR ''.'' # (z @ ds)"
          using nA nB C by (simp add: pos_dec_string_def z_def)
        have f: "z @ ds \<noteq> []" "list_all is_digit (z @ ds)"
          using ds by (simp_all add: z_def list_all_zeros)
        have "digits_value ''0'' = 0" by (simp add: digits_value_def digit_val_def)
        then have dv: "digits_value (''0'' @ z @ ds) = a"
          using ds by (simp only: digits_value_append digits_value_zeros z_def)
        have "e = 0 - int (length (z @ ds))" using C by (simp add: q_def z_def)
        moreover have "lex_frac (CHR ''.'' # (z @ ds) @ s) = Some (z @ ds, s)"
          using f s0 by (intro lex_frac_digits)
        ultimately show ?thesis
          using dv s0 sg nm lex_num_split [of "''0''" "CHR ''.'' # (z @ ds) @ s" "z @ ds" s 0 s neg]
          by (simp only: pos) simp
      next
        case nC: False
        have ex: "lex_exp (exp_suffix (q - 1) @ s) = Some (q - 1, s)"
          using s0(1) by (rule lex_exp_suffix_rt)
        show ?thesis
        proof (cases "length ds = 1")
          case D: True
          have pos: "pos_dec_string ds q = ds @ exp_suffix (q - 1)"
            using nA nB nC D by (auto simp: pos_dec_string_def)
          have "e = q - 1 - int (length ([] :: string))" using D by (simp add: q_def)
          with ds ex sg nm show ?thesis
            using lex_num_split [of ds "exp_suffix (q - 1) @ s" "[]" "exp_suffix (q - 1) @ s" "q - 1" s neg]
            by (simp add: pos exp_suffix_start)
        next
          case nD: False
          have pos: "pos_dec_string ds q = [hd ds] @ CHR ''.'' # tl ds @ exp_suffix (q - 1)"
            using nA nB nC nD by (auto simp: pos_dec_string_def Let_def)
          have tl: "tl ds \<noteq> []" "list_all is_digit (tl ds)" "[hd ds] @ tl ds = ds"
            using ds nD by (cases ds; simp)+
          have hd: "list_all is_digit [hd ds]" using ds by (cases ds) simp_all
          have "e = q - 1 - int (length (tl ds))" using ds(1) by (cases ds) (simp_all add: q_def)
          with ds tl hd ex sg nm show ?thesis
            using lex_num_split [of "[hd ds]" "CHR ''.'' # tl ds @ exp_suffix (q - 1) @ s" "tl ds"
                                    "exp_suffix (q - 1) @ s" "q - 1" s neg]
            by (simp add: pos lex_frac_digits exp_suffix_start)
        qed
      qed
    qed
  qed
  then show ?thesis by (simp only: str append.assoc)
qed

definition jnum_norm :: "jnum \<Rightarrow> jnum" where
  "jnum_norm n = (case n of JDec m e \<Rightarrow> dec_norm m e)"

lemma lex_num_to_string:
  "num_end s \<Longrightarrow> lex_num (num_to_string n @ s) = Some (jnum_norm n, s)"
proof -
  assume s: "num_end s"
  obtain m e where n: "jnum_norm n = JDec m e" by (cases "jnum_norm n") auto
  have "dec_normal (JDec m e)"
    using dec_normal_dec_norm n by (cases n) (metis jnum_norm_def jnum.case)
  moreover have "num_to_string n = normal_num_string (JDec m e)"
    using n by (cases n) (simp add: num_to_string_def jnum_norm_def)
  ultimately show ?thesis using s n lex_num_normal by simp
qed

subsection \<open>QuoteJSONString\<close>

definition hex_digit :: "nat \<Rightarrow> char" where
  "hex_digit d = (if d < 10 then char_of (48 + d) else char_of (87 + d))"

definition quote_char :: "char \<Rightarrow> string" where
  "quote_char c =
     (if c = CHR 0x22 then [CHR 0x5C, CHR 0x22]
      else if c = CHR 0x5C then [CHR 0x5C, CHR 0x5C]
      else if c = CHR 0x08 then [CHR 0x5C, CHR ''b'']
      else if c = CHR 0x09 then [CHR 0x5C, CHR ''t'']
      else if c = CHR 0x0A then [CHR 0x5C, CHR ''n'']
      else if c = CHR 0x0C then [CHR 0x5C, CHR ''f'']
      else if c = CHR 0x0D then [CHR 0x5C, CHR ''r'']
      else if (of_char c :: nat) < 32 then
        [CHR 0x5C, CHR ''u'', CHR ''0'', CHR ''0'',
         hex_digit (of_char c div 16), hex_digit (of_char c mod 16)]
      else [c])"

lemma hex_val_hex_digit: "d < 16 \<Longrightarrow> hex_val (hex_digit d) = Some d"
  by (simp add: hex_val_def hex_digit_def Let_def)

lemma hex4_unicode:
  assumes "n < 256"
  shows "hex4 ([CHR ''0'', CHR ''0'', hex_digit (n div 16), hex_digit (n mod 16)] @ tl_s) = Some n"
proof -
  have "n div 16 < 16" using assms by simp
  moreover have "hex_val CHR ''0'' = Some 0" by (simp add: hex_val_def)
  ultimately have "those (map hex_val [CHR ''0'', CHR ''0'', hex_digit (n div 16), hex_digit (n mod 16)])
               = Some [0, 0, n div 16, n mod 16]"
    by (simp add: hex_val_hex_digit)
  then show ?thesis by (simp add: hex4_def)
qed

lemma lex_str_quote_char: "lex_str (quote_char c @ tl_s) acc = lex_str tl_s (c # acc)"
proof -
  consider (simple) "c \<in> {CHR 0x22, CHR 0x5C, CHR 0x08, CHR 0x09, CHR 0x0A, CHR 0x0C, CHR 0x0D}"
    | (ctrl) "c \<notin> {CHR 0x22, CHR 0x5C, CHR 0x08, CHR 0x09, CHR 0x0A, CHR 0x0C, CHR 0x0D}"
             "(of_char c :: nat) < 32"
    | (plain) "c \<notin> {CHR 0x22, CHR 0x5C, CHR 0x08, CHR 0x09, CHR 0x0A, CHR 0x0C, CHR 0x0D}"
              "\<not> (of_char c :: nat) < 32"
    by blast
  then show ?thesis
  proof cases
    case simple
    then show ?thesis by (elim insertE emptyE) (simp_all add: quote_char_def simple_escape_def)
  next
    case ctrl
    have "simple_escape CHR ''u'' = None" by (simp add: simple_escape_def)
    moreover have "hex4 ([CHR ''0'', CHR ''0'', hex_digit (of_char c div 16), hex_digit (of_char c mod 16)] @ tl_s)
                     = Some (of_char c)"
      using ctrl(2) by (intro hex4_unicode) simp
    ultimately show ?thesis using ctrl by (simp add: quote_char_def)
  next
    case plain
    then show ?thesis by (simp add: quote_char_def)
  qed
qed

lemma lex_str_quoted:
  "lex_str (concat (map quote_char s) @ CHR 0x22 # rest) acc = Inr (rev acc @ s, rest)"
  by (induction s arbitrary: acc) (simp_all add: lex_str_quote_char)

subsection \<open>Tokens written out and read back\<close>

lemma pos_dec_string_hd:
  "ds \<noteq> [] \<Longrightarrow> list_all is_digit ds \<Longrightarrow>
   pos_dec_string ds q \<noteq> [] \<and> is_digit (hd (pos_dec_string ds q))"
  by (cases ds) (auto simp: pos_dec_string_def Let_def take_Cons')

lemma num_to_string_hd:
  "\<exists>c cs. num_to_string n = c # cs \<and> (c = CHR ''-'' \<or> is_digit c)"
proof -
  obtain m e where n: "jnum_norm n = JDec m e" by (cases "jnum_norm n") auto
  have ds: "nat_digits (nat \<bar>m\<bar>) \<noteq> []" "list_all is_digit (nat_digits (nat \<bar>m\<bar>))"
    by (simp_all add: nat_digits_nonempty nat_digits_is_digit)
  have "num_to_string n = normal_num_string (JDec m e)"
    using n by (cases n) (simp add: num_to_string_def jnum_norm_def)
  then show ?thesis
    using pos_dec_string_hd [OF ds, of "int (length (nat_digits (nat \<bar>m\<bar>))) + e"]
    by (cases "pos_dec_string (nat_digits (nat \<bar>m\<bar>)) (int (length (nat_digits (nat \<bar>m\<bar>))) + e)")
       auto
qed

definition quote_json_string :: "string \<Rightarrow> string" where
  "quote_json_string s = CHR 0x22 # concat (map quote_char s) @ [CHR 0x22]"

fun print_tok :: "jtok \<Rightarrow> string" where
  "print_tok TLBrace = ''{''"
| "print_tok TRBrace = ''}''"
| "print_tok TLBrack = ''[''"
| "print_tok TRBrack = '']''"
| "print_tok TColon = '':''"
| "print_tok TComma = '',''"
| "print_tok (TStr s) = quote_json_string s"
| "print_tok (TNum n) = num_to_string n"
| "print_tok TTrue = ''true''"
| "print_tok TFalse = ''false''"
| "print_tok TNull = ''null''"

fun tok_norm :: "jtok \<Rightarrow> jtok" where
  "tok_norm (TNum n) = TNum (jnum_norm n)"
| "tok_norm t = t"

fun nums_sep :: "jtok list \<Rightarrow> bool" where
  "nums_sep [] = True"
| "nums_sep (TNum n # ts) =
     ((case ts of [] \<Rightarrow> True | t # _ \<Rightarrow> t \<in> {TComma, TRBrack, TRBrace}) \<and> nums_sep ts)"
| "nums_sep (t # ts) = nums_sep ts"

lemma json_lex_num:
  assumes "num_end r"
  shows "json_lex (num_to_string n @ r) = cons_jtok (TNum (jnum_norm n)) (json_lex r)"
proof -
  obtain c cs where c: "num_to_string n = c # cs" "c = CHR ''-'' \<or> is_digit c"
    using num_to_string_hd by blast
  have h: "\<not> is_ws c" "punct c = None" "c \<noteq> CHR 0x22"
    using c(2) by (auto simp: is_digit_def is_ws_def punct_def)
  have lx: "lex_num (c # cs @ r) = Some (jnum_norm n, r)"
    using lex_num_to_string [OF assms, of n] c(1) by simp
  have "json_lex (c # cs @ r) = cons_jtok (TNum (jnum_norm n)) (json_lex r)"
    by (subst json_lex.simps(2)) (use h c(2) lx in \<open>simp del: json_lex.simps\<close>)
  then show ?thesis by (simp only: c(1) append_Cons)
qed

lemma json_lex_print_tok:
  "(\<forall>n. t = TNum n \<longrightarrow> num_end r) \<Longrightarrow>
   json_lex (print_tok t @ r) = cons_jtok (tok_norm t) (json_lex r)"
  by (cases t)
     (simp_all add: is_ws_def punct_def quote_json_string_def lex_str_quoted json_lex_num is_digit_def)

lemma nums_sep_Cons:
  "nums_sep (t # ts) \<Longrightarrow> nums_sep ts \<and> (\<forall>n. t = TNum n \<longrightarrow> num_end (concat (map print_tok ts)))"
  by (cases t; cases ts) (auto simp: num_end_def is_digit_def)

lemma json_lex_print:
  "nums_sep ts \<Longrightarrow> json_lex (concat (map print_tok ts)) = Inr (map tok_norm ts)"
proof (induction ts)
  case (Cons t ts)
  from nums_sep_Cons [OF Cons.prems]
  have "nums_sep ts" and "\<forall>n. t = TNum n \<longrightarrow> num_end (concat (map print_tok ts))" by auto
  then have "json_lex (print_tok t @ concat (map print_tok ts)) = cons_jtok (tok_norm t) (Inr (map tok_norm ts))"
    using Cons.IH by (simp only: json_lex_print_tok)
  then show ?case by (simp add: cons_jtok_def)
qed simp

subsection \<open>The serializer\<close>

lemma size_map_of_less:
  assumes "a \<in> fst ` set ps"
  shows "size (the (map_of ps a)) < Suc (size_list (size_prod (\<lambda>x. 0) size) ps)"
proof -
  obtain v where v: "map_of ps a = Some v"
    using assms by (auto dest: weak_map_of_SomeI)
  then have "(a, v) \<in> set ps" by (rule map_of_SomeD)
  then have "size_prod (\<lambda>x. 0) size (a, v) \<le> size_list (size_prod (\<lambda>x. 0) size) ps"
    by (rule size_list_estimation') simp
  then show ?thesis using v by simp
qed

lemma size_elem_less: "x \<in> set xs \<Longrightarrow> size x < Suc (size_list size xs)"
  using size_list_estimation' [of x xs "size x" size] by simp

function json_ser :: "jsval \<Rightarrow> jtok list option" where
  "json_ser JNull = Some [TNull]"
| "json_ser (JBool b) = Some [if b then TTrue else TFalse]"
| "json_ser (JNum n) = Some [TNum n]"
| "json_ser (JStr s) = Some [TStr s]"
| "json_ser (JArr xs) =
     Some (TLBrack # join_with TComma (map (\<lambda>x. case json_ser x of None \<Rightarrow> [TNull] | Some ts \<Rightarrow> ts) xs)
           @ [TRBrack])"
| "json_ser (JObj ps) =
     Some (TLBrace # join_with TComma
             (concat (map (\<lambda>k. case json_ser (the (map_of ps k)) of
                                 None \<Rightarrow> [] | Some ts \<Rightarrow> [TStr k # TColon # ts]) (own_keys ps)))
           @ [TRBrace])"
| "json_ser JUndef = None"
| "json_ser (JFun f) = None"
  by pat_completeness auto
termination
  apply (relation "measure size")
  apply simp
  apply (simp add: size_elem_less)
  apply (simp add: size_map_of_less)
  done

function json_canon :: "jsval \<Rightarrow> jsval" where
  "json_canon (JNum n) = JNum (jnum_norm n)"
| "json_canon (JArr xs) =
     JArr (map (\<lambda>x. case json_ser x of None \<Rightarrow> JNull | Some _ \<Rightarrow> json_canon x) xs)"
| "json_canon (JObj ps) =
     JObj (concat (map (\<lambda>k. case json_ser (the (map_of ps k)) of
                              None \<Rightarrow> [] | Some _ \<Rightarrow> [(k, json_canon (the (map_of ps k)))]) (own_keys ps)))"
| "json_canon JNull = JNull"
| "json_canon (JBool b) = JBool b"
| "json_canon (JStr s) = JStr s"
| "json_canon JUndef = JUndef"
| "json_canon (JFun f) = JFun f"
  by pat_completeness auto
termination
  apply (relation "measure size")
  apply simp
  apply (simp add: size_elem_less)
  apply (simp add: size_map_of_less)
  done

lemma nums_sep_append:
  "nums_sep p \<Longrightarrow> nums_sep q \<Longrightarrow> (case q of [] \<Rightarrow> True | t # _ \<Rightarrow> t \<in> {TComma, TRBrack, TRBrace}) \<Longrightarrow>
   nums_sep (p @ q)"
  by (induction p rule: nums_sep.induct) (auto split: list.splits)

lemma nums_sep_join:
  "list_all nums_sep ps \<Longrightarrow> nums_sep (join_with TComma ps)"
  by (induction TComma ps rule: join_with.induct) (auto intro: nums_sep_append)

lemma json_ser_nums_sep: "json_ser v = Some ts \<Longrightarrow> nums_sep ts"
proof (induction v arbitrary: ts rule: json_ser.induct)
  case (5 xs)
  have "list_all nums_sep (map (\<lambda>x. case json_ser x of None \<Rightarrow> [TNull] | Some ts \<Rightarrow> ts) xs)"
    using "5.IH" by (auto simp: list_all_iff split: option.splits)
  with "5.prems" show ?case by (auto intro!: nums_sep_append nums_sep_join)
next
  case (6 ps)
  have "list_all nums_sep (concat (map (\<lambda>k. case json_ser (the (map_of ps k)) of
                                 None \<Rightarrow> [] | Some ts \<Rightarrow> [TStr k # TColon # ts]) (own_keys ps)))"
    using "6.IH" by (auto simp: list_all_iff split: option.splits) (metis fst_conv image_eqI)
  with "6.prems" show ?case by (auto intro!: nums_sep_append nums_sep_join)
qed auto

subsection \<open>The reader reads what the serializer writes\<close>

lemma jp_run_append:
  "jp_run s (xs @ ys) = (case jp_run s xs of None \<Rightarrow> None | Some s' \<Rightarrow> jp_run s' ys)"
  by (induction s xs rule: jp_run.induct) (simp_all split: option.splits)

lemma map_join_with: "map f (join_with c ps) = join_with (f c) (map (map f) ps)"
  by (induction c ps rule: join_with.induct) simp_all

lemma concat_map_option:
  "concat (map (\<lambda>k. case G k of None \<Rightarrow> [] | Some t \<Rightarrow> [F k t]) ks) =
   map (\<lambda>k. F k (the (G k))) (filter (\<lambda>k. G k \<noteq> None) ks)"
  by (induction ks) (auto split: option.splits)

lemma jp_run_elems:
  assumes "xs \<noteq> []"
    and "\<forall>x \<in> set xs. \<forall>st m. m \<in> {PValue, PValueOrClose} \<longrightarrow> jp_run (st, m) (E x) = Some (jp_complete st (C x))"
    and "m \<in> {PValue, PValueOrClose}"
  shows "jp_run (ArrF acc # st, m) (join_with TComma (map E xs)) =
           Some (ArrF (rev (map C xs) @ acc) # st, PCommaOrClose)"
  using assms
proof (induction xs arbitrary: acc m rule: induct_list012)
  case (2 x)
  then have "jp_run (ArrF acc # st, m) (E x) = Some (jp_complete (ArrF acc # st) (C x))"
    by (meson list.set_intros(1))
  then show ?case by simp
next
  case (3 x y zs)
  have "jp_run (ArrF acc # st, m) (E x) = Some (jp_complete (ArrF acc # st) (C x))"
    using "3.prems"(2,3) by (meson list.set_intros(1))
  moreover have "jp_run (ArrF (C x # acc) # st, PValue) (join_with TComma (map E (y # zs))) =
                   Some (ArrF (rev (map C (y # zs)) @ C x # acc) # st, PCommaOrClose)"
    using "3.prems" by (intro "3.IH"(2)) auto
  ultimately show ?case by (simp add: jp_run_append)
qed simp_all

lemma jp_run_members:
  assumes "ks \<noteq> []" "distinct ks" "set ks \<inter> set (map fst acc) = {}"
    and "\<forall>k \<in> set ks. \<forall>st m. m \<in> {PValue, PValueOrClose} \<longrightarrow> jp_run (st, m) (T k) = Some (jp_complete st (V k))"
    and "m \<in> {PKey, PKeyOrClose}"
  shows "jp_run (ObjF acc k0 # st, m) (join_with TComma (map (\<lambda>k. TStr k # TColon # T k) ks)) =
           Some (ObjF (acc @ map (\<lambda>k. (k, V k)) ks) (last ks) # st, PCommaOrClose)"
  using assms
proof (induction ks arbitrary: acc k0 m rule: induct_list012)
  case (2 k)
  then have "jp_run (ObjF acc k # st, PValue) (T k) = Some (jp_complete (ObjF acc k # st) (V k))"
    by (meson insertI1 list.set_intros(1))
  with 2 show ?case by (auto simp: update_fresh_append)
next
  case (3 k k' ks)
  have "jp_run (ObjF acc k # st, PValue) (T k) = Some (jp_complete (ObjF acc k # st) (V k))"
    using "3.prems"(4) by (meson insertI1 list.set_intros(1))
  moreover have "AList.update k (V k) acc = acc @ [(k, V k)]"
    using "3.prems" by (intro update_fresh_append) auto
  moreover have "jp_run (ObjF (acc @ [(k, V k)]) k # st, PKey) (join_with TComma (map (\<lambda>k. TStr k # TColon # T k) (k' # ks))) =
                   Some (ObjF ((acc @ [(k, V k)]) @ map (\<lambda>k. (k, V k)) (k' # ks)) (last (k' # ks)) # st, PCommaOrClose)"
    using "3.prems" by (intro "3.IH"(2)) auto
  ultimately show ?case using "3.prems"(5) by (auto simp: jp_run_append)
qed simp

lemma jp_run_prim:
  "prim_tok t = Some v \<Longrightarrow> t \<noteq> TRBrack \<Longrightarrow> m \<in> {PValue, PValueOrClose} \<Longrightarrow>
   jp_run (st, m) [t] = Some (jp_complete st v)"
  by (cases t) auto

lemma wf_map_of_val:
  assumes "wf_val (JObj ps)" "k \<in> set (map fst ps)"
  shows "wf_val (the (map_of ps k))"
proof -
  obtain v where v: "map_of ps k = Some v"
    using assms(2) by (cases "map_of ps k") (auto simp: map_of_eq_None_iff)
  then have "(k, v) \<in> set ps" by (rule map_of_SomeD)
  with assms(1) v show ?thesis by (auto simp: list_all_iff)
qed

lemma read_arr:
  assumes IH: "\<And>x ts st m. x \<in> set xs \<Longrightarrow> json_ser x = Some ts \<Longrightarrow> m \<in> {PValue, PValueOrClose} \<Longrightarrow>
                 jp_run (st, m) (map tok_norm ts) = Some (jp_complete st (json_canon x))"
    and m: "m \<in> {PValue, PValueOrClose}"
  shows "jp_run (st, m) (map tok_norm (the (json_ser (JArr xs)))) = Some (jp_complete st (json_canon (JArr xs)))"
proof -
  define E where "E = (\<lambda>x. map tok_norm (case json_ser x of None \<Rightarrow> [TNull] | Some ts \<Rightarrow> ts))"
  define C where "C = (\<lambda>x. case json_ser x of None \<Rightarrow> JNull | Some _ \<Rightarrow> json_canon x)"
  have ts: "map tok_norm (the (json_ser (JArr xs))) = TLBrack # join_with TComma (map E xs) @ [TRBrack]"
    by (simp add: map_join_with E_def comp_def)
  have cv: "json_canon (JArr xs) = JArr (map C xs)" by (simp add: C_def)
  have st0: "jp_step (st, m) TLBrack = Some (ArrF [] # st, PValueOrClose)"
    using m by auto
  show ?thesis
  proof (cases "xs = []")
    case True
    then show ?thesis using st0 by (simp add: ts cv)
  next
    case False
    have "\<forall>x \<in> set xs. \<forall>st m. m \<in> {PValue, PValueOrClose} \<longrightarrow> jp_run (st, m) (E x) = Some (jp_complete st (C x))"
    proof (intro ballI allI impI)
      fix x st m assume x: "x \<in> set xs" and m: "m \<in> {PValue, PValueOrClose}"
      show "jp_run (st, m) (E x) = Some (jp_complete st (C x))"
      proof (cases "json_ser x")
        case None
        then show ?thesis using m by (auto simp: E_def C_def)
      next
        case (Some ts')
        have "jp_run (st, m) (map tok_norm ts') = Some (jp_complete st (json_canon x))"
          using x Some m by (rule IH)
        with Some show ?thesis by (simp add: E_def C_def)
      qed
    qed
    then have "jp_run (ArrF [] # st, PValueOrClose) (join_with TComma (map E xs)) =
                 Some (ArrF (rev (map C xs) @ []) # st, PCommaOrClose)"
      using False by (intro jp_run_elems) auto
    with st0 have "jp_run (st, m) (map tok_norm (the (json_ser (JArr xs)))) = Some (jp_complete st (JArr (map C xs)))"
      by (simp only: ts) (simp add: jp_run_append)
    then show ?thesis by (simp only: cv)
  qed
qed

lemma read_obj:
  assumes IH: "\<And>k ts st m. k \<in> set (own_keys ps) \<Longrightarrow> json_ser (the (map_of ps k)) = Some ts \<Longrightarrow>
                 m \<in> {PValue, PValueOrClose} \<Longrightarrow>
                 jp_run (st, m) (map tok_norm ts) = Some (jp_complete st (json_canon (the (map_of ps k))))"
    and wf: "wf_val (JObj ps)" and m: "m \<in> {PValue, PValueOrClose}"
  shows "jp_run (st, m) (map tok_norm (the (json_ser (JObj ps)))) = Some (jp_complete st (json_canon (JObj ps)))"
proof -
  define G where "G = (\<lambda>k. json_ser (the (map_of ps k)))"
  define ks where "ks = filter (\<lambda>k. G k \<noteq> None) (own_keys ps)"
  define T where "T = (\<lambda>k. map tok_norm (the (G k)))"
  define V where "V = (\<lambda>k. json_canon (the (map_of ps k)))"
  have "concat (map (\<lambda>k. case G k of None \<Rightarrow> [] | Some ts \<Rightarrow> [TStr k # TColon # ts]) (own_keys ps))
          = map (\<lambda>k. TStr k # TColon # the (G k)) ks"
    unfolding ks_def by (rule concat_map_option)
  then have "the (json_ser (JObj ps)) = TLBrace # join_with TComma (map (\<lambda>k. TStr k # TColon # the (G k)) ks) @ [TRBrace]"
    by (simp add: G_def)
  then have ts: "map tok_norm (the (json_ser (JObj ps))) =
                   TLBrace # join_with TComma (map (\<lambda>k. TStr k # TColon # T k) ks) @ [TRBrace]"
    by (simp add: map_join_with comp_def T_def)
  have "concat (map (\<lambda>k. case json_ser (the (map_of ps k)) of None \<Rightarrow> []
                          | Some _ \<Rightarrow> [(k, json_canon (the (map_of ps k)))]) (own_keys ps))
          = map (\<lambda>k. (k, V k)) ks"
    unfolding ks_def G_def V_def by (rule concat_map_option)
  then have cv: "json_canon (JObj ps) = JObj (map (\<lambda>k. (k, V k)) ks)" by simp
  have st0: "jp_step (st, m) TLBrace = Some (ObjF [] [] # st, PKeyOrClose)"
    using m by auto
  show ?thesis
  proof (cases "ks = []")
    case True
    then show ?thesis using st0 by (simp only: ts cv) simp
  next
    case False
    have dk: "distinct ks"
      using wf by (simp add: ks_def distinct_own_keys)
    have "\<forall>k \<in> set ks. \<forall>st m. m \<in> {PValue, PValueOrClose} \<longrightarrow> jp_run (st, m) (T k) = Some (jp_complete st (V k))"
    proof (intro ballI allI impI)
      fix k st m assume k: "k \<in> set ks" and m: "m \<in> {PValue, PValueOrClose}"
      then obtain ts' where ts': "G k = Some ts'" and ko: "k \<in> set (own_keys ps)"
        by (auto simp: ks_def)
      have "jp_run (st, m) (map tok_norm ts') = Some (jp_complete st (json_canon (the (map_of ps k))))"
        using ko ts' m unfolding G_def by (rule IH)
      with ts' show "jp_run (st, m) (T k) = Some (jp_complete st (V k))"
        by (simp add: T_def V_def)
    qed
    then have "jp_run (ObjF [] [] # st, PKeyOrClose) (join_with TComma (map (\<lambda>k. TStr k # TColon # T k) ks)) =
                 Some (ObjF ([] @ map (\<lambda>k. (k, V k)) ks) (last ks) # st, PCommaOrClose)"
      using False dk by (intro jp_run_members) auto
    with st0 have "jp_run (st, m) (map tok_norm (the (json_ser (JObj ps)))) =
                     Some (jp_complete st (JObj (map (\<lambda>k. (k, V k)) ks)))"
      by (simp only: ts) (simp add: jp_run_append)
    then show ?thesis by (simp only: cv)
  qed
qed

lemma json_ser_read:
  "wf_val v \<Longrightarrow> json_ser v = Some ts \<Longrightarrow> m \<in> {PValue, PValueOrClose} \<Longrightarrow>
   jp_run (st, m) (map tok_norm ts) = Some (jp_complete st (json_canon v))"
proof (induction v arbitrary: ts st m rule: json_ser.induct)
  case (5 xs)
  have "jp_run (st, m) (map tok_norm (the (json_ser (JArr xs)))) = Some (jp_complete st (json_canon (JArr xs)))"
  proof (rule read_arr)
    fix x ts st m assume "x \<in> set xs" "json_ser x = Some ts" "m \<in> {PValue, PValueOrClose}"
    moreover then have "wf_val x" using "5.prems"(1) by (simp add: list_all_iff)
    ultimately show "jp_run (st, m) (map tok_norm ts) = Some (jp_complete st (json_canon x))"
      using "5.IH" by blast
  qed (rule "5.prems"(3))
  moreover have "the (json_ser (JArr xs)) = ts" using "5.prems"(2) by (simp only: option.sel)
  ultimately show ?case by (simp only:)
next
  case (6 ps)
  have "jp_run (st, m) (map tok_norm (the (json_ser (JObj ps)))) = Some (jp_complete st (json_canon (JObj ps)))"
  proof (rule read_obj)
    fix k ts st m assume "k \<in> set (own_keys ps)" "json_ser (the (map_of ps k)) = Some ts"
      "m \<in> {PValue, PValueOrClose}"
    moreover then have "wf_val (the (map_of ps k))" using "6.prems"(1) by (simp add: wf_map_of_val)
    ultimately show "jp_run (st, m) (map tok_norm ts) = Some (jp_complete st (json_canon (the (map_of ps k))))"
      using "6.IH" by blast
  qed (use "6.prems" in auto)
  moreover have "the (json_ser (JObj ps)) = ts" using "6.prems"(2) by (simp only: option.sel)
  ultimately show ?case by (simp only:)
qed (auto simp del: jp_run.simps intro!: jp_run_prim)

definition json_stringify :: "jsval \<Rightarrow> string option" where
  "json_stringify v = map_option (\<lambda>ts. concat (map print_tok ts)) (json_ser v)"

lemma json_parse_stringify:
  assumes "wf_val v" and "json_stringify v = Some s"
  shows "json_parse s = Inr (json_canon v)"
proof -
  obtain ts where ts: "json_ser v = Some ts" and s: "s = concat (map print_tok ts)"
    using assms(2) by (auto simp: json_stringify_def)
  have "json_lex s = Inr (map tok_norm ts)"
    using s json_lex_print json_ser_nums_sep [OF ts] by simp
  moreover have "jp_run ([], PValue) (map tok_norm ts) = Some ([], PDone (json_canon v))"
    using json_ser_read [OF assms(1) ts, of PValue "[]"] by simp
  ultimately show ?thesis by (simp add: json_parse_def)
qed

definition demo_json :: jsval where
  "demo_json = JObj [(''b'', JNum (JDec 150 (- 2))), (''1'', JArr [JUndef, JStr ''a'', JBool True]),
                     (''f'', JFun HostUpdateAppSettings)]"

lemma own_keys_demo: "own_keys [(''b'', x), (''1'', y), (''f'', z)] = [''1'', ''b'', ''f'']"
  by (simp add: own_keys_def is_array_index_def is_digit_def digits_value_def digit_val_def
                nat_digits_1 [unfolded One_nat_def])

lemma demo_json_num: "num_to_string (JDec 150 (- 2)) = ''1.5''" "jnum_norm (JDec 150 (- 2)) = JDec 15 (- 1)"
  by code_simp+

lemma demo_json_stringify:
  \<open>json_stringify demo_json = Some ''{"1":[null,"a",true],"b":1.5}''\<close>
  by (simp add: json_stringify_def demo_json_def own_keys_demo demo_json_num quote_json_string_def quote_char_def)

lemma demo_json_canon:
  "json_canon demo_json = JObj [(''1'', JArr [JNull, JStr ''a'', JBool True]), (''b'', JNum (JDec 15 (- 1)))]"
  by (simp add: demo_json_def own_keys_demo demo_json_num)

end
