(* ===== verification/Spec2Isabelle.thy ===== *)
theory Spec2Isabelle
  imports ChannelInit SettingsPush JsonPrint
begin

text \<open>
  \<^bold>\<open>A verification development for the stream-cli chat commands.\<close>

  \<^bold>\<open>The program.\<close> The repository holds two oclif commands.
  \<open>src/src/commands/chat/channel/init.js\<close> (class \<open>ChannelInit\<close>) parses
  its flags, authenticates with the config file, builds a channel payload
  from the flags and an optional JSON \<open>--data\<close>, creates the channel on the
  chat service, logs a confirmation and exits.
  \<open>src/src/commands/chat/settings/push.js\<close> (class \<open>SettingsPush\<close>) parses
  its flags and, depending on \<open>--enable\<close>/\<open>--disable\<close> and \<open>--type\<close>, sends one
  \<open>updateAppSettings\<close> request or only logs. The two share nothing at run
  time; both run inside oclif's command class, whose \<open>_run\<close> first shows
  help for \<open>--help\<close>, then calls \<open>run\<close> (which parses argv against the
  static flag table and uses \<open>this.log\<close>, \<open>this.exit\<close>, \<open>this.error\<close>), and
  whose \<open>catch\<close> turns an error whose message names \<open>-h\<close>/\<open>help\<close> or
  \<open>-v\<close>/\<open>version\<close> as an unexpected argument into help or version output;
  any other error becomes the exit status of the process.

  \<^bold>\<open>The theories.\<close>
  \<^item> \<open>Prelude\<close>: named theorem collections, lemmas on association lists
    (ordered property tables), \<open>split_on\<close>/\<open>join_with\<close>
    (\<open>String.prototype.split\<close> with one separator and its inverse) and
    \<open>join_sep\<close> (\<open>Array.prototype.join\<close>).
  \<^item> \<open>JsValue\<close>: JavaScript values (\<open>jsval\<close>, with numbers as exact
    decimals \<open>jnum\<close>), truthiness, \<open>String(v)\<close> and \<open>Number::toString\<close>,
    own-key order, \<open>Object.assign\<close> through \<open>[[Set]]\<close> (which drops the
    key \<open>__proto__\<close>), and the well-formedness of values (distinct keys).
  \<^item> \<open>Runtime\<close>: the exception-state monad \<open>'a js\<close> over an environment
    \<open>env\<close> (config directory, authentication and remote outcomes, uuid
    generator, files, Node's global object) and a world \<open>world\<close> (stdout,
    stderr, remote calls, uuids drawn); the oclif primitives \<open>cmd_log\<close>,
    \<open>cmd_exit\<close>, \<open>cmd_error\<close>, the collaborators \<open>auth_client\<close>, \<open>remote\<close>,
    \<open>uuid_v4\<close>, \<open>read_file\<close>, \<open>resolve_global\<close>, and \<open>handle\<close>, which gives
    the exit status: 0 when the run returns, else the \<open>oclif.exit\<close> of the
    thrown error (an \<open>ExitError\<close> prints nothing). \<open>oclif_run\<close> is
    \<open>Command._run\<close>: the help override of \<open>init\<close> (\<open>help_override\<close>) and the
    message test of \<open>catch\<close> (\<open>redirect_msg\<close> on \<open>err_message\<close>), with
    \<open>show_help\<close> and \<open>show_version\<close> exiting 0. Three closure properties are
    proved compositionally: \<open>calls_within n\<close> (at most \<open>n\<close> remote calls,
    \<open>within_intros\<close>), \<open>throws\<close>/\<open>ends_with\<close> (a \<open>try\<close> body ending in
    \<open>this.exit\<close> never returns, \<open>throws_intros\<close>) and \<open>quiet\<close> (no error
    reads as a help or version request, \<open>quiet_intros\<close>); \<open>zero_help\<close>
    says that status 0 only follows help or version output.
  \<^item> \<open>Flags\<close>: oclif's parser: the argv lexer \<open>lex_argv\<close> (long and short
    flags, \<open>--name=value\<close>, bundled short flags, \<open>--\<close>; an unknown flag word
    becomes an argument), \<open>apply_toks\<close> (values, options check),
    \<open>apply_defaults\<close>, \<open>validate\<close> (unexpected arguments with oclif's
    message, missing required flags) and \<open>cmd_parse\<close>; every parse error is
    a \<open>CLIError\<close> with exit 2, and \<open>handle_oclif_parse_fails\<close> says how
    \<open>catch\<close> ends it.
  \<^item> \<open>JsonParse\<close>: \<open>JSON.parse\<close> as a tokenizer \<open>json_lex\<close> and a pushdown
    reader \<open>jp_run\<close>; its errors are \<open>SyntaxError\<close>s and its results are
    well formed (\<open>json_parse_wf\<close>).
  \<^item> \<open>JsonPrint\<close>: \<open>JSON.stringify\<close> (\<open>json_ser\<close>, \<open>print_tok\<close>,
    \<open>quote_char\<close>, \<open>json_stringify\<close>), modelled from ECMA-262, and the proof
    that \<open>JSON.parse\<close> reads its output back as \<open>json_canon v\<close>
    (\<open>json_parse_stringify\<close>), through round trips of \<open>Number::toString\<close>
    (all five formats) against the number lexer, of \<open>QuoteJSONString\<close>
    against the string lexer, and of the token printer against the
    tokenizer.
  \<^item> \<open>ChannelInit\<close>: \<open>init.js\<close>: \<open>channel_init_flags\<close> (lines 9--46),
    \<open>init_payload\<close> (57--65), \<open>merge_data\<close> (67--70), \<open>channel_init_run\<close>
    (51--82), \<open>channel_init_main\<close> (48--49), \<open>channel_init_command\<close> (module
    load, whose \<open>uuid()\<close> fixes the default id, then \<open>run\<close>) and
    \<open>channel_init_process\<close> (module load, then \<open>oclif_run\<close> around \<open>run\<close>).
  \<^item> \<open>SettingsPush\<close>: \<open>push.js\<close>: \<open>push_flags\<close> (66--129), \<open>apn_config\<close>
    (20--28), the three enable branches (16--51), \<open>push_run\<close> (8--62),
    \<open>push_main\<close> (5--6) and \<open>push_process\<close> (\<open>oclif_run\<close> around it);
    \<open>webhook_call\<close> and \<open>firebase_call\<close> are the requests of lines 35--48.
  \<^item> this theory: the registry (\<open>run_cli\<close>, oclif's \<open>Main\<close>) and the
    properties that span components.

  \<^bold>\<open>What is proved.\<close> For channel init: the result of every path of
  \<open>run\<close> (success C1, \<open>--data\<close> merged C3, malformed \<open>--data\<close> C4,
  authentication failure C5, remote rejection C6), an end-to-end run from
  argv (C2), the outcome of every parse failure of the process, help and
  version included (C7), the shape of the payload (C8), at most one remote
  call (C9). For settings push: under Node's global object every run fails
  at line 9 with a \<open>ReferenceError\<close> (C10) and the whole process ends as
  C11 states; where a global \<open>type\<close> exists, the usage path (C12), the enable
  branches with unbound \<open>auth\<close> and \<open>client\<close> (C13) and the disable path
  (C14); \<open>-e\<close>/\<open>-d\<close> never parse (C15). The exit status of each process is
  characterised exactly (C16, C17): 0 for help and version, 2 for any other
  parse error, 1 whenever the flags parse, so a successful run never exits
  0; and no invocation of the CLI exits 0 without printing help or the
  version last (C20). The merged payload refines the spec's map contract
  \<open>payload_spec\<close>, \<open>merge_spec\<close> (C18); without \<open>-i\<close> the channel id is the
  uuid drawn at module load and \<open>created_by.id\<close> the next one (C19); the
  four spellings of each flag parse alike (C21). Where the global object
  binds \<open>type\<close> and \<open>client\<close>, the webhook and firebase branches send
  exactly the request the spec describes and exit 1 (C22, C23). A \<open>--data\<close>
  that parses to null, a boolean or a number is accepted and ignored (C24).
  A \<open>--data\<close> written by \<open>JSON.stringify\<close> is merged as its canonical form
  (C25), the spec's round trip up to dropped members, \<open>null\<close> holes, key
  order and normalised numbers. Several of these differ from the spec (exit
  status 1 on success, 2 on parse errors, no remote call from push, the
  round trip); the manifest lists them as findings.

  \<^bold>\<open>Hypotheses on the environment.\<close> The status theorems C16 and C17
  assume \<open>quiet_env\<close>: the authentication routine and the chat service
  never answer with a message that \<open>catch\<close> would read as a help or version
  request (C17 also assumes no global \<open>auth\<close>, as in Node). Without it the
  process may print help and exit 0 after a failed request; C20 holds
  without it.

  \<^bold>\<open>Bounds and fuel.\<close> None is needed: the argv lexer and the JSON
  tokenizer terminate by a measure on their input, the serializer by the
  size of the value, the JSON reader is structural over the token list, and
  the monad has no loops.

  \<^bold>\<open>Not modelled.\<close> \<open>utils/auth\<close> and the stream-chat SDK are not in the
  repository: authentication and the remote operations are outcomes read
  from the environment, and \<open>client.channel\<close> (a local handle) is folded
  into the \<open>create\<close> call. The only function values are the host
  functions of the chat-service client (\<open>JFun\<close>); calling anything else is
  a \<open>TypeError\<close>. In particular \<open>auth(this)\<close> of push.js line 17 is not
  modelled past the lookup of \<open>auth\<close>: the name is never imported and the
  behaviour of \<open>utils/auth\<close> on a command object is not in the repository,
  so the apn branch (and the certificate reads of lines 21--23) is covered
  only up to the \<open>ReferenceError\<close> on \<open>auth\<close>. \<open>util.format\<close> of \<open>this.log\<close>
  with two arguments is kept symbolic (\<open>LogFormat\<close>), as are the help text
  of \<open>@oclif/plugin-help\<close> (\<open>LogHelp\<close>) and the user agent (\<open>LogVersion\<close>).
  The message of a missing required flag omits oclif's flag usage text,
  which no test of the model reads. \<open>JSON.parse\<close> models code units up to
  00FF in \<open>\u\<close> escapes (others are an out-of-model error), numbers as exact
  decimals, not doubles; \<open>JSON.stringify\<close> has no replacer, indent or
  \<open>toJSON\<close>. \<open>path.join\<close> is modelled for a normalised directory. chalk
  colours and the description strings do not affect behaviour. The oclif
  parser options \<open>allowNo\<close>, \<open>multiple\<close>, \<open>env\<close> and \<open>dependsOn\<close> are not used
  by the flag tables and not modelled, nor are oclif hooks and plugins
  other than help.
\<close>

section \<open>The command registry\<close>

text \<open>oclif's \<open>Main\<close> (\<open>bin/run\<close>), modelled from the spec (section 2)
  and from \<open>@oclif/command\<close>: its \<open>init\<close> shows the version for a first
  word \<open>-v\<close>, \<open>--version\<close> or \<open>version\<close>, and the help for a first word
  \<open>-h\<close> or \<open>help\<close>, for no word at all, or for \<open>--help\<close> before any \<open>--\<close>;
  otherwise the first word names a command, whose process runs on the rest
  of argv, or a topic, whose help is shown; an unknown name is a
  \<open>CLIError\<close> (exit 2). \<open>Main\<close> is itself a command, so its \<open>catch\<close> sees
  every error that leaves the command.\<close>

datatype command_id = CmdChannelInit | CmdSettingsPush

definition command_table :: "(string \<times> command_id) list" where
  "command_table = [(''chat:channel:init'', CmdChannelInit), (''chat:settings:push'', CmdSettingsPush)]"

definition cli_topics :: "string list" where
  "cli_topics = [''chat'', ''chat:channel'', ''chat:settings'']"

definition command_not_found :: "string \<Rightarrow> js_error" where
  "command_not_found c = flag_error (''command '' @ c @ '' not found'')"

fun run_command :: "command_id \<Rightarrow> string list \<Rightarrow> unit js" where
  "run_command CmdChannelInit argv = channel_init_process argv"
| "run_command CmdSettingsPush argv = push_process argv"

definition main_dispatch :: "string list \<Rightarrow> unit js" where
  "main_dispatch argv =
     (case argv of
        [] \<Rightarrow> show_help
      | c # rest \<Rightarrow>
          (case map_of command_table c of
             Some k \<Rightarrow> run_command k rest
           | None \<Rightarrow> if c \<in> set cli_topics then show_help else js_throw (command_not_found c)))"

definition run_cli :: "string list \<Rightarrow> unit js" where
  "run_cli argv =
     (if take 1 argv \<in> set (map (\<lambda>a. [a]) version_words) then show_version
      else if take 1 argv \<in> {[''-h''], [''help'']} \<or> argv = [] \<or> help_override argv then show_help
      else js_try (main_dispatch argv) oclif_catch)"

lemma zero_help_run_command: "zero_help (run_command k argv)"
proof (cases k)
  case CmdChannelInit
  have "ends_with 1 (channel_init_run fl)" for fl
    unfolding channel_init_run_def by (rule ends_with_try) (intro throws_intros)
  with CmdChannelInit show ?thesis
    by (auto simp: channel_init_process_def channel_init_main_def
             intro!: zero_help_uuid zero_help_oclif_run zero_help_parse_run)
next
  case CmdSettingsPush
  have "ends_with 1 (push_run fl)" for fl
    unfolding push_run_def by (rule ends_with_try) (intro throws_intros)
  with CmdSettingsPush show ?thesis
    by (auto simp: push_process_def push_main_def intro!: zero_help_oclif_run zero_help_parse_run)
qed

lemma zero_help_main_dispatch: "zero_help (main_dispatch argv)"
proof -
  have "zero_help (js_throw (command_not_found c))" for c
    by (intro zero_help_nonzero) (simp add: js_throw_def command_not_found_def flag_error_def)
  then show ?thesis
    by (simp add: main_dispatch_def zero_help_show zero_help_run_command split: list.split option.split)
qed

text \<open>C20: Whatever argv and environment, when the CLI restricted to the commands of this repository exits with status 0, the last line it printed is oclif's help or version output: no run that did the command's work ends with status 0.\<close>

theorem run_cli_zero_after_help:
  assumes "fst (handle (run_cli argv) e w) = 0"
  shows "help_shown (snd (handle (run_cli argv) e w))"
proof -
  have "zero_help (run_cli argv)"
    by (simp add: run_cli_def zero_help_show zero_help_catch zero_help_main_dispatch)
  then show ?thesis using assms by (rule handle_zero_help)
qed

theorem run_cli_zero_after_help_witness:
  "fst (handle (run_cli [''--version'']) demo_env demo_world) = 0 \<and>
   help_shown (snd (handle (run_cli [''--version'']) demo_env demo_world))"
proof -
  have h: "handle (run_cli [''--version'']) demo_env demo_world = (0, demo_world\<lparr>stdout := [LogVersion]\<rparr>)"
    by (simp add: run_cli_def version_words_def handle_show_version demo_world_def)
  then show ?thesis using run_cli_zero_after_help [of "[''--version'']" demo_env demo_world] by simp
qed

section \<open>The \<open>--data\<close> round trip\<close>

lemma json_parse_Nil: "json_parse [] \<noteq> Inr v"
  by (simp add: json_parse_def)



end
